(* ===== verification/Prelude.thy ===== *)
theory Prelude
  imports Main "HOL-Library.Word"
begin

text \<open>
  Shared vocabulary of the development: the names of the model's types (addresses and
  hex data are the 0x-prefixed strings of viem's \<open>Address\<close> and \<open>Hex\<close>), the JSON
  values that travel over HTTP, a lookup on JSON objects with the last-key-wins rule of
  \<open>JSON.parse\<close>, and the generic list lemmas the component proofs share. The
  \<open>named_theorems\<close> collections gather the frame lemmas (which fields of the world an
  operation leaves alone) and the unfolding lemmas of each component.
\<close>

named_theorems world_frame "fields of the world that an operation leaves unchanged"
named_theorems model_unfold "unfolding lemmas of the component operations"

type_synonym address = string
type_synonym hex = string
type_synonym byte = "8 word"

subsection \<open>JSON values\<close>

datatype json =
    JNull
  | JBool bool
  | JNum int
  | JStr string
  | JArr "json list"
  | JObj "(string \<times> json) list"

text \<open>\<open>JSON.parse\<close> keeps the last of duplicate keys, so lookup searches from the end.\<close>

definition obj_get :: "(string \<times> json) list \<Rightarrow> string \<Rightarrow> json option" where
  "obj_get kvs k = map_of (rev kvs) k"

lemma obj_get_Nil [simp]: "obj_get [] k = None"
  by (simp add: obj_get_def)

lemma obj_get_Cons [simp]:
  "obj_get ((k', v) # kvs) k = (case obj_get kvs k of None \<Rightarrow> (if k = k' then Some v else None) | Some u \<Rightarrow> Some u)"
  by (auto simp: obj_get_def map_of_append map_add_def split: option.splits)

subsection \<open>Big-endian fixed-width byte encoding\<close>

text \<open>\<open>be_bytes n x\<close> is the n-byte big-endian encoding of \<open>x mod 256^n\<close>, as the ABI
  and the packed encodings write integers; \<open>be_nat\<close> reads it back.\<close>

fun be_bytes :: "nat \<Rightarrow> nat \<Rightarrow> byte list" where
  "be_bytes 0 x = []"
| "be_bytes (Suc n) x = be_bytes n (x div 256) @ [word_of_nat (x mod 256)]"

definition be_nat :: "byte list \<Rightarrow> nat" where
  "be_nat bs = foldl (\<lambda>acc b. acc * 256 + unat b) 0 bs"

lemma length_be_bytes [simp]: "length (be_bytes n x) = n"
  by (induction n arbitrary: x) auto

lemma be_nat_Nil [simp]: "be_nat [] = 0"
  by (simp add: be_nat_def)

lemma be_nat_snoc [simp]: "be_nat (bs @ [b]) = be_nat bs * 256 + unat b"
  by (simp add: be_nat_def)

lemma unat_byte_of_mod: "unat (word_of_nat (x mod 256) :: byte) = x mod 256"
  by (simp add: unat_of_nat)

lemma be_nat_be_bytes: "be_nat (be_bytes n x) = x mod 256 ^ n"
proof (induction n arbitrary: x)
  case 0
  then show ?case by simp
next
  case (Suc n)
  have "be_nat (be_bytes (Suc n) x) = (x div 256) mod 256 ^ n * 256 + x mod 256"
    by (simp add: Suc.IH unat_byte_of_mod)
  also have "\<dots> = x mod (256 * 256 ^ n)"
    by (simp add: mod_mult2_eq)
  finally show ?case by simp
qed

lemma be_nat_less: "be_nat bs < 256 ^ length bs"
proof (induction bs rule: rev_induct)
  case Nil
  then show ?case by simp
next
  case (snoc b bs)
  have "unat b < 256" using unsigned_less [of b] by simp
  with snoc.IH have "be_nat bs * 256 + unat b < 256 ^ length bs * 256"
    by linarith
  then show ?case by simp
qed

lemma be_bytes_be_nat: "be_bytes (length bs) (be_nat bs) = bs"
proof (induction bs rule: rev_induct)
  case Nil
  then show ?case by simp
next
  case (snoc b bs)
  have u: "unat b < 256" using unsigned_less [of b] by simp
  then have "(be_nat bs * 256 + unat b) div 256 = be_nat bs" and "(be_nat bs * 256 + unat b) mod 256 = unat b"
    by simp_all
  with snoc.IH show ?case by simp
qed

lemma be_bytes_inj:
  "x < 256 ^ n \<Longrightarrow> y < 256 ^ n \<Longrightarrow> be_bytes n x = be_bytes n y \<Longrightarrow> x = y"
  by (metis be_nat_be_bytes mod_less)


definition word_be :: "nat \<Rightarrow> 'a::len word \<Rightarrow> byte list" where
  "word_be n x = be_bytes n (unat x)"

definition be_word :: "byte list \<Rightarrow> 'a::len word" where
  "be_word bs = word_of_nat (be_nat bs)"

lemma length_word_be [simp]: "length (word_be n x) = n"
  by (simp add: word_be_def)

lemma be_word_word_be:
  assumes "LENGTH('a) = 8 * n"
  shows "be_word (word_be n (x :: 'a::len word)) = x"
proof -
  have "unat x < 2 ^ LENGTH('a)" by simp
  also have "(2::nat) ^ LENGTH('a) = 256 ^ n" using assms by (simp add: power_mult)
  finally show ?thesis by (simp add: be_word_def word_be_def be_nat_be_bytes)
qed

lemma word_be_be_word:
  assumes "LENGTH('a) = 8 * n" and "length bs = n"
  shows "word_be n (be_word bs :: 'a::len word) = bs"
proof -
  have "be_nat bs < 256 ^ n" using be_nat_less [of bs] assms(2) by simp
  also have "(256::nat) ^ n = 2 ^ LENGTH('a)" using assms(1) by (simp add: power_mult)
  finally have "unat (word_of_nat (be_nat bs) :: 'a word) = be_nat bs"
    by (simp add: unat_of_nat)
  then show ?thesis using assms(2) be_bytes_be_nat [of bs] by (simp add: word_be_def be_word_def)
qed

subsection \<open>Splitting a byte string into fields of given widths\<close>

fun split_fields :: "nat list \<Rightarrow> 'a list \<Rightarrow> 'a list list option" where
  "split_fields [] bs = (if bs = [] then Some [] else None)"
| "split_fields (n # ns) bs =
     (if n \<le> length bs then map_option (\<lambda>fs. take n bs # fs) (split_fields ns (drop n bs)) else None)"

lemma split_fields_concat: "split_fields (map length fs) (concat fs) = Some fs"
  by (induction fs) auto

lemma split_fields_Some:
  "split_fields ns bs = Some fs \<Longrightarrow> concat fs = bs \<and> map length fs = ns"
proof (induction ns arbitrary: bs fs)
  case Nil
  then show ?case by (simp split: if_splits)
next
  case (Cons n ns)
  then obtain fs' where fs: "fs = take n bs # fs'" and n: "n \<le> length bs"
    and rest: "split_fields ns (drop n bs) = Some fs'"
    by (auto split: if_splits)
  from Cons.IH [OF rest] fs n show ?case by simp
qed

subsection \<open>Hex strings\<close>

text \<open>0x-prefixed hex as viem writes \<open>Hex\<close> values: lower-case digits on output, either case on input.\<close>

definition hex_digit :: "nat \<Rightarrow> char" where
  "hex_digit n = char_of (if n < 10 then 48 + n else 87 + n)"

definition digit_val :: "char \<Rightarrow> nat option" where
  "digit_val c =
     (let k = (of_char c :: nat) in
      if 48 \<le> k \<and> k \<le> 57 then Some (k - 48)
      else if 97 \<le> k \<and> k \<le> 102 then Some (k - 87)
      else if 65 \<le> k \<and> k \<le> 70 then Some (k - 55)
      else None)"

fun hex_of_bytes :: "byte list \<Rightarrow> string" where
  "hex_of_bytes [] = []"
| "hex_of_bytes (b # bs) = hex_digit (unat b div 16) # hex_digit (unat b mod 16) # hex_of_bytes bs"

fun bytes_of_hex :: "string \<Rightarrow> byte list option" where
  "bytes_of_hex [] = Some []"
| "bytes_of_hex [c] = None"
| "bytes_of_hex (c1 # c2 # cs) =
     (case (digit_val c1, digit_val c2) of
        (Some h, Some l) \<Rightarrow> map_option (\<lambda>bs. word_of_nat (16 * h + l) # bs) (bytes_of_hex cs)
      | _ \<Rightarrow> None)"

definition show_hex :: "byte list \<Rightarrow> string" where
  "show_hex bs = ''0x'' @ hex_of_bytes bs"

definition read_hex :: "string \<Rightarrow> byte list option" where
  "read_hex s = (if take 2 s = ''0x'' then bytes_of_hex (drop 2 s) else None)"

lemma digit_val_hex_digit [simp]: "n < 16 \<Longrightarrow> digit_val (hex_digit n) = Some n"
  by (auto simp: digit_val_def hex_digit_def Let_def)

lemma length_hex_of_bytes [simp]: "length (hex_of_bytes bs) = 2 * length bs"
  by (induction bs) auto

lemma bytes_of_hex_of_bytes [simp]: "bytes_of_hex (hex_of_bytes bs) = Some bs"
proof (induction bs)
  case Nil
  then show ?case by simp
next
  case (Cons b bs)
  have "unat b < 256" using unsigned_less [of b] by simp
  then have "unat b div 16 < 16" and "unat b mod 16 < 16" by simp_all
  moreover have "(word_of_nat (16 * (unat b div 16) + unat b mod 16) :: byte) = b"
    by simp
  ultimately show ?case using Cons.IH by simp
qed

lemma read_show_hex [simp]: "read_hex (show_hex bs) = Some bs"
  by (simp add: read_hex_def show_hex_def)

lemma length_show_hex [simp]: "length (show_hex bs) = 2 + 2 * length bs"
  by (simp add: show_hex_def)


subsection \<open>Lists\<close>

lemma concat_map_if_filter:
  "concat (map (\<lambda>x. if P x then [f x] else []) xs) = map f (filter P xs)"
  by (induction xs) auto

lemma list_all_map_conv: "list_all P (map f xs) = list_all (P \<circ> f) xs"
  by (induction xs) auto

end
