(* ===== verification/Fastify.thy ===== *)
theory Fastify
  imports Prelude
begin

text \<open>
  The HTTP server that \<open>main\<close> in src/mock-verifying-paymaster/src/index.ts builds:
  the Fastify application value (\<open>Fastify({})\<close>, line 32), the calls that configure it
  (\<open>app.register(cors, ...)\<close> lines 74--77, \<open>app.post("/", {}, rpcHandler)\<close> line 84,
  \<open>app.get("/ping", ...)\<close> lines 86--88, \<open>app.listen\<close> line 90) and the dispatch of a
  request to the registered handlers. The JSON-RPC handler itself comes from another
  module (\<open>createRpcHandler\<close> of ./relay); here it is the parameter \<open>rpc\<close> of
  \<open>serve\<close>, and so is the JSON text parser of Fastify's body parser.
\<close>

datatype http_method = GET | POST | OPTIONS | HEAD | OtherMethod string

text \<open>The chain object \<open>getChain\<close> returns, as far as the clients use it: its id and the
  first default RPC URL (\<open>rpcUrls.default.http[0]\<close>), if it has one.\<close>

record chain =
  chain_id :: nat
  chain_rpc :: "string option"

text \<open>The clients that \<open>main\<close> hands to the relay (lines 43--50): the URL their HTTP
  transport sends to and their chain.\<close>

record client =
  transport_url :: string
  client_chain :: chain

record rpc_config =
  bundler :: client
  publicClient :: client
  paymasterSigner :: address

datatype handler = RpcHandler rpc_config | PingHandler

record route =
  route_method :: http_method
  route_url :: string
  route_handler :: handler

record cors_options =
  cors_origin :: string
  cors_methods :: "http_method list"

record app =
  cors :: "cors_options option"
  routes :: "route list"
  listening :: "(string \<times> nat) option"

text \<open>A request as the handlers see it; \<open>req_time\<close> is the clock reading, in Unix
  seconds, at the moment the handler runs (what the relay reads with \<open>Date.now()\<close> to
  compute a validity window).\<close>

record http_request =
  req_method :: http_method
  req_url :: string
  req_headers :: "(string \<times> string) list"
  req_body :: string
  req_time :: "48 word"

record http_response =
  status :: nat
  resp_headers :: "(string \<times> string) list"
  resp_body :: json

subsection \<open>Building the application (index.ts lines 32, 74--90)\<close>

definition fastify_new :: app where
  "fastify_new = \<lparr>cors = None, routes = [], listening = None\<rparr>"

definition register_cors :: "cors_options \<Rightarrow> app \<Rightarrow> app" where
  "register_cors opts a = a\<lparr>cors := Some opts\<rparr>"

definition app_post :: "string \<Rightarrow> handler \<Rightarrow> app \<Rightarrow> app" where
  "app_post url h a = a\<lparr>routes := routes a @ [\<lparr>route_method = POST, route_url = url, route_handler = h\<rparr>]\<rparr>"

definition app_get :: "string \<Rightarrow> handler \<Rightarrow> app \<Rightarrow> app" where
  "app_get url h a = a\<lparr>routes := routes a @ [\<lparr>route_method = GET, route_url = url, route_handler = h\<rparr>]\<rparr>"

definition app_listen :: "string \<Rightarrow> nat \<Rightarrow> app \<Rightarrow> app" where
  "app_listen host port a = a\<lparr>listening := Some (host, port)\<rparr>"

text \<open>The \<open>/ping\<close> handler (lines 86--88): \<open>reply.code(200).send({message: "pong"})\<close>.\<close>

definition ping_reply :: http_response where
  "ping_reply = \<lparr>status = 200, resp_headers = [], resp_body = JObj [(''message'', JStr ''pong'')]\<rparr>"

subsection \<open>Dispatch\<close>

text \<open>A response's headers are the ones the CORS plugin sets (and the preflight's
  Content-Length); the Content-Type and Content-Length that Fastify derives from a body
  are not modelled. Fastify's own errors are answered with its error object.\<close>

fun show_method :: "http_method \<Rightarrow> string" where
  "show_method GET = ''GET''"
| "show_method POST = ''POST''"
| "show_method OPTIONS = ''OPTIONS''"
| "show_method HEAD = ''HEAD''"
| "show_method (OtherMethod m) = m"

definition fastify_error :: "nat \<Rightarrow> string \<Rightarrow> string \<Rightarrow> string \<Rightarrow> http_response" where
  "fastify_error st errcode err msg =
     \<lparr>status = st, resp_headers = [],
      resp_body = JObj [(''statusCode'', JNum (int st)), (''code'', JStr errcode), (''error'', JStr err),
                        (''message'', JStr msg)]\<rparr>"

text \<open>Fastify's default 404 handler: \<open>Route METHOD:URL not found\<close>.\<close>

definition not_found_reply :: "http_request \<Rightarrow> http_response" where
  "not_found_reply r =
     \<lparr>status = 404, resp_headers = [],
      resp_body = JObj [(''message'', JStr (''Route '' @ show_method (req_method r) @ '':'' @ req_url r @ '' not found'')),
                        (''error'', JStr ''Not Found''), (''statusCode'', JNum 404)]\<rparr>"

definition header :: "(string \<times> string) list \<Rightarrow> string \<Rightarrow> string option" where
  "header hs k = map_of hs k"

text \<open>Routes are matched on the path, the URL without its query string; a GET route also
  answers HEAD (Fastify's \<open>exposeHeadRoutes\<close>), without a body.\<close>

definition url_path :: "string \<Rightarrow> string" where
  "url_path u = takeWhile (\<lambda>c. c \<noteq> CHR ''?'') u"

fun lookup_method :: "http_method \<Rightarrow> http_method" where
  "lookup_method HEAD = GET"
| "lookup_method m = m"

fun find_route :: "route list \<Rightarrow> http_method \<Rightarrow> string \<Rightarrow> handler option" where
  "find_route [] m u = None"
| "find_route (r # rs) m u =
     (if route_method r = m \<and> route_url r = u then Some (route_handler r) else find_route rs m u)"

definition head_body :: "http_request \<Rightarrow> http_response \<Rightarrow> http_response" where
  "head_body r resp = (if req_method r = HEAD then resp\<lparr>resp_body := JNull\<rparr> else resp)"

text \<open>Fastify's body parsing before a POST handler runs, chosen by the media type of the
  Content-Type header (its parameters, such as a charset, are ignored): an
  \<open>application/json\<close> body is parsed (a parse failure is answered 400 by Fastify and the
  handler never runs), a \<open>text/plain\<close> body is passed as a string, other media types are
  refused with 415; a request without Content-Type and without a body reaches the handler
  with no body.\<close>

definition media_type :: "string \<Rightarrow> string" where
  "media_type ct = rev (dropWhile (\<lambda>c. c = CHR '' '') (rev (takeWhile (\<lambda>c. c \<noteq> CHR '';'') ct)))"

definition parse_body ::
  "(string \<Rightarrow> json option) \<Rightarrow> http_request \<Rightarrow> http_response + json" where
  "parse_body parse r =
     (case header (req_headers r) ''content-type'' of
        Some ct \<Rightarrow>
          (if media_type ct = ''application/json''
           then (case parse (req_body r) of
                   None \<Rightarrow> Inl (fastify_error 400 ''FST_ERR_CTP_INVALID_JSON_BODY'' ''Bad Request''
                                 (''Body is not valid JSON but content-type is set to '' @ [CHR 39] @ ''application/json'' @ [CHR 39]))
                 | Some j \<Rightarrow> Inr j)
           else if media_type ct = ''text/plain'' then Inr (JStr (req_body r))
           else Inl (fastify_error 415 ''FST_ERR_CTP_INVALID_MEDIA_TYPE'' ''Unsupported Media Type'' ''Unsupported Media Type''))
      | None \<Rightarrow> (if req_body r = [] then Inr JNull
                 else Inl (fastify_error 415 ''FST_ERR_CTP_INVALID_MEDIA_TYPE'' ''Unsupported Media Type'' ''Unsupported Media Type'')))"

definition run_handler ::
  "(rpc_config \<Rightarrow> 48 word \<Rightarrow> json \<Rightarrow> http_response) \<Rightarrow> (string \<Rightarrow> json option) \<Rightarrow> handler \<Rightarrow> http_request \<Rightarrow> http_response" where
  "run_handler rpc parse h r =
     (case h of
        PingHandler \<Rightarrow> ping_reply
      | RpcHandler cfg \<Rightarrow>
          (if req_method r = POST
           then (case parse_body parse r of Inl err \<Rightarrow> err | Inr j \<Rightarrow> rpc cfg (req_time r) j)
           else rpc cfg (req_time r) JNull))"

text \<open>The CORS plugin with \<open>origin: "*"\<close> adds \<open>Access-Control-Allow-Origin: *\<close> to every
  response and answers OPTIONS requests itself. With its default \<open>strictPreflight\<close> an
  OPTIONS request whose \<open>Origin\<close> or \<open>Access-Control-Request-Method\<close> header is missing
  or empty is refused with 400 and the text \<open>Invalid Preflight Request\<close>. Otherwise the
  answer is 204 with the configured methods, joined by commas, in
  \<open>Access-Control-Allow-Methods\<close>, \<open>Vary: Access-Control-Request-Headers\<close>, the request's
  \<open>Access-Control-Request-Headers\<close> reflected in \<open>Access-Control-Allow-Headers\<close> (no
  \<open>allowedHeaders\<close> option is given) and \<open>Content-Length: 0\<close>.\<close>

fun join_methods :: "http_method list \<Rightarrow> string" where
  "join_methods [] = []"
| "join_methods [m] = show_method m"
| "join_methods (m # ms) = show_method m @ '', '' @ join_methods ms"

definition with_cors :: "cors_options option \<Rightarrow> http_response \<Rightarrow> http_response" where
  "with_cors co resp =
     (case co of None \<Rightarrow> resp
      | Some opts \<Rightarrow> resp\<lparr>resp_headers := (''access-control-allow-origin'', cors_origin opts) # resp_headers resp\<rparr>)"

definition header_falsy :: "(string \<times> string) list \<Rightarrow> string \<Rightarrow> bool" where
  "header_falsy hs k = (header hs k = None \<or> header hs k = Some [])"

definition preflight_reply :: "cors_options \<Rightarrow> http_request \<Rightarrow> http_response" where
  "preflight_reply opts r =
     (if header_falsy (req_headers r) ''origin'' \<or> header_falsy (req_headers r) ''access-control-request-method''
      then \<lparr>status = 400, resp_headers = [], resp_body = JStr ''Invalid Preflight Request''\<rparr>
      else \<lparr>status = 204,
            resp_headers = [(''access-control-allow-methods'', join_methods (cors_methods opts)),
                            (''vary'', ''Access-Control-Request-Headers'')] @
                           (case header (req_headers r) ''access-control-request-headers'' of
                              Some hs \<Rightarrow> [(''access-control-allow-headers'', hs)] | None \<Rightarrow> []) @
                           [(''content-length'', ''0'')],
            resp_body = JNull\<rparr>)"

text \<open>A request to a server that is not listening gets no response (connection refused).\<close>

definition serve ::
  "app \<Rightarrow> (rpc_config \<Rightarrow> 48 word \<Rightarrow> json \<Rightarrow> http_response) \<Rightarrow> (string \<Rightarrow> json option) \<Rightarrow> http_request \<Rightarrow> http_response option" where
  "serve a rpc parse r =
     (if listening a = None then None
      else Some (with_cors (cors a)
        (case (cors a, req_method r) of
           (Some opts, OPTIONS) \<Rightarrow> preflight_reply opts r
         | _ \<Rightarrow>
           (case find_route (routes a) (lookup_method (req_method r)) (url_path (req_url r)) of
              None \<Rightarrow> not_found_reply r
            | Some h \<Rightarrow> head_body r (run_handler rpc parse h r)))))"

subsection \<open>Lemmas\<close>

text \<open>Fastify's own refusals of a POST body are 400 or 415 with its JSON error object.\<close>

lemma parse_body_Inl:
  "parse_body parse r = Inl err \<Longrightarrow> \<exists>st kvs. st \<in> {400, 415} \<and> err = \<lparr>status = st, resp_headers = [], resp_body = JObj kvs\<rparr>"
  unfolding parse_body_def fastify_error_def
  by (auto split: option.splits if_splits)

end
