(* ===== verification/Startup.thy ===== *)
theory Startup
  imports Fastify "HOL-Library.Sublist"
begin

text \<open>
  The startup sequence of src/mock-verifying-paymaster/src/index.ts: \<open>verifyDeployed\<close>
  (lines 15--28) and \<open>main\<close> (lines 30--91), split at the code's own phases: reading the
  configuration and creating the clients (lines 31--56), the deployment check and the
  fallback deployment (lines 58--72), registering the routes (lines 74--88) and
  listening (line 90). The state is the \<open>world\<close> the process sees: its environment,
  whether the chain node answers, the code the node reports at each address, the
  console and the list of calls \<open>main\<close> made to the chain and to the deployment
  helpers. The helpers imported from other modules (getChain, getAnvilWalletClient, the
  three address functions of ./constants, deployPaymasters, deployErc20Token) are the
  fields of the interface record \<open>collab\<close>: every lemma holds for any of them, or for
  those that meet a stated contract.
\<close>

datatype call = GetCode address | CallDeployPaymasters | CallDeployErc20Token

datatype error =
    GetCodeFailed address
  | GetChainFailed
  | WalletFailed
  | DeployFailed string
  | ListenFailed nat
  | UrlRequired

record world =
  env :: "string \<Rightarrow> string option"
  node_up :: bool
  code :: "address \<Rightarrow> hex option"
  console :: "string list"
  calls :: "call list"
  port_free :: "nat \<Rightarrow> bool"

record collab =
  getChain :: "world \<Rightarrow> error + chain"
  getAnvilWalletClient :: "string option \<Rightarrow> nat \<Rightarrow> world \<Rightarrow> error + address"
  getSingletonPaymaster06Address :: "address \<Rightarrow> address"
  getSingletonPaymaster07Address :: "address \<Rightarrow> address"
  getSingletonPaymaster08Address :: "address \<Rightarrow> address"
  deployPaymasters :: "address \<Rightarrow> world \<Rightarrow> error + (address \<Rightarrow> hex option)"
  deployErc20Token :: "address \<Rightarrow> world \<Rightarrow> error + (address \<Rightarrow> hex option)"

subsection \<open>Primitive effects\<close>

definition console_log :: "string \<Rightarrow> world \<Rightarrow> world" where
  "console_log s w = w\<lparr>console := console w @ [s]\<rparr>"

text \<open>\<open>await client.getCode({address})\<close> (lines 18--20): the node's answer, or a rejected
  promise when the node does not answer.\<close>

definition getCode :: "world \<Rightarrow> address \<Rightarrow> error + hex option \<times> world" where
  "getCode w a =
     (if node_up w then Inr (code w a, w\<lparr>calls := calls w @ [GetCode a]\<rparr>)
      else Inl (GetCodeFailed a))"

text \<open>viem's \<open>http(url)\<close> transport, instantiated when \<open>createPublicClient\<close> and
  \<open>createBundlerClient\<close> run (lines 43--50): it sends to \<open>url\<close> when that is truthy,
  otherwise to the chain's default RPC URL, and throws \<open>UrlRequiredError\<close> when neither
  is a non-empty string. \<open>process.env.X as string\<close> (lines 33--34) casts without a check,
  so an unset variable reaches it as \<open>undefined\<close>, an empty one as the empty string.\<close>

definition js_url :: "string option \<Rightarrow> string option" where
  "js_url u = (case u of Some s \<Rightarrow> (if s = [] then None else Some s) | None \<Rightarrow> None)"

lemma js_url_simps [simp]: "js_url None = None" "js_url (Some s) = (if s = [] then None else Some s)"
  by (simp_all add: js_url_def)

definition http_transport :: "string option \<Rightarrow> chain \<Rightarrow> error + string" where
  "http_transport url ch =
     (case js_url url of
        Some u \<Rightarrow> Inr u
      | None \<Rightarrow> (case js_url (chain_rpc ch) of Some u \<Rightarrow> Inr u | None \<Rightarrow> Inl UrlRequired))"

lemma http_transport_simps [simp]:
  "http_transport None ch = (case js_url (chain_rpc ch) of Some u \<Rightarrow> Inr u | None \<Rightarrow> Inl UrlRequired)"
  "http_transport (Some s) ch =
     (if s = [] then (case js_url (chain_rpc ch) of Some u \<Rightarrow> Inr u | None \<Rightarrow> Inl UrlRequired) else Inr s)"
  by (simp_all add: http_transport_def)

subsection \<open>verifyDeployed (lines 15--28)\<close>

text \<open>The test of line 21, \<open>!bytecode || bytecode === "0x"\<close>: \<open>undefined\<close> and the empty
  string are falsy in JavaScript.\<close>

definition not_deployed :: "hex option \<Rightarrow> bool" where
  "not_deployed b = (case b of None \<Rightarrow> True | Some s \<Rightarrow> s = [] \<or> s = ''0x'')"

abbreviation deployed_at :: "world \<Rightarrow> address \<Rightarrow> bool" where
  "deployed_at w a \<equiv> \<not> not_deployed (code w a)"

definition not_deployed_msg :: "address \<Rightarrow> string" where
  "not_deployed_msg a = ''CONTRACT '' @ a @ '' NOT DEPLOYED!!!''"

fun verifyDeployed_loop :: "world \<Rightarrow> address list \<Rightarrow> bool \<Rightarrow> error + bool \<times> world" where
  "verifyDeployed_loop w [] isDeployed = Inr (isDeployed, w)"
| "verifyDeployed_loop w (a # as) isDeployed =
     (case getCode w a of
        Inl e \<Rightarrow> Inl e
      | Inr (bytecode, w') \<Rightarrow>
          (if not_deployed bytecode
           then verifyDeployed_loop (console_log (not_deployed_msg a) w') as False
           else verifyDeployed_loop w' as isDeployed))"

definition verifyDeployed :: "world \<Rightarrow> address list \<Rightarrow> error + bool \<times> world" where
  "verifyDeployed w addresses = verifyDeployed_loop w addresses True"

subsection \<open>main, lines 31--56: configuration and clients\<close>

record startup =
  anvilRpc :: "string option"
  altoRpc :: "string option"
  walletAddress :: address
  public_client :: client
  bundler_client :: client
  paymaster06 :: address
  paymaster07 :: address
  paymaster08 :: address

definition main_setup :: "collab \<Rightarrow> world \<Rightarrow> error + startup \<times> world" where
  "main_setup c w0 =
     (let w1 = console_log ''Starting mock singleton paymaster...'' w0;
          anvil = env w1 ''ANVIL_RPC'';
          alto = env w1 ''ALTO_RPC''
      in case getChain c w1 of
           Inl e \<Rightarrow> Inl e
         | Inr chain \<Rightarrow>
           (case getAnvilWalletClient c anvil 1 w1 of
              Inl e \<Rightarrow> Inl e
            | Inr wallet \<Rightarrow>
              (case http_transport anvil chain of
                 Inl e \<Rightarrow> Inl e
               | Inr pu \<Rightarrow>
                 (case http_transport alto chain of
                    Inl e \<Rightarrow> Inl e
                  | Inr bu \<Rightarrow>
                      Inr (\<lparr>anvilRpc = anvil, altoRpc = alto, walletAddress = wallet,
                             public_client = \<lparr>transport_url = pu, client_chain = chain\<rparr>,
                             bundler_client = \<lparr>transport_url = bu, client_chain = chain\<rparr>,
                             paymaster06 = getSingletonPaymaster06Address c wallet,
                             paymaster07 = getSingletonPaymaster07Address c wallet,
                             paymaster08 = getSingletonPaymaster08Address c wallet\<rparr>,
                           console_log (''Wallet client created: '' @ '' '' @ wallet) w1)))))"

definition paymasters :: "startup \<Rightarrow> address list" where
  "paymasters s = [paymaster06 s, paymaster07 s, paymaster08 s]"

subsection \<open>main, lines 58--72: deployment check and fallback deployment\<close>

text \<open>A deployment helper is called (the call is recorded), then its result replaces the
  code the node reports; a rejection ends \<open>main\<close>.\<close>

definition run_deploy ::
  "call \<Rightarrow> (world \<Rightarrow> error + (address \<Rightarrow> hex option)) \<Rightarrow> world \<Rightarrow> error + world" where
  "run_deploy k f w =
     (let w' = w\<lparr>calls := calls w @ [k]\<rparr>
      in case f w' of Inl e \<Rightarrow> Inl e | Inr cd \<Rightarrow> Inr (w'\<lparr>code := cd\<rparr>))"

definition show_paymasters :: "startup \<Rightarrow> string" where
  "show_paymasters s =
     ''{'' @ [CHR 10] @ ''  paymaster06: '' @ [CHR 39] @ paymaster06 s @ [CHR 39] @ '','' @ [CHR 10]
     @ ''  paymaster07: '' @ [CHR 39] @ paymaster07 s @ [CHR 39] @ '','' @ [CHR 10]
     @ ''  paymaster08: '' @ [CHR 39] @ paymaster08 s @ [CHR 39] @ [CHR 10] @ ''}''"

definition bootstrap :: "collab \<Rightarrow> startup \<Rightarrow> world \<Rightarrow> error + world" where
  "bootstrap c s w =
     (case verifyDeployed w (paymasters s) of
        Inl e \<Rightarrow> Inl e
      | Inr (isDeployed, w1) \<Rightarrow>
          (if isDeployed
           then Inr (console_log (''Paymaster addresses: '' @ '' '' @ show_paymasters s) w1)
           else (case run_deploy CallDeployPaymasters (deployPaymasters c (walletAddress s)) w1 of
                   Inl e \<Rightarrow> Inl e
                 | Inr w2 \<Rightarrow> run_deploy CallDeployErc20Token (deployErc20Token c (walletAddress s)) w2)))"

subsection \<open>main, lines 74--91: routes and listening\<close>

definition register_routes :: "startup \<Rightarrow> app \<Rightarrow> app" where
  "register_routes s a =
     app_get ''/ping'' PingHandler
       (app_post ''/'' (RpcHandler \<lparr>bundler = bundler_client s, publicClient = public_client s,
                                   paymasterSigner = walletAddress s\<rparr>)
         (register_cors \<lparr>cors_origin = ''*'', cors_methods = [POST, GET, OPTIONS]\<rparr> a))"

definition listen :: "app \<Rightarrow> world \<Rightarrow> error + world \<times> app" where
  "listen a w =
     (if port_free w 3000 then Inr (w\<lparr>port_free := (port_free w)(3000 := False)\<rparr>, app_listen ''0.0.0.0'' 3000 a)
      else Inl (ListenFailed 3000))"

definition main :: "collab \<Rightarrow> world \<Rightarrow> error + world \<times> app" where
  "main c w0 =
     (let a0 = fastify_new
      in case main_setup c w0 of
           Inl e \<Rightarrow> Inl e
         | Inr (s, w1) \<Rightarrow>
           (case bootstrap c s w1 of
              Inl e \<Rightarrow> Inl e
            | Inr w2 \<Rightarrow> listen (register_routes s a0) w2))"

subsection \<open>A concrete configuration\<close>

text \<open>A fresh chain (no code anywhere), the first anvil account as signer, and helpers
  that deploy code at the three paymaster addresses and at a token address.\<close>

abbreviation example_world :: world where
  "example_world \<equiv> \<lparr>env = (\<lambda>_. None), node_up = True, code = (\<lambda>_. None), console = [], calls = [],
                     port_free = (\<lambda>_. True)\<rparr>"

abbreviation foundry :: chain where
  "foundry \<equiv> \<lparr>chain_id = 31337, chain_rpc = Some ''http://127.0.0.1:8545''\<rparr>"

abbreviation example_collab :: collab where
  "example_collab \<equiv>
     \<lparr>getChain = (\<lambda>_. Inr foundry),
      getAnvilWalletClient = (\<lambda>_ _ _. Inr ''0x70997970c51812dc3a010c7d01b50e0d17dc79c8''),
      getSingletonPaymaster06Address = (\<lambda>_. ''0xa6''),
      getSingletonPaymaster07Address = (\<lambda>_. ''0xa7''),
      getSingletonPaymaster08Address = (\<lambda>_. ''0xa8''),
      deployPaymasters = (\<lambda>_ v. Inr ((code v)(''0xa6'' \<mapsto> ''0x6080'', ''0xa7'' \<mapsto> ''0x6080'', ''0xa8'' \<mapsto> ''0x6080''))),
      deployErc20Token = (\<lambda>_ v. Inr ((code v)(''0xe20'' \<mapsto> ''0x6080'')))\<rparr>"

abbreviation example_startup :: startup where
  "example_startup \<equiv>
     \<lparr>anvilRpc = None, altoRpc = None, walletAddress = ''0x70997970c51812dc3a010c7d01b50e0d17dc79c8'',
      public_client = \<lparr>transport_url = ''http://127.0.0.1:8545'', client_chain = foundry\<rparr>,
      bundler_client = \<lparr>transport_url = ''http://127.0.0.1:8545'', client_chain = foundry\<rparr>,
      paymaster06 = ''0xa6'', paymaster07 = ''0xa7'', paymaster08 = ''0xa8''\<rparr>"

lemmas startup_eval = main_def main_setup_def http_transport_def js_url_def bootstrap_def verifyDeployed_def paymasters_def getCode_def
  not_deployed_def run_deploy_def console_log_def listen_def Let_def

subsection \<open>verifyDeployed and bootstrap\<close>

lemma console_log_frame [simp, world_frame]:
  "code (console_log s w) = code w" "node_up (console_log s w) = node_up w"
  "calls (console_log s w) = calls w" "env (console_log s w) = env w"
  "port_free (console_log s w) = port_free w" "console (console_log s w) = console w @ [s]"
  by (simp_all add: console_log_def)

lemma getCode_up [simp]:
  "node_up w \<Longrightarrow> getCode w a = Inr (code w a, w\<lparr>calls := calls w @ [GetCode a]\<rparr>)"
  by (simp add: getCode_def)

lemma verifyDeployed_loop_up:
  "node_up w \<Longrightarrow> verifyDeployed_loop w as b =
     Inr (b \<and> list_all (\<lambda>a. \<not> not_deployed (code w a)) as,
          w\<lparr>console := console w @ map not_deployed_msg (filter (\<lambda>a. not_deployed (code w a)) as),
            calls := calls w @ map GetCode as\<rparr>)"
proof (induction as arbitrary: w b)
  case Nil
  then show ?case by simp
next
  case (Cons a as)
  show ?case
  proof (cases "not_deployed (code w a)")
    case True
    with Cons show ?thesis by (simp add: console_log_def)
  next
    case False
    with Cons show ?thesis by simp
  qed
qed

lemma verifyDeployed_loop_down:
  "\<not> node_up w \<Longrightarrow> verifyDeployed_loop w (a # as) b = Inl (GetCodeFailed a)"
  by (simp add: getCode_def)


lemma verifyDeployed_up:
  "node_up w \<Longrightarrow> verifyDeployed w as =
     Inr (list_all (deployed_at w) as,
          w\<lparr>console := console w @ map not_deployed_msg (filter (\<lambda>a. not_deployed (code w a)) as),
            calls := calls w @ map GetCode as\<rparr>)"
  by (simp add: verifyDeployed_def verifyDeployed_loop_up)

lemma run_deploy_Inr:
  "run_deploy k f w = Inr w' \<longleftrightarrow>
     (\<exists>cd. f (w\<lparr>calls := calls w @ [k]\<rparr>) = Inr cd \<and> w' = w\<lparr>calls := calls w @ [k], code := cd\<rparr>)"
  by (auto simp: run_deploy_def Let_def split: sum.splits)

lemma filter_list_all_Nil: "list_all (\<lambda>x. \<not> P x) xs \<Longrightarrow> filter P xs = []"
  by (induction xs) auto

lemma bootstrap_present:
  "node_up w \<Longrightarrow> list_all (deployed_at w) (paymasters s) \<Longrightarrow>
   bootstrap c s w = Inr (w\<lparr>console := console w @ [''Paymaster addresses: '' @ '' '' @ show_paymasters s],
                           calls := calls w @ map GetCode (paymasters s)\<rparr>)"
  by (simp add: bootstrap_def verifyDeployed_up filter_list_all_Nil console_log_def)

lemma bootstrap_missing:
  "node_up w \<Longrightarrow> \<not> list_all (deployed_at w) (paymasters s) \<Longrightarrow>
   bootstrap c s w =
     (case run_deploy CallDeployPaymasters (deployPaymasters c (walletAddress s))
             (w\<lparr>console := console w @ map not_deployed_msg (filter (\<lambda>a. not_deployed (code w a)) (paymasters s)),
                calls := calls w @ map GetCode (paymasters s)\<rparr>) of
        Inl e \<Rightarrow> Inl e
      | Inr w2 \<Rightarrow> run_deploy CallDeployErc20Token (deployErc20Token c (walletAddress s)) w2)"
  by (simp add: bootstrap_def verifyDeployed_up)

lemma bootstrap_node_down:
  "\<not> node_up w \<Longrightarrow> bootstrap c s w = Inl (GetCodeFailed (paymaster06 s))"
  by (simp add: bootstrap_def verifyDeployed_def paymasters_def getCode_def)

lemma run_deploy_calls: "run_deploy k f w = Inr w' \<Longrightarrow> calls w' = calls w @ [k]"
  by (auto simp: run_deploy_Inr)

text \<open>The calls of the loop do not depend on what it answers: the lemmas below are what
  the lifecycle theory uses.\<close>

lemma verifyDeployed_loop_calls:
  "verifyDeployed_loop w as b = Inr (r, w') \<Longrightarrow> calls w' = calls w @ map GetCode as"
proof (induction as arbitrary: w b)
  case Nil
  then show ?case by simp
next
  case (Cons a as)
  then show ?case
    by (fastforce simp: getCode_def split: if_splits dest: Cons.IH)
qed

lemma bootstrap_calls_prefix:
  assumes "bootstrap c s w = Inr w'"
  shows "prefix (calls w @ map GetCode (paymasters s)) (calls w')"
proof -
  obtain d w1 where v: "verifyDeployed w (paymasters s) = Inr (d, w1)"
    using assms by (auto simp: bootstrap_def split: sum.splits)
  then have c1: "calls w1 = calls w @ map GetCode (paymasters s)"
    unfolding verifyDeployed_def by (rule verifyDeployed_loop_calls)
  from assms v have "prefix (calls w1) (calls w')"
    by (auto simp: bootstrap_def dest!: run_deploy_calls split: if_splits sum.splits)
  with c1 show ?thesis by simp
qed

subsection \<open>main\<close>

lemma main_setup_frame [world_frame]:
  "main_setup c w = Inr (s, w1) \<Longrightarrow>
     code w1 = code w \<and> calls w1 = calls w \<and> node_up w1 = node_up w \<and> port_free w1 = port_free w"
  by (auto simp: main_setup_def Let_def split: sum.splits)

text \<open>The clients main builds at lines 37--50: the public client's transport from
  ANVIL_RPC and the bundler's from ALTO_RPC, both on the chain getChain returned, and the
  signer the anvil wallet.\<close>

lemma main_setup_clients:
  "main_setup c w0 = Inr (s, w1) \<Longrightarrow>
     \<exists>ch. getChain c (console_log ''Starting mock singleton paymaster...'' w0) = Inr ch \<and>
       getAnvilWalletClient c (env w0 ''ANVIL_RPC'') 1 (console_log ''Starting mock singleton paymaster...'' w0) =
         Inr (walletAddress s) \<and>
       http_transport (env w0 ''ANVIL_RPC'') ch = Inr (transport_url (public_client s)) \<and>
       http_transport (env w0 ''ALTO_RPC'') ch = Inr (transport_url (bundler_client s)) \<and>
       client_chain (public_client s) = ch \<and> client_chain (bundler_client s) = ch"
  by (auto simp: main_setup_def Let_def console_log_def split: sum.splits)

lemma listen_Inr:
  "listen a w = Inr (w', a') \<longleftrightarrow>
     port_free w 3000 \<and> w' = w\<lparr>port_free := (port_free w)(3000 := False)\<rparr> \<and> a' = app_listen ''0.0.0.0'' 3000 a"
  by (auto simp: listen_def)

lemma main_Inr:
  "main c w = Inr (w', a) \<longleftrightarrow>
     (\<exists>s w1 w2. main_setup c w = Inr (s, w1) \<and> bootstrap c s w1 = Inr w2 \<and>
                listen (register_routes s fastify_new) w2 = Inr (w', a))"
  by (auto simp: main_def split: sum.splits)

lemma main_Inl:
  "main c w = Inl e \<longleftrightarrow>
     main_setup c w = Inl e \<or>
     (\<exists>s w1. main_setup c w = Inr (s, w1) \<and>
        (bootstrap c s w1 = Inl e \<or>
         (\<exists>w2. bootstrap c s w1 = Inr w2 \<and> listen (register_routes s fastify_new) w2 = Inl e)))"
  by (auto simp: main_def split: sum.splits)

lemma served_app:
  "app_listen ''0.0.0.0'' 3000 (register_routes s fastify_new) =
     \<lparr>cors = Some \<lparr>cors_origin = ''*'', cors_methods = [POST, GET, OPTIONS]\<rparr>,
      routes = [\<lparr>route_method = POST, route_url = ''/'',
                 route_handler = RpcHandler \<lparr>bundler = bundler_client s, publicClient = public_client s,
                                             paymasterSigner = walletAddress s\<rparr>\<rparr>,
                \<lparr>route_method = GET, route_url = ''/ping'', route_handler = PingHandler\<rparr>],
      listening = Some (''0.0.0.0'', 3000)\<rparr>"
  by (simp add: app_listen_def register_routes_def app_get_def app_post_def register_cors_def fastify_new_def)

lemma main_node_down: "\<not> node_up w \<Longrightarrow> \<exists>e. main c w = Inl e"
  by (cases "main_setup c w")
     (auto simp: main_def bootstrap_node_down dest: main_setup_frame split: sum.splits)


subsection \<open>Properties of verifyDeployed and bootstrap\<close>

text \<open>C1: with the chain node answering, verifyDeployed reads the code of every address
  once and in order (no short-circuit), answers whether every address has code, logs one
  NOT DEPLOYED line per address without code in the same order, and changes nothing else.\<close>

theorem verifyDeployed_result:
  "node_up w \<Longrightarrow> verifyDeployed w addresses =
     Inr (list_all (deployed_at w) addresses,
          w\<lparr>console := console w @ map not_deployed_msg (filter (\<lambda>a. not_deployed (code w a)) addresses),
            calls := calls w @ map GetCode addresses\<rparr>)"
  by (rule verifyDeployed_up)

theorem verifyDeployed_result_witness:
  "node_up (example_world\<lparr>code := (\<lambda>_. None)(''0xa7'' \<mapsto> ''0x6080'')\<rparr>) \<and>
   verifyDeployed (example_world\<lparr>code := (\<lambda>_. None)(''0xa7'' \<mapsto> ''0x6080'')\<rparr>) [''0xa6'', ''0xa7'', ''0xa8''] =
     Inr (False, example_world\<lparr>code := (\<lambda>_. None)(''0xa7'' \<mapsto> ''0x6080''),
                               console := [''CONTRACT 0xa6 NOT DEPLOYED!!!'', ''CONTRACT 0xa8 NOT DEPLOYED!!!''],
                               calls := [GetCode ''0xa6'', GetCode ''0xa7'', GetCode ''0xa8'']\<rparr>)"
  using verifyDeployed_result [of "example_world\<lparr>code := (\<lambda>_. None)(''0xa7'' \<mapsto> ''0x6080'')\<rparr>" "[''0xa6'', ''0xa7'', ''0xa8'']"]
  by (simp add: not_deployed_def not_deployed_msg_def)

text \<open>C2: when the chain node does not answer, the first \<open>getCode\<close> rejects and
  verifyDeployed rejects with it, before reading any other address.\<close>

theorem verifyDeployed_node_down:
  "\<not> node_up w \<Longrightarrow> verifyDeployed w (a # as) = Inl (GetCodeFailed a)"
  unfolding verifyDeployed_def by (rule verifyDeployed_loop_down)

theorem verifyDeployed_node_down_witness:
  "\<not> node_up (example_world\<lparr>node_up := False\<rparr>) \<and>
   verifyDeployed (example_world\<lparr>node_up := False\<rparr>) [''0xa6'', ''0xa7''] = Inl (GetCodeFailed ''0xa6'')"
  using verifyDeployed_node_down [of "example_world\<lparr>node_up := False\<rparr>" "''0xa6''" "[''0xa7'']"] by simp

text \<open>C3: the bootstrap phase first reads the three paymaster addresses, in the order
  0.6, 0.7, 0.8; when one of them has no code it then calls deployPaymasters and after it
  deployErc20Token, and otherwise calls neither.\<close>

theorem bootstrap_call_order:
  assumes "bootstrap c s w = Inr w'"
  shows "calls w' = calls w @ map GetCode (paymasters s) @
           (if list_all (deployed_at w) (paymasters s) then [] else [CallDeployPaymasters, CallDeployErc20Token])"
proof -
  have up: "node_up w"
    using assms bootstrap_node_down by (cases "node_up w") auto
  show ?thesis
  proof (cases "list_all (deployed_at w) (paymasters s)")
    case True
    with up assms show ?thesis by (auto simp: bootstrap_present)
  next
    case False
    with up assms show ?thesis
      by (auto simp: bootstrap_missing run_deploy_Inr split: sum.splits)
  qed
qed


theorem bootstrap_call_order_witness:
  "\<exists>w'. bootstrap example_collab example_startup example_world = Inr w' \<and>
        calls w' = [GetCode ''0xa6'', GetCode ''0xa7'', GetCode ''0xa8'', CallDeployPaymasters, CallDeployErc20Token]"
proof -
  have "\<exists>w'. bootstrap example_collab example_startup example_world = Inr w'"
    by (simp add: startup_eval)
  then obtain w' where b: "bootstrap example_collab example_startup example_world = Inr w'" ..
  from bootstrap_call_order [OF b] b show ?thesis by (simp add: paymasters_def not_deployed_def)
qed


text \<open>C4: refinement of the deployment policy of the spec (every paymaster variant has code
  before the relay serves): if deployPaymasters leaves code at the three addresses and
  deployErc20Token removes no code, every paymaster address has code after bootstrap.\<close>

theorem bootstrap_establishes_deployment:
  assumes boot: "bootstrap c s w = Inr w'"
    and pm: "\<And>v cd. deployPaymasters c (walletAddress s) v = Inr cd \<Longrightarrow> list_all (\<lambda>a. \<not> not_deployed (cd a)) (paymasters s)"
    and tok: "\<And>v cd a. deployErc20Token c (walletAddress s) v = Inr cd \<Longrightarrow> \<not> not_deployed (code v a) \<Longrightarrow> \<not> not_deployed (cd a)"
  shows "list_all (deployed_at w') (paymasters s)"
proof -
  have up: "node_up w"
    using boot bootstrap_node_down by (cases "node_up w") auto
  show ?thesis
  proof (cases "list_all (deployed_at w) (paymasters s)")
    case True
    with up boot show ?thesis by (auto simp: bootstrap_present)
  next
    case False
    with up boot obtain w1 cd1 cd2 where
      d1: "deployPaymasters c (walletAddress s) w1 = Inr cd1" and
      d2: "deployErc20Token c (walletAddress s) (w1\<lparr>code := cd1, calls := calls w1 @ [CallDeployErc20Token]\<rparr>) = Inr cd2" and
      w': "w' = w1\<lparr>code := cd2, calls := calls w1 @ [CallDeployErc20Token]\<rparr>"
      by (auto simp: bootstrap_missing run_deploy_Inr split: sum.splits)
    from d1 have cd1: "list_all (\<lambda>a. \<not> not_deployed (cd1 a)) (paymasters s)" by (rule pm)
    show ?thesis unfolding list_all_iff
    proof
      fix a assume "a \<in> set (paymasters s)"
      with cd1 have "\<not> not_deployed (code (w1\<lparr>code := cd1, calls := calls w1 @ [CallDeployErc20Token]\<rparr>) a)"
        by (simp add: list_all_iff)
      with d2 have "\<not> not_deployed (cd2 a)" by (rule tok)
      then show "deployed_at w' a" by (simp add: w')
    qed
  qed
qed


theorem bootstrap_establishes_deployment_witness:
  "\<exists>w'. bootstrap example_collab example_startup example_world = Inr w' \<and>
        list_all (deployed_at w') (paymasters example_startup)"
proof -
  have "\<exists>w'. bootstrap example_collab example_startup example_world = Inr w'"
    by (simp add: startup_eval)
  then obtain w' where b: "bootstrap example_collab example_startup example_world = Inr w'" ..
  have "list_all (deployed_at w') (paymasters example_startup)"
  proof (rule bootstrap_establishes_deployment [OF b])
    fix v cd assume "deployPaymasters example_collab (walletAddress example_startup) v = Inr cd"
    then show "list_all (\<lambda>a. \<not> not_deployed (cd a)) (paymasters example_startup)"
      by (auto simp: paymasters_def not_deployed_def)
  next
    fix v cd a assume "deployErc20Token example_collab (walletAddress example_startup) v = Inr cd" and "\<not> not_deployed (code v a)"
    then show "\<not> not_deployed (cd a)" by (auto simp: not_deployed_def split: if_splits)
  qed
  with b show ?thesis by blast
qed


text \<open>C5: when the three paymasters already have code, bootstrap deploys nothing: the code
  on the chain is unchanged (a missing token contract stays missing) and the only calls
  are the three reads.\<close>

theorem bootstrap_skips_deployment_when_present:
  assumes "node_up w" and "list_all (deployed_at w) (paymasters s)"
  shows "\<exists>w'. bootstrap c s w = Inr w' \<and> code w' = code w \<and> calls w' = calls w @ map GetCode (paymasters s)"
  using assms by (simp add: bootstrap_present)

theorem bootstrap_skips_deployment_when_present_witness:
  "\<exists>w'. bootstrap example_collab example_startup
          (example_world\<lparr>code := (\<lambda>_. None)(''0xa6'' \<mapsto> ''0x60'', ''0xa7'' \<mapsto> ''0x60'', ''0xa8'' \<mapsto> ''0x60'')\<rparr>) = Inr w' \<and>
        code w' ''0xe20'' = None \<and> calls w' = [GetCode ''0xa6'', GetCode ''0xa7'', GetCode ''0xa8'']"
proof -
  have "node_up (example_world\<lparr>code := (\<lambda>_. None)(''0xa6'' \<mapsto> ''0x60'', ''0xa7'' \<mapsto> ''0x60'', ''0xa8'' \<mapsto> ''0x60'')\<rparr>)"
    and "list_all (deployed_at (example_world\<lparr>code := (\<lambda>_. None)(''0xa6'' \<mapsto> ''0x60'', ''0xa7'' \<mapsto> ''0x60'', ''0xa8'' \<mapsto> ''0x60'')\<rparr>))
           (paymasters example_startup)"
    by (simp_all add: paymasters_def not_deployed_def)
  from bootstrap_skips_deployment_when_present [OF this, of example_collab] show ?thesis
    by (auto simp: paymasters_def)
qed

subsection \<open>Properties of main\<close>

text \<open>C10: main does not check the deployment again after the fallback deployment: once
  deployPaymasters and deployErc20Token resolve, main listens with whatever code they
  left, also when a paymaster address still has none.\<close>

theorem main_serves_without_recheck:
  assumes ms: "main_setup c w = Inr (s, w1)" and up: "node_up w" and port: "port_free w 3000"
    and missing: "\<not> list_all (deployed_at w) (paymasters s)"
    and d1: "\<And>v. deployPaymasters c (walletAddress s) v = Inr cd1" and d2: "\<And>v. deployErc20Token c (walletAddress s) v = Inr cd2"
  shows "\<exists>w'. main c w = Inr (w', app_listen ''0.0.0.0'' 3000 (register_routes s fastify_new)) \<and> code w' = cd2"
proof -
  from ms have fr: "code w1 = code w" "node_up w1 = node_up w" "port_free w1 = port_free w"
    by (auto dest: main_setup_frame)
  with up missing have "\<exists>w2. bootstrap c s w1 = Inr w2 \<and> code w2 = cd2 \<and> port_free w2 = port_free w"
    by (simp add: bootstrap_missing run_deploy_def d1 d2)
  then obtain w2 where b: "bootstrap c s w1 = Inr w2" and c2: "code w2 = cd2" "port_free w2 = port_free w" by blast
  with port have "listen (register_routes s fastify_new) w2 =
      Inr (w2\<lparr>port_free := (port_free w2)(3000 := False)\<rparr>, app_listen ''0.0.0.0'' 3000 (register_routes s fastify_new))"
    by (simp add: listen_def)
  with ms b c2 show ?thesis by (auto simp: main_def)
qed


theorem main_serves_without_recheck_witness:
  "\<exists>w'. main (example_collab\<lparr>deployPaymasters := (\<lambda>_ _. Inr (\<lambda>_. None)), deployErc20Token := (\<lambda>_ _. Inr (\<lambda>_. None))\<rparr>)
          example_world = Inr (w', app_listen ''0.0.0.0'' 3000 (register_routes example_startup fastify_new)) \<and>
        \<not> deployed_at w' ''0xa6''"
proof -
  let ?c = "example_collab\<lparr>deployPaymasters := (\<lambda>_ _. Inr (\<lambda>_. None)), deployErc20Token := (\<lambda>_ _. Inr (\<lambda>_. None))\<rparr>"
  have ms: "main_setup ?c example_world = Inr (example_startup, console_log ''Wallet client created:  0x70997970c51812dc3a010c7d01b50e0d17dc79c8'' (console_log ''Starting mock singleton paymaster...'' example_world))"
    by (simp add: main_setup_def)
  have "\<not> list_all (deployed_at example_world) (paymasters example_startup)"
    by (simp add: paymasters_def not_deployed_def)
  from main_serves_without_recheck [OF ms _ _ this] show ?thesis
    by (auto simp: not_deployed_def)
qed


text \<open>C11: main validates no configuration (\<open>process.env.X as string\<close> casts without
  a check). The setup phase fails exactly when getChain rejects, when getAnvilWalletClient
  rejects, or when viem's HTTP transport of the public client (ANVIL_RPC, line 44) or of
  the bundler client (ALTO_RPC, line 49) has no URL: the variable unset or empty and the
  chain without a default RPC URL, which throws UrlRequiredError; the error is the first
  of these in the order of lines 35--50.\<close>

theorem main_setup_errors:
  "main_setup c w = Inl e \<longleftrightarrow>
     getChain c (console_log ''Starting mock singleton paymaster...'' w) = Inl e \<or>
     (\<exists>ch. getChain c (console_log ''Starting mock singleton paymaster...'' w) = Inr ch \<and>
        (getAnvilWalletClient c (env w ''ANVIL_RPC'') 1 (console_log ''Starting mock singleton paymaster...'' w) = Inl e \<or>
         (\<exists>wallet. getAnvilWalletClient c (env w ''ANVIL_RPC'') 1 (console_log ''Starting mock singleton paymaster...'' w) =
                     Inr wallet) \<and>
         (http_transport (env w ''ANVIL_RPC'') ch = Inl e \<or>
          (\<exists>pu. http_transport (env w ''ANVIL_RPC'') ch = Inr pu \<and> http_transport (env w ''ALTO_RPC'') ch = Inl e))))"
  by (auto simp: main_setup_def Let_def console_log_def split: sum.splits)

theorem main_setup_errors_witness:
  "main_setup (example_collab\<lparr>getChain := (\<lambda>_. Inr (foundry\<lparr>chain_rpc := None\<rparr>))\<rparr>)
     (example_world\<lparr>env := [''ANVIL_RPC'' \<mapsto> ''http://127.0.0.1:8545'']\<rparr>) = Inl UrlRequired \<and>
   http_transport (Some ''http://127.0.0.1:8545'') (foundry\<lparr>chain_rpc := None\<rparr>) = Inr ''http://127.0.0.1:8545'' \<and>
   http_transport None (foundry\<lparr>chain_rpc := None\<rparr>) = Inl UrlRequired"
proof -
  let ?c = "example_collab\<lparr>getChain := (\<lambda>_. Inr (foundry\<lparr>chain_rpc := None\<rparr>))\<rparr>"
  let ?w = "example_world\<lparr>env := [''ANVIL_RPC'' \<mapsto> ''http://127.0.0.1:8545'']\<rparr>"
  have "main_setup ?c ?w = Inl UrlRequired \<longleftrightarrow>
     getChain ?c (console_log ''Starting mock singleton paymaster...'' ?w) = Inl UrlRequired \<or>
     (\<exists>ch. getChain ?c (console_log ''Starting mock singleton paymaster...'' ?w) = Inr ch \<and>
        (getAnvilWalletClient ?c (env ?w ''ANVIL_RPC'') 1 (console_log ''Starting mock singleton paymaster...'' ?w) = Inl UrlRequired \<or>
         (\<exists>wallet. getAnvilWalletClient ?c (env ?w ''ANVIL_RPC'') 1 (console_log ''Starting mock singleton paymaster...'' ?w) =
                     Inr wallet) \<and>
         (http_transport (env ?w ''ANVIL_RPC'') ch = Inl UrlRequired \<or>
          (\<exists>pu. http_transport (env ?w ''ANVIL_RPC'') ch = Inr pu \<and> http_transport (env ?w ''ALTO_RPC'') ch = Inl UrlRequired))))"
    by (rule main_setup_errors)
  then show ?thesis by (simp add: http_transport_def)
qed




end
