(* ===== verification/Lifecycle.thy ===== *)
theory Lifecycle
  imports Startup
begin

text \<open>
  The Node process that runs src/mock-verifying-paymaster/src/index.ts: line 93 calls
  \<open>main()\<close> without handling its promise, so a rejection of \<open>main\<close> ends the process
  (an unhandled rejection), and the server answers requests only once \<open>main\<close> has
  reached \<open>app.listen\<close> (line 90). Requests can arrive at any time; before listening
  and after a crash they get no answer. The process is a labelled step relation over
  its three phases; the labels are what an observer sees.
\<close>

datatype proc = Booting world | Serving world app | Crashed error

datatype obs = Started | Died error | Answered http_request "http_response option"

type_synonym rpc_handler = "rpc_config \<Rightarrow> 48 word \<Rightarrow> json \<Rightarrow> http_response"
type_synonym json_parser = "string \<Rightarrow> json option"

inductive proc_step ::
  "collab \<Rightarrow> rpc_handler \<Rightarrow> json_parser \<Rightarrow> proc \<Rightarrow> obs \<Rightarrow> proc \<Rightarrow> bool"
  for c :: collab and rpc :: rpc_handler and parse :: json_parser where
  boot_ok: "main c w = Inr (w', a) \<Longrightarrow> proc_step c rpc parse (Booting w) Started (Serving w' a)"
| boot_fail: "main c w = Inl e \<Longrightarrow> proc_step c rpc parse (Booting w) (Died e) (Crashed e)"
| req_booting: "proc_step c rpc parse (Booting w) (Answered r None) (Booting w)"
| req_serving: "proc_step c rpc parse (Serving w a) (Answered r (serve a rpc parse r)) (Serving w a)"
| req_crashed: "proc_step c rpc parse (Crashed e) (Answered r None) (Crashed e)"

inductive proc_run ::
  "collab \<Rightarrow> rpc_handler \<Rightarrow> json_parser \<Rightarrow> proc \<Rightarrow> obs list \<Rightarrow> proc \<Rightarrow> bool"
  for c :: collab and rpc :: rpc_handler and parse :: json_parser where
  run_nil: "proc_run c rpc parse p [] p"
| run_step: "proc_step c rpc parse p ob p' \<Longrightarrow> proc_run c rpc parse p' os p'' \<Longrightarrow> proc_run c rpc parse p (ob # os) p''"

inductive_cases proc_step_BootingE: "proc_step c rpc parse (Booting w) ob p'"
inductive_cases proc_step_ServingE: "proc_step c rpc parse (Serving w a) ob p'"
inductive_cases proc_step_CrashedE: "proc_step c rpc parse (Crashed e) ob p'"

abbreviation ping_request :: http_request where
  "ping_request \<equiv> \<lparr>req_method = GET, req_url = ''/ping'', req_headers = [], req_body = [], req_time = 0\<rparr>"

text \<open>What every state reachable from \<open>Booting w0\<close> knows about its past.\<close>

fun proc_inv :: "collab \<Rightarrow> world \<Rightarrow> proc \<Rightarrow> bool" where
  "proc_inv c w0 (Booting w) = (w = w0)"
| "proc_inv c w0 (Serving w a) = (main c w0 = Inr (w, a))"
| "proc_inv c w0 (Crashed e) = (main c w0 = Inl e)"

lemma proc_step_inv:
  "proc_step c rpc parse p ob p' \<Longrightarrow> proc_inv c w0 p \<Longrightarrow> proc_inv c w0 p'"
  by (induction rule: proc_step.induct) auto

lemma proc_step_answer:
  "proc_step c rpc parse p (Answered r (Some resp)) p' \<Longrightarrow>
     \<exists>w a. p = Serving w a \<and> p' = p \<and> serve a rpc parse r = Some resp"
  by (auto elim: proc_step.cases)

lemma proc_run_inv:
  "proc_run c rpc parse p os p' \<Longrightarrow> proc_inv c w0 p \<Longrightarrow>
     proc_inv c w0 p' \<and>
     (\<forall>r resp. Answered r (Some resp) \<in> set os \<longrightarrow>
        (\<exists>w a. main c w0 = Inr (w, a) \<and> serve a rpc parse r = Some resp))"
proof (induction rule: proc_run.induct)
  case (run_nil p)
  then show ?case by simp
next
  case (run_step p ob p' os p'')
  from run_step.hyps(1) run_step.prems have inv': "proc_inv c w0 p'" by (rule proc_step_inv)
  with run_step.IH have IH: "proc_inv c w0 p'' \<and>
     (\<forall>r resp. Answered r (Some resp) \<in> set os \<longrightarrow> (\<exists>w a. main c w0 = Inr (w, a) \<and> serve a rpc parse r = Some resp))"
    by blast
  have "\<exists>w a. main c w0 = Inr (w, a) \<and> serve a rpc parse r = Some resp" if "ob = Answered r (Some resp)" for r resp
    using run_step.hyps(1) run_step.prems that by (auto dest: proc_step_answer)
  with IH show ?case by auto
qed

lemma serving_of_main:
  "main c w0 = Inr (w, a) \<Longrightarrow> proc_run c rpc parse (Booting w0) [Started] (Serving w a)"
  by (rule proc_run.run_step [OF proc_step.boot_ok proc_run.run_nil])

lemma main_Inr_app:
  "main c w0 = Inr (w, a) \<Longrightarrow>
     \<exists>s w1. main_setup c w0 = Inr (s, w1) \<and> a = app_listen ''0.0.0.0'' 3000 (register_routes s fastify_new)"
  by (auto simp: main_Inr listen_Inr)

lemma serve_routes:
  "serve (app_listen ''0.0.0.0'' 3000 (register_routes s fastify_new)) rpc parse r =
     Some (with_cors (Some \<lparr>cors_origin = ''*'', cors_methods = [POST, GET, OPTIONS]\<rparr>)
       (if req_method r = OPTIONS then preflight_reply \<lparr>cors_origin = ''*'', cors_methods = [POST, GET, OPTIONS]\<rparr> r
        else if req_method r = POST \<and> url_path (req_url r) = ''/''
        then run_handler rpc parse (RpcHandler \<lparr>bundler = bundler_client s, publicClient = public_client s,
                                                paymasterSigner = walletAddress s\<rparr>) r
        else if (req_method r = GET \<or> req_method r = HEAD) \<and> url_path (req_url r) = ''/ping''
        then head_body r ping_reply
        else not_found_reply r))"
  by (cases "req_method r") (simp_all add: serve_def served_app run_handler_def head_body_def)

lemma reachable_serving_app:
  "proc_run c rpc parse (Booting w0) os (Serving w a) \<Longrightarrow>
     \<exists>s w1. main_setup c w0 = Inr (s, w1) \<and> a = app_listen ''0.0.0.0'' 3000 (register_routes s fastify_new)"
  using proc_run_inv [of c rpc parse "Booting w0" os "Serving w a" w0] by (auto dest: main_Inr_app)

text \<open>C7: once the process serves, GET /ping is answered 200 with body {"message": "pong"} and
  the CORS header, whatever the relay and the request's headers and body.\<close>

theorem ping_answered_when_serving:
  assumes "proc_run c rpc parse (Booting w0) os (Serving w a)"
    and "req_method r = GET" and "req_url r = ''/ping''"
  shows "serve a rpc parse r =
           Some \<lparr>status = 200, resp_headers = [(''access-control-allow-origin'', ''*'')],
                 resp_body = JObj [(''message'', JStr ''pong'')]\<rparr>"
  using reachable_serving_app [OF assms(1)] assms(2,3)
  by (auto simp: serve_routes with_cors_def ping_reply_def head_body_def url_path_def)

text \<open>C9: a POST / whose JSON body does not parse is answered 400 by Fastify's body parser
  with Fastify's error object; the JSON-RPC handler never sees it, so no -32700 error is
  returned.\<close>

theorem invalid_json_rejected_by_fastify:
  assumes "proc_run c rpc parse (Booting w0) os (Serving w a)"
    and "req_method r = POST" and "req_url r = ''/''"
    and "header (req_headers r) ''content-type'' = Some ''application/json''"
    and "parse (req_body r) = None"
  shows "\<exists>resp. serve a rpc parse r = Some resp \<and> status resp = 400 \<and>
           resp_body resp = JObj [(''statusCode'', JNum 400), (''code'', JStr ''FST_ERR_CTP_INVALID_JSON_BODY''),
             (''error'', JStr ''Bad Request''),
             (''message'', JStr (''Body is not valid JSON but content-type is set to '' @ [CHR 39] @ ''application/json'' @ [CHR 39]))]"
  using reachable_serving_app [OF assms(1)] assms(2-5)
  by (auto simp: serve_routes with_cors_def run_handler_def parse_body_def fastify_error_def media_type_def url_path_def)

text \<open>C8: the liveness endpoint depends on the chain: when the chain node does not answer at
  startup, main rejects, the process ends, and no request, GET /ping included, is ever
  answered.\<close>

theorem node_down_never_answers:
  assumes "\<not> node_up w0" and "proc_run c rpc parse (Booting w0) os p"
  shows "Answered r (Some resp) \<notin> set os"
proof
  assume "Answered r (Some resp) \<in> set os"
  with proc_run_inv [OF assms(2), of w0] obtain w a where "main c w0 = Inr (w, a)" by fastforce
  with main_node_down [OF assms(1), of c] show False by auto
qed

lemma serving_state_facts:
  assumes "proc_run c rpc parse (Booting w0) os (Serving w a)"
  shows "\<exists>s w1. main_setup c w0 = Inr (s, w1) \<and> a = app_listen ''0.0.0.0'' 3000 (register_routes s fastify_new) \<and>
           prefix (calls w0 @ map GetCode (paymasters s)) (calls w)"
proof -
  from proc_run_inv [OF assms, of w0] have m: "main c w0 = Inr (w, a)" by simp
  then obtain s w1 w2 where ms: "main_setup c w0 = Inr (s, w1)" and b: "bootstrap c s w1 = Inr w2"
    and l: "listen (register_routes s fastify_new) w2 = Inr (w, a)"
    by (auto simp: main_Inr)
  from l have "calls w = calls w2" and "a = app_listen ''0.0.0.0'' 3000 (register_routes s fastify_new)"
    by (auto simp: listen_Inr)
  moreover from b have "prefix (calls w1 @ map GetCode (paymasters s)) (calls w2)"
    by (rule bootstrap_calls_prefix)
  moreover from ms have "calls w1 = calls w0" by (auto dest: main_setup_frame)
  ultimately show ?thesis using ms by auto
qed

lemma resp_body_with_cors [simp]: "resp_body (with_cors co resp) = resp_body resp"
  by (simp add: with_cors_def split: option.splits)

lemma status_with_cors [simp]: "status (with_cors co resp) = status resp"
  by (simp add: with_cors_def split: option.splits)

lemma serve_post_json:
  assumes "proc_run c rpc parse (Booting w0) os (Serving w a)"
    and "req_method r = POST" and "req_url r = ''/''"
    and "header (req_headers r) ''content-type'' = Some ''application/json''"
    and "parse (req_body r) = Some j"
  shows "\<exists>s w1. main_setup c w0 = Inr (s, w1) \<and> prefix (calls w0 @ map GetCode (paymasters s)) (calls w) \<and>
           serve a rpc parse r =
             Some (with_cors (Some \<lparr>cors_origin = ''*'', cors_methods = [POST, GET, OPTIONS]\<rparr>)
               (rpc \<lparr>bundler = bundler_client s, publicClient = public_client s, paymasterSigner = walletAddress s\<rparr> (req_time r) j))"
  using serving_state_facts [OF assms(1)] assms(2-5)
  by (auto simp: serve_routes run_handler_def parse_body_def media_type_def url_path_def)

text \<open>C6: bootstrap happens before serving: a request is answered only in a run where main has
  succeeded, after it read the three paymaster addresses, and by the server listening on
  0.0.0.0:3000.\<close>

theorem answered_only_after_bootstrap:
  assumes "proc_run c rpc parse (Booting w0) os p" and "Answered r (Some resp) \<in> set os"
  shows "\<exists>s w1 w a. main_setup c w0 = Inr (s, w1) \<and> main c w0 = Inr (w, a) \<and>
           prefix (calls w0 @ map GetCode (paymasters s)) (calls w) \<and>
           listening a = Some (''0.0.0.0'', 3000) \<and> serve a rpc parse r = Some resp"
proof -
  from proc_run_inv [OF assms(1)] assms(2) obtain w a
    where m: "main c w0 = Inr (w, a)" and sv: "serve a rpc parse r = Some resp" by fastforce
  from m obtain s w1 w2 where ms: "main_setup c w0 = Inr (s, w1)" and b: "bootstrap c s w1 = Inr w2"
    and l: "listen (register_routes s fastify_new) w2 = Inr (w, a)"
    by (auto simp: main_Inr)
  from l have "calls w = calls w2" and "listening a = Some (''0.0.0.0'', 3000)"
    by (auto simp: listen_Inr served_app)
  moreover from b have "prefix (calls w1 @ map GetCode (paymasters s)) (calls w2)"
    using bootstrap_calls_prefix by blast
  moreover from ms have "calls w1 = calls w0" by (auto dest: main_setup_frame)
  ultimately show ?thesis using ms m sv by auto
qed

subsection \<open>Witnesses\<close>

theorem ping_answered_when_serving_witness:
  "\<exists>w a. proc_run example_collab (\<lambda>_ _ _. ping_reply) (\<lambda>_. None) (Booting example_world) [Started] (Serving w a) \<and>
     serve a (\<lambda>_ _ _. ping_reply) (\<lambda>_. None) ping_request =
           Some \<lparr>status = 200, resp_headers = [(''access-control-allow-origin'', ''*'')],
                 resp_body = JObj [(''message'', JStr ''pong'')]\<rparr>"
proof -
  have "\<exists>w a. main example_collab example_world = Inr (w, a)"
    by (simp add: startup_eval)
  then obtain w a where m: "main example_collab example_world = Inr (w, a)" by blast
  have run: "proc_run example_collab (\<lambda>_ _ _. ping_reply) (\<lambda>_. None) (Booting example_world) [Started] (Serving w a)"
    by (rule proc_run.run_step [OF proc_step.boot_ok [OF m] proc_run.run_nil])
  have "serve a (\<lambda>_ _ _. ping_reply) (\<lambda>_. None) ping_request =
           Some \<lparr>status = 200, resp_headers = [(''access-control-allow-origin'', ''*'')],
                 resp_body = JObj [(''message'', JStr ''pong'')]\<rparr>"
    by (rule ping_answered_when_serving [OF run]) simp_all
  with run show ?thesis by blast
qed


theorem invalid_json_rejected_by_fastify_witness:
  "\<exists>w a resp. proc_run example_collab (\<lambda>_ _ _. ping_reply) (\<lambda>_. None) (Booting example_world) [Started] (Serving w a) \<and>
     serve a (\<lambda>_ _ _. ping_reply) (\<lambda>_. None)
       \<lparr>req_method = POST, req_url = ''/'', req_headers = [(''content-type'', ''application/json'')], req_body = ''{'', req_time = 0\<rparr> = Some resp \<and>
     status resp = 400"
proof -
  have "\<exists>w a. main example_collab example_world = Inr (w, a)"
    by (simp add: startup_eval)
  then obtain w a where m: "main example_collab example_world = Inr (w, a)" by blast
  have run: "proc_run example_collab (\<lambda>_ _ _. ping_reply) (\<lambda>_. None) (Booting example_world) [Started] (Serving w a)"
    by (rule proc_run.run_step [OF proc_step.boot_ok [OF m] proc_run.run_nil])
  from invalid_json_rejected_by_fastify [OF run, of "\<lparr>req_method = POST, req_url = ''/'', req_headers = [(''content-type'', ''application/json'')], req_body = ''{'', req_time = 0\<rparr>"]
  obtain resp where "serve a (\<lambda>_ _ _. ping_reply) (\<lambda>_. None)
       \<lparr>req_method = POST, req_url = ''/'', req_headers = [(''content-type'', ''application/json'')], req_body = ''{'', req_time = 0\<rparr> = Some resp"
     and "status resp = 400"
    by (auto simp: header_def)
  with run show ?thesis by blast
qed


theorem answered_only_after_bootstrap_witness:
  "\<exists>w a resp. proc_run example_collab (\<lambda>_ _ _. ping_reply) (\<lambda>_. None) (Booting example_world)
      [Started, Answered ping_request (Some resp)] (Serving w a) \<and>
    prefix (map GetCode [''0xa6'', ''0xa7'', ''0xa8'']) (calls w)"
proof -
  have "\<exists>w a. main example_collab example_world = Inr (w, a)"
    by (simp add: startup_eval)
  then obtain w a where m: "main example_collab example_world = Inr (w, a)" by blast
  from m obtain resp where sv: "serve a (\<lambda>_ _ _. ping_reply) (\<lambda>_. None) ping_request = Some resp"
    by (auto simp: main_Inr listen_Inr serve_def app_listen_def)
  have run: "proc_run example_collab (\<lambda>_ _ _. ping_reply) (\<lambda>_. None) (Booting example_world)
      [Started, Answered ping_request (Some resp)] (Serving w a)"
    using proc_run.run_step [OF proc_step.boot_ok [OF m]
            proc_run.run_step [OF proc_step.req_serving proc_run.run_nil]] sv by metis
  from answered_only_after_bootstrap [OF run] m have "prefix (map GetCode [''0xa6'', ''0xa7'', ''0xa8'']) (calls w)"
    by (auto simp: main_setup_def paymasters_def)
  with run show ?thesis by blast
qed


theorem node_down_never_answers_witness:
  "proc_run example_collab (\<lambda>_ _ _. ping_reply) (\<lambda>_. None) (Booting (example_world\<lparr>node_up := False\<rparr>))
      [Died (GetCodeFailed ''0xa6''), Answered ping_request None] (Crashed (GetCodeFailed ''0xa6'')) \<and>
   Answered ping_request (Some ping_reply) \<notin> set [Died (GetCodeFailed ''0xa6''), Answered ping_request None]"
proof -
  have m: "main example_collab (example_world\<lparr>node_up := False\<rparr>) = Inl (GetCodeFailed ''0xa6'')"
    by (simp add: startup_eval)
  have run: "proc_run example_collab (\<lambda>_ _ _. ping_reply) (\<lambda>_. None) (Booting (example_world\<lparr>node_up := False\<rparr>))
      [Died (GetCodeFailed ''0xa6''), Answered ping_request None] (Crashed (GetCodeFailed ''0xa6''))"
    by (rule proc_run.run_step [OF proc_step.boot_fail [OF m] proc_run.run_step [OF proc_step.req_crashed proc_run.run_nil]])
  from node_down_never_answers [OF _ run] run show ?thesis by simp
qed


end
