(* ===== verification/Process.thy ===== *)
theory Process
  imports Lifecycle
begin

text \<open>
  What every serving state of the process of Lifecycle holds, and how it answers the CORS
  preflight. The state invariant \<open>proc_wf\<close> says that a serving state holds the
  application built at lines 74--90 (the CORS plugin with origin * and methods POST, GET,
  OPTIONS, the JSON-RPC handler on POST / and the liveness handler on GET /ping, in that
  order) listening on 0.0.0.0:3000, and that \<open>app.listen\<close> has taken port 3000; it is
  proved by rule induction over runs.
\<close>

text \<open>The application every serving state holds: CORS with origin * and the three methods,
  the JSON-RPC handler on POST / and the liveness handler on GET /ping, in that order,
  listening on 0.0.0.0:3000; and the world has port 3000 taken.\<close>

fun is_rpc_handler :: "handler \<Rightarrow> bool" where
  "is_rpc_handler (RpcHandler cfg) = True"
| "is_rpc_handler PingHandler = False"

fun wf_route_table :: "route list \<Rightarrow> bool" where
  "wf_route_table [r1, r2] =
     (route_method r1 = POST \<and> route_url r1 = ''/'' \<and> is_rpc_handler (route_handler r1) \<and>
      route_method r2 = GET \<and> route_url r2 = ''/ping'' \<and> route_handler r2 = PingHandler)"
| "wf_route_table _ = False"

definition wf_served_app :: "app \<Rightarrow> bool" where
  "wf_served_app a =
     (cors a = Some \<lparr>cors_origin = ''*'', cors_methods = [POST, GET, OPTIONS]\<rparr> \<and>
      listening a = Some (''0.0.0.0'', 3000) \<and> wf_route_table (routes a))"

fun proc_wf :: "proc \<Rightarrow> bool" where
  "proc_wf (Serving w a) = (wf_served_app a \<and> \<not> port_free w 3000)"
| "proc_wf (Booting w) = True"
| "proc_wf (Crashed e) = True"

subsection \<open>The state invariant\<close>

lemma main_Inr_wf:
  "main c w = Inr (w', a) \<Longrightarrow> wf_served_app a \<and> \<not> port_free w' 3000"
  by (auto simp: main_Inr listen_Inr served_app wf_served_app_def)

lemma proc_step_wf:
  "proc_step c rpc parse p ob p' \<Longrightarrow> proc_wf p \<Longrightarrow> proc_wf p'"
  by (induction rule: proc_step.induct) (auto dest: main_Inr_wf)

text \<open>C17: every state a run reaches from a well-formed state is well formed; in particular
  every serving state holds the application of lines 74--90, listening on 0.0.0.0:3000,
  with port 3000 taken.\<close>

theorem proc_run_preserves_wf:
  "proc_run c rpc parse p os p' \<Longrightarrow> proc_wf p \<Longrightarrow> proc_wf p'"
  by (induction rule: proc_run.induct) (auto dest: proc_step_wf)

subsection \<open>The CORS preflight\<close>

text \<open>C18: the CORS plugin answers every OPTIONS request of a serving process itself: 400
  with the text Invalid Preflight Request when the Origin or Access-Control-Request-Method
  header is missing or empty, otherwise 204 allowing POST, GET and OPTIONS, with Vary:
  Access-Control-Request-Headers, the requested headers reflected and Content-Length 0;
  both carry Access-Control-Allow-Origin: * first.\<close>

theorem cors_preflight_answered:
  assumes "proc_run c rpc parse (Booting w0) os (Serving w a)" and "req_method r = OPTIONS"
  shows "serve a rpc parse r =
           Some (if header_falsy (req_headers r) ''origin'' \<or>
                    header_falsy (req_headers r) ''access-control-request-method''
                 then \<lparr>status = 400, resp_headers = [(''access-control-allow-origin'', ''*'')],
                       resp_body = JStr ''Invalid Preflight Request''\<rparr>
                 else \<lparr>status = 204,
                       resp_headers = [(''access-control-allow-origin'', ''*''),
                         (''access-control-allow-methods'', ''POST, GET, OPTIONS''),
                         (''vary'', ''Access-Control-Request-Headers'')] @
                         (case header (req_headers r) ''access-control-request-headers'' of
                            Some hs \<Rightarrow> [(''access-control-allow-headers'', hs)] | None \<Rightarrow> []) @
                         [(''content-length'', ''0'')],
                       resp_body = JNull\<rparr>)"
  using reachable_serving_app [OF assms(1)] assms(2)
  by (auto simp: serve_routes with_cors_def preflight_reply_def)

subsection \<open>Witnesses\<close>

abbreviation ex_rpc :: rpc_handler where "ex_rpc \<equiv> (\<lambda>_ _ _. ping_reply)"
abbreviation ex_parse :: json_parser where "ex_parse \<equiv> (\<lambda>_. None)"

lemma example_main: "\<exists>w a. main example_collab example_world = Inr (w, a)"
  by (simp add: startup_eval)

lemma example_run:
  "\<exists>w a. proc_run example_collab ex_rpc ex_parse (Booting example_world) [Started] (Serving w a)"
proof -
  from example_main obtain w a where m: "main example_collab example_world = Inr (w, a)" by blast
  show ?thesis by (rule exI, rule exI, rule proc_run.run_step [OF proc_step.boot_ok [OF m] proc_run.run_nil])
qed

theorem proc_run_preserves_wf_witness:
  "\<exists>w a. proc_run example_collab ex_rpc ex_parse (Booting example_world) [Started] (Serving w a) \<and>
     proc_wf (Serving w a)"
proof -
  from example_run obtain w a where
    r: "proc_run example_collab ex_rpc ex_parse (Booting example_world) [Started] (Serving w a)" by blast
  have "proc_wf (Booting example_world)" by simp
  from proc_run_preserves_wf [OF r this] r show ?thesis by blast
qed

theorem cors_preflight_answered_witness:
  "\<exists>w a. proc_run example_collab ex_rpc ex_parse (Booting example_world) [Started] (Serving w a) \<and>
     serve a ex_rpc ex_parse
       (ping_request\<lparr>req_method := OPTIONS, req_url := ''/'',
          req_headers := [(''origin'', ''http://wallet.example''), (''access-control-request-method'', ''POST''),
                          (''access-control-request-headers'', ''content-type'')]\<rparr>) =
       Some \<lparr>status = 204,
             resp_headers = [(''access-control-allow-origin'', ''*''),
               (''access-control-allow-methods'', ''POST, GET, OPTIONS''),
               (''vary'', ''Access-Control-Request-Headers''), (''access-control-allow-headers'', ''content-type''),
               (''content-length'', ''0'')],
             resp_body = JNull\<rparr>"
proof -
  from example_run obtain w a where
    r: "proc_run example_collab ex_rpc ex_parse (Booting example_world) [Started] (Serving w a)" by blast
  have "serve a ex_rpc ex_parse
       (ping_request\<lparr>req_method := OPTIONS, req_url := ''/'',
          req_headers := [(''origin'', ''http://wallet.example''), (''access-control-request-method'', ''POST''),
                          (''access-control-request-headers'', ''content-type'')]\<rparr>) =
       Some \<lparr>status = 204,
             resp_headers = [(''access-control-allow-origin'', ''*''),
               (''access-control-allow-methods'', ''POST, GET, OPTIONS''),
               (''vary'', ''Access-Control-Request-Headers''), (''access-control-allow-headers'', ''content-type''),
               (''content-length'', ''0'')],
             resp_body = JNull\<rparr>"
    using cors_preflight_answered [OF r, of "ping_request\<lparr>req_method := OPTIONS, req_url := ''/'',
          req_headers := [(''origin'', ''http://wallet.example''), (''access-control-request-method'', ''POST''),
                          (''access-control-request-headers'', ''content-type'')]\<rparr>"]
    by (simp add: header_def header_falsy_def)
  with r show ?thesis by blast
qed

end
