(* ===== verification/Bootstrap.thy ===== *)
theory Bootstrap
  imports Startup
begin

text \<open>
  The Bootstrap collaborator of the spec (sections 2 and 6): the helpers that index.ts
  awaits at lines 70--71, \<open>deployPaymasters({walletClient, publicClient})\<close> of
  ./singletonPaymasters and \<open>deployErc20Token(walletClient, publicClient)\<close> of
  ./helpers/erc20-utils. Their modules are not under src/, so they are modelled from the
  spec: given the wallet, the first puts the paymaster bytecode at the three singleton
  addresses that the Registry functions give for that wallet, the second puts the token
  bytecode at the token's address for that wallet; both reject when the chain does not
  answer. \<open>with_bootstrap\<close> plugs them into the interface record \<open>collab\<close> of
  Startup, so that the properties of \<open>main\<close> proved there for any helpers can be
  instantiated with these.
\<close>

text \<open>The three addresses main computes at lines 52--56 from the wallet address.\<close>

definition singleton_addresses :: "collab \<Rightarrow> address \<Rightarrow> address list" where
  "singleton_addresses c wallet =
     [getSingletonPaymaster06Address c wallet, getSingletonPaymaster07Address c wallet,
      getSingletonPaymaster08Address c wallet]"

record bootstrap_artifacts =
  paymaster_bytecode :: hex
  token_address :: "address \<Rightarrow> address"
  token_bytecode :: hex

definition deploy_at :: "address list \<Rightarrow> hex \<Rightarrow> (address \<Rightarrow> hex option) \<Rightarrow> address \<Rightarrow> hex option" where
  "deploy_at as bc cd = fold (\<lambda>a m. m(a \<mapsto> bc)) as cd"

definition deploySingletons ::
  "collab \<Rightarrow> bootstrap_artifacts \<Rightarrow> address \<Rightarrow> world \<Rightarrow> error + (address \<Rightarrow> hex option)" where
  "deploySingletons c art wallet w =
     (if node_up w then Inr (deploy_at (singleton_addresses c wallet) (paymaster_bytecode art) (code w))
      else Inl (DeployFailed ''deployPaymasters''))"

definition deployToken ::
  "bootstrap_artifacts \<Rightarrow> address \<Rightarrow> world \<Rightarrow> error + (address \<Rightarrow> hex option)" where
  "deployToken art wallet w =
     (if node_up w then Inr ((code w)(token_address art wallet \<mapsto> token_bytecode art))
      else Inl (DeployFailed ''deployErc20Token''))"

definition with_bootstrap :: "collab \<Rightarrow> bootstrap_artifacts \<Rightarrow> collab" where
  "with_bootstrap c art = c\<lparr>deployPaymasters := deploySingletons c art, deployErc20Token := deployToken art\<rparr>"

definition deployable :: "bootstrap_artifacts \<Rightarrow> bool" where
  "deployable art = (\<not> not_deployed (Some (paymaster_bytecode art)) \<and> \<not> not_deployed (Some (token_bytecode art)))"

text \<open>Artifacts for the witnesses: one bytecode for the three paymasters, a token at 0xe20.\<close>

abbreviation example_artifacts :: bootstrap_artifacts where
  "example_artifacts \<equiv> \<lparr>paymaster_bytecode = ''0x6080'', token_address = (\<lambda>_. ''0xe20''),
                          token_bytecode = ''0x6080''\<rparr>"

subsection \<open>Lemmas\<close>

lemma deploy_at_apply: "deploy_at as bc cd a = (if a \<in> set as then Some bc else cd a)"
  unfolding deploy_at_def by (induction as arbitrary: cd) auto

lemma main_setup_cong:
  assumes "getChain c' = getChain c" and "getAnvilWalletClient c' = getAnvilWalletClient c"
    and "getSingletonPaymaster06Address c' = getSingletonPaymaster06Address c"
    and "getSingletonPaymaster07Address c' = getSingletonPaymaster07Address c"
    and "getSingletonPaymaster08Address c' = getSingletonPaymaster08Address c"
  shows "main_setup c' w = main_setup c w"
  using assms by (simp add: main_setup_def cong: sum.case_cong)

lemma main_setup_with_bootstrap [simp]: "main_setup (with_bootstrap c art) w = main_setup c w"
  by (rule main_setup_cong) (simp_all add: with_bootstrap_def)

lemma main_setup_paymasters:
  "main_setup c w = Inr (s, w1) \<Longrightarrow> paymasters s = singleton_addresses c (walletAddress s)"
  by (auto simp: main_setup_def paymasters_def singleton_addresses_def Let_def split: sum.splits)

text \<open>What bootstrap does with these helpers, once the chain answers: nothing when the three
  paymasters have code, otherwise the paymaster bytecode at the three addresses and then
  the token bytecode at the token address.\<close>

lemma bootstrap_with_bootstrap:
  assumes up: "node_up w" and pm: "paymasters s = singleton_addresses c (walletAddress s)"
  shows "\<exists>w'. bootstrap (with_bootstrap c art) s w = Inr w' \<and> port_free w' = port_free w \<and>
           code w' = (if list_all (deployed_at w) (paymasters s) then code w
                      else (deploy_at (paymasters s) (paymaster_bytecode art) (code w))
                             (token_address art (walletAddress s) \<mapsto> token_bytecode art))"
proof (cases "list_all (deployed_at w) (paymasters s)")
  case True
  with up show ?thesis by (simp add: bootstrap_present console_log_def)
next
  case False
  with up pm show ?thesis
    by (simp add: bootstrap_missing run_deploy_def with_bootstrap_def deploySingletons_def deployToken_def)
qed

lemma listen_free:
  "port_free w 3000 \<Longrightarrow> \<exists>w'. listen a w = Inr (w', app_listen ''0.0.0.0'' 3000 a) \<and> code w' = code w"
  by (simp add: listen_def)

lemma main_with_bootstrap:
  assumes ms: "main_setup c w0 = Inr (s, w1)" and up: "node_up w0" and port: "port_free w0 3000"
  shows "\<exists>w a. main (with_bootstrap c art) w0 = Inr (w, a) \<and>
           code w = (if list_all (deployed_at w0) (paymasters s) then code w0
                     else (deploy_at (paymasters s) (paymaster_bytecode art) (code w0))
                            (token_address art (walletAddress s) \<mapsto> token_bytecode art))"
proof -
  from ms have fr: "code w1 = code w0" "node_up w1 = node_up w0" "port_free w1 = port_free w0"
    by (auto dest: main_setup_frame)
  from bootstrap_with_bootstrap [of w1 s c art] up fr main_setup_paymasters [OF ms]
  obtain w2 where b: "bootstrap (with_bootstrap c art) s w1 = Inr w2" and p2: "port_free w2 = port_free w0"
    and c2: "code w2 = (if list_all (deployed_at w0) (paymasters s) then code w0
                     else (deploy_at (paymasters s) (paymaster_bytecode art) (code w0))
                            (token_address art (walletAddress s) \<mapsto> token_bytecode art))"
    by auto
  from listen_free [of w2 "register_routes s fastify_new"] port p2 obtain w where
    l: "listen (register_routes s fastify_new) w2 = Inr (w, app_listen ''0.0.0.0'' 3000 (register_routes s fastify_new))"
    and cw: "code w = code w2" by auto
  from ms b l have "main (with_bootstrap c art) w0 = Inr (w, app_listen ''0.0.0.0'' 3000 (register_routes s fastify_new))"
    by (simp add: main_def)
  then show ?thesis using cw c2 by (intro exI[of _ w] exI[of _ "app_listen ''0.0.0.0'' 3000 (register_routes s fastify_new)"]) simp
qed

text \<open>Whatever the chain held before, a successful startup with these helpers leaves code at
  the three paymaster addresses: either they had code already, or bootstrap put it there.\<close>

lemma main_with_bootstrap_deployed:
  assumes m: "main (with_bootstrap c art) w0 = Inr (w, a)" and ms: "main_setup c w0 = Inr (s, w1)"
    and dep: "deployable art"
  shows "list_all (deployed_at w) (paymasters s)"
proof -
  from m ms obtain w2 where b: "bootstrap (with_bootstrap c art) s w1 = Inr w2"
    and l: "listen (register_routes s fastify_new) w2 = Inr (w, a)"
    by (auto simp: main_Inr)
  have up: "node_up w1"
    using b bootstrap_node_down [of w1 "with_bootstrap c art" s] by (cases "node_up w1") auto
  from ms have fr: "code w1 = code w0" by (auto dest: main_setup_frame)
  from bootstrap_with_bootstrap [OF up main_setup_paymasters [OF ms], of art] b
  have c2: "code w2 = (if list_all (deployed_at w1) (paymasters s) then code w1
                      else (deploy_at (paymasters s) (paymaster_bytecode art) (code w1))
                             (token_address art (walletAddress s) \<mapsto> token_bytecode art))"
    by auto
  from l have "code w = code w2" by (auto simp: listen_Inr)
  with c2 dep show ?thesis by (auto simp: list_all_iff deploy_at_apply deployable_def)
qed

text \<open>C19: with the spec's Bootstrap collaborator, startup always reaches \<open>app.listen\<close> with
  the three paymasters deployed, once the setup phase succeeded, the chain answers and port
  3000 is free: the deployment policy of the spec (section 4.1) holds for the code of
  index.ts composed with these helpers.\<close>

theorem main_with_bootstrap_serves_deployed:
  assumes "main_setup c w0 = Inr (s, w1)" and "node_up w0" and "port_free w0 3000"
    and "deployable art"
  shows "\<exists>w a. main (with_bootstrap c art) w0 = Inr (w, a) \<and> list_all (deployed_at w) (paymasters s)"
proof -
  from main_with_bootstrap [OF assms(1-3), of art] obtain w a where
    m: "main (with_bootstrap c art) w0 = Inr (w, a)"
    and cw: "code w = (if list_all (deployed_at w0) (paymasters s) then code w0
                     else (deploy_at (paymasters s) (paymaster_bytecode art) (code w0))
                            (token_address art (walletAddress s) \<mapsto> token_bytecode art))"
    by blast
  have "list_all (deployed_at w) (paymasters s)"
    using assms(4) by (auto simp: cw list_all_iff deploy_at_apply deployable_def)
  with m show ?thesis by blast
qed

text \<open>C20: with these helpers the token is deployed exactly when a paymaster was missing:
  when the three paymasters already have code, the token address keeps whatever code it
  had, possibly none, although the spec says bootstrap ensures the token exists.\<close>

theorem token_deployed_only_when_paymaster_missing:
  assumes "main_setup c w0 = Inr (s, w1)" and "node_up w0" and "port_free w0 3000"
  shows "\<exists>w a. main (with_bootstrap c art) w0 = Inr (w, a) \<and>
           code w (token_address art (walletAddress s)) =
             (if list_all (deployed_at w0) (paymasters s) then code w0 (token_address art (walletAddress s))
              else Some (token_bytecode art))"
  using main_with_bootstrap [OF assms, of art] by auto

subsection \<open>Witnesses\<close>

theorem main_with_bootstrap_serves_deployed_witness:
  "\<exists>w a. main (with_bootstrap example_collab example_artifacts) example_world = Inr (w, a) \<and>
     list_all (deployed_at w) (paymasters example_startup)"
proof -
  have ms: "main_setup example_collab example_world =
      Inr (example_startup, console_log ''Wallet client created:  0x70997970c51812dc3a010c7d01b50e0d17dc79c8''
             (console_log ''Starting mock singleton paymaster...'' example_world))"
    by (simp add: main_setup_def)
  have "deployable example_artifacts" by (simp add: deployable_def not_deployed_def)
  from main_with_bootstrap_serves_deployed [OF ms _ _ this] show ?thesis by simp
qed

theorem token_deployed_only_when_paymaster_missing_witness:
  "\<exists>w a. main (with_bootstrap example_collab example_artifacts)
        (example_world\<lparr>code := [''0xa6'' \<mapsto> ''0x60'', ''0xa7'' \<mapsto> ''0x60'', ''0xa8'' \<mapsto> ''0x60'']\<rparr>) = Inr (w, a) \<and>
     code w ''0xe20'' = None"
proof -
  let ?w0 = "example_world\<lparr>code := [''0xa6'' \<mapsto> ''0x60'', ''0xa7'' \<mapsto> ''0x60'', ''0xa8'' \<mapsto> ''0x60'']\<rparr>"
  have ms: "main_setup example_collab ?w0 =
      Inr (example_startup, console_log ''Wallet client created:  0x70997970c51812dc3a010c7d01b50e0d17dc79c8''
             (console_log ''Starting mock singleton paymaster...'' ?w0))"
    by (simp add: main_setup_def)
  from token_deployed_only_when_paymaster_missing [OF ms, of example_artifacts] show ?thesis
    by (simp add: paymasters_def not_deployed_def)
qed

end
