(* ===== verification/Signature.thy ===== *)
theory Signature
  imports Prelude
begin

text \<open>
  The Signature Engine of the spec (section 4.2): the sponsorship claim, its canonical
  byte encoding per protocol version, the validity window and the signing step. Its code
  lives outside src/ (the relay module imported by index.ts), so the definitions follow
  the spec's data model: a claim carries the paymaster address (20 bytes), the window
  (uint48 timestamps, as the paymaster contracts store them), the hash of the sponsored
  operation (32 bytes), the sponsorship mode, and for the later protocol versions the two
  paymaster gas limits (uint128). Each version has its own field order; the first byte
  names the version, so that no two versions share a layout.
\<close>

datatype version = V1 | V2 | V3

datatype mode = SponsorAll | SponsorGasOnly

record claim =
  claim_paymaster :: "byte list"
  validAfter :: "48 word"
  validUntil :: "48 word"
  operationHash :: "byte list"
  claim_mode :: mode
  pmVerificationGasLimit :: "128 word"
  pmPostOpGasLimit :: "128 word"

fun version_tag :: "version \<Rightarrow> byte" where
  "version_tag V1 = 1"
| "version_tag V2 = 2"
| "version_tag V3 = 3"

fun mode_byte :: "mode \<Rightarrow> byte" where
  "mode_byte SponsorAll = 0"
| "mode_byte SponsorGasOnly = 1"

definition mode_of_byte :: "byte \<Rightarrow> mode option" where
  "mode_of_byte b = (if b = 0 then Some SponsorAll else if b = 1 then Some SponsorGasOnly else None)"

subsection \<open>Encoding (encodeClaim)\<close>

fun claim_fields :: "version \<Rightarrow> claim \<Rightarrow> byte list list" where
  "claim_fields V1 c =
     [[version_tag V1], claim_paymaster c, word_be 6 (validUntil c), word_be 6 (validAfter c),
      operationHash c, [mode_byte (claim_mode c)]]"
| "claim_fields v c =
     [[version_tag v], claim_paymaster c, word_be 16 (pmVerificationGasLimit c), word_be 16 (pmPostOpGasLimit c),
      [mode_byte (claim_mode c)], word_be 6 (validUntil c), word_be 6 (validAfter c), operationHash c]"

definition encodeClaim :: "version \<Rightarrow> claim \<Rightarrow> byte list" where
  "encodeClaim v c = concat (claim_fields v c)"

fun field_widths :: "version \<Rightarrow> nat list" where
  "field_widths V1 = [1, 20, 6, 6, 32, 1]"
| "field_widths v = [1, 20, 16, 16, 1, 6, 6, 32]"

subsection \<open>Decoding, as the on-chain verifier reads the encoding\<close>

fun claim_of_fields :: "version \<Rightarrow> byte list list \<Rightarrow> claim option" where
  "claim_of_fields V1 [t, pm, u, a, h, md] =
     (if t = [version_tag V1] then
        map_option (\<lambda>m. \<lparr>claim_paymaster = pm, validAfter = be_word a, validUntil = be_word u,
                          operationHash = h, claim_mode = m, pmVerificationGasLimit = 0, pmPostOpGasLimit = 0\<rparr>)
          (mode_of_byte (hd md))
      else None)"
| "claim_of_fields V2 [t, pm, vg, pg, md, u, a, h] =
     (if t = [version_tag V2] then
        map_option (\<lambda>m. \<lparr>claim_paymaster = pm, validAfter = be_word a, validUntil = be_word u,
                          operationHash = h, claim_mode = m, pmVerificationGasLimit = be_word vg,
                          pmPostOpGasLimit = be_word pg\<rparr>)
          (mode_of_byte (hd md))
      else None)"
| "claim_of_fields V3 [t, pm, vg, pg, md, u, a, h] =
     (if t = [version_tag V3] then
        map_option (\<lambda>m. \<lparr>claim_paymaster = pm, validAfter = be_word a, validUntil = be_word u,
                          operationHash = h, claim_mode = m, pmVerificationGasLimit = be_word vg,
                          pmPostOpGasLimit = be_word pg\<rparr>)
          (mode_of_byte (hd md))
      else None)"
| "claim_of_fields _ _ = None"

definition decodeClaim :: "version \<Rightarrow> byte list \<Rightarrow> claim option" where
  "decodeClaim v bs = (case split_fields (field_widths v) bs of None \<Rightarrow> None | Some fs \<Rightarrow> claim_of_fields v fs)"

text \<open>A claim the version can carry: a 20-byte address, a 32-byte hash, and no gas
  fields for the first version, whose layout has none.\<close>

definition wf_claim :: "version \<Rightarrow> claim \<Rightarrow> bool" where
  "wf_claim v c \<longleftrightarrow>
     length (claim_paymaster c) = 20 \<and> length (operationHash c) = 32 \<and>
     (v = V1 \<longrightarrow> pmVerificationGasLimit c = 0 \<and> pmPostOpGasLimit c = 0)"

subsection \<open>Validity window\<close>

record window_policy =
  clock_skew :: "48 word"
  sponsorship_ttl :: "48 word"

definition validity_window :: "window_policy \<Rightarrow> 48 word \<Rightarrow> 48 word \<times> 48 word" where
  "validity_window p now = (now - clock_skew p, now + sponsorship_ttl p)"

subsection \<open>Lemmas\<close>

lemma mode_of_byte_mode_byte [simp]: "mode_of_byte (mode_byte m) = Some m"
  by (cases m) (simp_all add: mode_of_byte_def)

lemma mode_byte_of_byte: "mode_of_byte b = Some m \<Longrightarrow> mode_byte m = b"
  by (auto simp: mode_of_byte_def split: if_splits)

lemma map_length_claim_fields:
  "wf_claim v c \<Longrightarrow> map length (claim_fields v c) = field_widths v"
  by (cases v) (simp_all add: wf_claim_def)

lemma claim_of_claim_fields:
  "wf_claim v c \<Longrightarrow> claim_of_fields v (claim_fields v c) = Some c"
  by (cases v) (simp_all add: wf_claim_def be_word_word_be)

lemma byte_singleton: "length md = 1 \<Longrightarrow> [hd md] = md"
  by (cases md) auto

lemma claim_fields_of_claim:
  "map length fs = field_widths v \<Longrightarrow> claim_of_fields v fs = Some c \<Longrightarrow> claim_fields v c = fs"
  by (cases "(v, fs)" rule: claim_of_fields.cases)
     (auto simp: word_be_be_word byte_singleton mode_byte_of_byte split: if_splits)

lemma encodeClaim_Cons: "encodeClaim v c = version_tag v # tl (encodeClaim v c)"
  by (cases v) (simp_all add: encodeClaim_def)

lemma version_tag_inj: "version_tag v = version_tag v' \<Longrightarrow> v = v'"
  by (cases v; cases v') simp_all

lemma wf_claim_of_fields:
  "map length fs = field_widths v \<Longrightarrow> claim_of_fields v fs = Some c \<Longrightarrow> wf_claim v c"
  by (cases "(v, fs)" rule: claim_of_fields.cases) (auto simp: wf_claim_def split: if_splits)

lemma unat_window:
  fixes now skew ttl :: "48 word"
  assumes "unat skew \<le> unat now" and "unat now + unat ttl < 2 ^ 48"
  shows "unat (now - skew) = unat now - unat skew" and "unat (now + ttl) = unat now + unat ttl"
proof -
  from assms(1) have "skew \<le> now" by (simp add: word_le_nat_alt)
  then show "unat (now - skew) = unat now - unat skew" by (rule unat_sub)
  from assms(2) show "unat (now + ttl) = unat now + unat ttl" using unat_add_lem [of now ttl] by simp
qed

lemma uint_less_diff:
  fixes x y :: "'a::len word"
  assumes "x < y" and "unat y - unat x = k"
  shows "uint x < uint y \<and> uint y - uint x = int k"
proof -
  have lt: "unat x < unat y" using assms(1) by (simp add: word_less_nat_alt)
  have ux: "uint x = int (unat x)" and uy: "uint y = int (unat y)" by (rule uint_nat)+
  show ?thesis using lt assms(2) ux uy by linarith
qed

subsection \<open>Encoding round trip, version separation, window bounds\<close>

text \<open>Round trip of the claim encoding: the verifier's reading of an encoded claim
  gives back the claim, for every version and every claim the version can carry.\<close>

lemma decode_encode_claim:
  assumes "wf_claim v c"
  shows "decodeClaim v (encodeClaim v c) = Some c"
proof -
  have "split_fields (field_widths v) (concat (claim_fields v c)) = Some (claim_fields v c)"
    using split_fields_concat [of "claim_fields v c"] map_length_claim_fields [OF assms] by simp
  with claim_of_claim_fields [OF assms] show ?thesis
    by (simp add: decodeClaim_def encodeClaim_def)
qed

text \<open>The encoding is canonical: every byte string the verifier accepts for a
  version is the encoding of the claim it reads, and that claim is one the version can
  carry.\<close>

lemma encode_decoded_claim:
  assumes "decodeClaim v bs = Some c"
  shows "encodeClaim v c = bs \<and> wf_claim v c"
proof -
  from assms obtain fs where sp: "split_fields (field_widths v) bs = Some fs"
    and cf: "claim_of_fields v fs = Some c"
    by (auto simp: decodeClaim_def split: option.splits)
  from split_fields_Some [OF sp] have bs: "concat fs = bs" and len: "map length fs = field_widths v"
    by auto
  from claim_fields_of_claim [OF len cf] bs have "encodeClaim v c = bs"
    by (simp add: encodeClaim_def)
  with wf_claim_of_fields [OF len cf] show ?thesis by simp
qed

text \<open>No two protocol versions share a layout: the encodings of any two claims under
  different versions differ.\<close>

lemma encodeClaim_versions_differ:
  "v \<noteq> v' \<Longrightarrow> encodeClaim v c \<noteq> encodeClaim v' c'"
  by (metis encodeClaim_Cons list.inject version_tag_inj)

text \<open>Bounds of the validity window on uint48 timestamps: when the clock skew does
  not exceed the current time and the end of the window does not overflow 48 bits,
  validAfter is before validUntil and the window lasts the skew plus the TTL.\<close>

lemma validity_window_bounds:
  assumes "validity_window p now = (after, until)"
    and "unat (clock_skew p) \<le> unat now" and "unat now + unat (sponsorship_ttl p) < 2 ^ 48"
    and "0 < unat (sponsorship_ttl p)"
  shows "after < until \<and> unat until - unat after = unat (clock_skew p) + unat (sponsorship_ttl p)"
proof -
  from assms(1) have a: "after = now - clock_skew p" and u: "until = now + sponsorship_ttl p"
    by (auto simp: validity_window_def)
  note w = unat_window [OF assms(2,3)]
  have "unat after < unat until" using assms(2,4) by (simp add: a u w)
  then show ?thesis using assms(2) by (simp add: a u w word_less_nat_alt)
qed

end
