(* ===== verification/Relay.thy ===== *)
theory Relay
  imports Signature Fastify
begin

text \<open>
  The RPC Relay of the spec (section 4.3 and 6): the JSON-RPC handler that index.ts
  creates with \<open>createRpcHandler({bundler, publicClient, paymasterSigner})\<close> (line 79)
  and registers on POST / (line 84). Its module is not under src/, so the handler is
  modelled from the spec: the envelope is checked, the method name gives the request
  kind (stub or final data) and the protocol version, the parameters must carry a user
  operation with the version's fields and an entry-point address, the Registry gives
  the paymaster address for the version and the signer, the Signature Engine builds and
  signs the claim, and every failure becomes a JSON-RPC error object with the caller's
  id. The dependencies the spec leaves open (the registry function, the hash of an
  operation, the digest and the signing capability of the signer's key, the stub
  placeholder signature of each version, the window policy) are the fields of \<open>relay_deps\<close>.
\<close>

datatype rpc_error =
    ParseError
  | InvalidRequest
  | MethodNotFound
  | InvalidParams string
  | InternalError string

fun error_code :: "rpc_error \<Rightarrow> int" where
  "error_code ParseError = -32700"
| "error_code InvalidRequest = -32600"
| "error_code MethodNotFound = -32601"
| "error_code (InvalidParams _) = -32602"
| "error_code (InternalError _) = -32603"

fun error_message :: "rpc_error \<Rightarrow> string" where
  "error_message ParseError = ''Parse error''"
| "error_message InvalidRequest = ''Invalid Request''"
| "error_message MethodNotFound = ''Method not found''"
| "error_message (InvalidParams f) = ''Invalid params: '' @ f"
| "error_message (InternalError m) = ''Internal error: '' @ m"

datatype request_kind = StubData | FinalData

record relay_deps =
  registry :: "version \<Rightarrow> address \<Rightarrow> address"
  op_hash :: "version \<Rightarrow> (string \<times> json) list \<Rightarrow> byte list"
  digest :: "byte list \<Rightarrow> byte list"
  sign_with :: "address \<Rightarrow> byte list \<Rightarrow> byte list option"
  stub_signature :: "version \<Rightarrow> byte list"
  policy :: window_policy

subsection \<open>Received \<open>\<rightarrow>\<close> Parsed: the envelope\<close>

definition request_id :: "json \<Rightarrow> json" where
  "request_id j =
     (case j of
        JObj kvs \<Rightarrow> (case obj_get kvs ''id'' of Some (JNum n) \<Rightarrow> JNum n | Some (JStr s) \<Rightarrow> JStr s | _ \<Rightarrow> JNull)
      | _ \<Rightarrow> JNull)"

definition parse_envelope :: "json \<Rightarrow> rpc_error + string \<times> json option" where
  "parse_envelope j =
     (case j of
        JObj kvs \<Rightarrow>
          (case (obj_get kvs ''jsonrpc'', obj_get kvs ''method'') of
             (Some (JStr v), Some (JStr m)) \<Rightarrow>
               (if v = ''2.0'' then Inr (m, obj_get kvs ''params'') else Inl InvalidRequest)
           | _ \<Rightarrow> Inl InvalidRequest)
      | _ \<Rightarrow> Inl InvalidRequest)"

subsection \<open>Parsed \<open>\<rightarrow>\<close> Validated: method, version, parameters\<close>

definition version_of_suffix :: "string \<Rightarrow> rpc_error + version" where
  "version_of_suffix s =
     (if s = ''v1'' then Inr V1 else if s = ''v2'' then Inr V2 else if s = ''v3'' then Inr V3
      else Inl (InvalidParams (''method: unsupported protocol version '' @ s)))"

definition parse_method :: "string \<Rightarrow> rpc_error + request_kind \<times> version" where
  "parse_method m =
     (if take (length ''pm_getPaymasterStubData_'') m = ''pm_getPaymasterStubData_''
      then map_sum id (Pair StubData) (version_of_suffix (drop (length ''pm_getPaymasterStubData_'') m))
      else if take (length ''pm_getPaymasterData_'') m = ''pm_getPaymasterData_''
      then map_sum id (Pair FinalData) (version_of_suffix (drop (length ''pm_getPaymasterData_'') m))
      else Inl MethodNotFound)"

fun required_fields :: "version \<Rightarrow> string list" where
  "required_fields V1 =
     [''sender'', ''nonce'', ''initCode'', ''callData'', ''callGasLimit'', ''verificationGasLimit'',
      ''preVerificationGas'', ''maxFeePerGas'', ''maxPriorityFeePerGas'']"
| "required_fields v =
     [''sender'', ''nonce'', ''callData'', ''callGasLimit'', ''verificationGasLimit'',
      ''preVerificationGas'', ''maxFeePerGas'', ''maxPriorityFeePerGas'']"

definition is_hex_string :: "string \<Rightarrow> bool" where
  "is_hex_string s \<longleftrightarrow> take 2 s = ''0x'' \<and> list_all (\<lambda>c. digit_val c \<noteq> None) (drop 2 s)"

definition is_address :: "string \<Rightarrow> bool" where
  "is_address s \<longleftrightarrow> length s = 42 \<and> is_hex_string s"

definition hex_value :: "string \<Rightarrow> nat" where
  "hex_value s = foldl (\<lambda>acc c. acc * 16 + (case digit_val c of Some d \<Rightarrow> d | None \<Rightarrow> 0)) 0 (drop 2 s)"

fun check_fields :: "(string \<times> json) list \<Rightarrow> string list \<Rightarrow> rpc_error + unit" where
  "check_fields kvs [] = Inr ()"
| "check_fields kvs (f # fs) =
     (case obj_get kvs f of
        Some (JStr s) \<Rightarrow> (if is_hex_string s then check_fields kvs fs else Inl (InvalidParams (''userOperation.'' @ f)))
      | _ \<Rightarrow> Inl (InvalidParams (''userOperation.'' @ f)))"

text \<open>The paymaster gas limits of the later versions: absent means zero (a stub request
  asks for them), present means a hex quantity that fits in 128 bits.\<close>

definition gas_field :: "(string \<times> json) list \<Rightarrow> string \<Rightarrow> rpc_error + 128 word" where
  "gas_field kvs f =
     (case obj_get kvs f of
        None \<Rightarrow> Inr 0
      | Some (JStr s) \<Rightarrow>
          (if is_hex_string s \<and> hex_value s < 2 ^ 128 then Inr (word_of_nat (hex_value s))
           else Inl (InvalidParams (''userOperation.'' @ f)))
      | Some _ \<Rightarrow> Inl (InvalidParams (''userOperation.'' @ f)))"

definition parse_gas :: "version \<Rightarrow> (string \<times> json) list \<Rightarrow> rpc_error + 128 word \<times> 128 word" where
  "parse_gas v op =
     (if v = V1 then Inr (0, 0)
      else (case gas_field op ''paymasterVerificationGasLimit'' of
              Inl e \<Rightarrow> Inl e
            | Inr vg \<Rightarrow> map_sum id (Pair vg) (gas_field op ''paymasterPostOpGasLimit'')))"

definition parse_params ::
  "version \<Rightarrow> json option \<Rightarrow> rpc_error + (string \<times> json) list \<times> address \<times> 128 word \<times> 128 word" where
  "parse_params v ps =
     (case ps of
        Some (JArr (JObj op # JStr ep # _)) \<Rightarrow>
          (case check_fields op (required_fields v) of
             Inl e \<Rightarrow> Inl e
           | Inr _ \<Rightarrow>
               (if is_address ep
                then map_sum id (Pair op \<circ> Pair ep) (parse_gas v op)
                else Inl (InvalidParams ''entryPoint'')))
      | Some (JArr (JObj op # _)) \<Rightarrow> Inl (InvalidParams ''entryPoint'')
      | _ \<Rightarrow> Inl (InvalidParams ''userOperation''))"

subsection \<open>Validated \<open>\<rightarrow>\<close> Resolved \<open>\<rightarrow>\<close> Signed\<close>

definition build_claim ::
  "relay_deps \<Rightarrow> 48 word \<Rightarrow> rpc_config \<Rightarrow> version \<Rightarrow> (string \<times> json) list \<Rightarrow> 128 word \<Rightarrow> 128 word \<Rightarrow> rpc_error + claim" where
  "build_claim d now cfg v op vg pg =
     (let pm = registry d v (paymasterSigner cfg);
          w = validity_window (policy d) now;
          h = op_hash d v op
      in case read_hex pm of
           None \<Rightarrow> Inl (InternalError ''paymaster address'')
         | Some pmb \<Rightarrow>
             (if length pmb = 20 \<and> length h = 32
              then Inr \<lparr>claim_paymaster = pmb, validAfter = fst w, validUntil = snd w, operationHash = h,
                        claim_mode = SponsorAll, pmVerificationGasLimit = vg, pmPostOpGasLimit = pg\<rparr>
              else Inl (InternalError ''claim encoding'')))"

text \<open>A stub request gets the placeholder signature of its protocol version: the spec
  (section 9) leaves the convention open per version (a zero signature, or none), so it
  is the field \<open>stub_signature\<close> of \<open>relay_deps\<close>. A final request is signed with the configured signer's key, whose absence is an
  internal error of this request only.\<close>

definition authorize ::
  "relay_deps \<Rightarrow> rpc_config \<Rightarrow> request_kind \<Rightarrow> version \<Rightarrow> claim \<Rightarrow> rpc_error + byte list" where
  "authorize d cfg k v c =
     (case k of
        StubData \<Rightarrow> Inr (stub_signature d v)
      | FinalData \<Rightarrow>
          (case sign_with d (paymasterSigner cfg) (digest d (encodeClaim v c)) of
             None \<Rightarrow> Inl (InternalError ''signing key unavailable'')
           | Some sig \<Rightarrow> Inr sig))"

subsection \<open>Signed \<open>\<rightarrow>\<close> Responded\<close>

definition sponsorship_result :: "version \<Rightarrow> address \<Rightarrow> claim \<Rightarrow> byte list \<Rightarrow> json" where
  "sponsorship_result v pm c sig =
     JObj [(''paymaster'', JStr pm), (''paymasterData'', JStr (show_hex (encodeClaim v c @ sig))),
           (''validAfter'', JNum (uint (validAfter c))), (''validUntil'', JNum (uint (validUntil c)))]"

definition rpc_success :: "json \<Rightarrow> json \<Rightarrow> json" where
  "rpc_success i r = JObj [(''jsonrpc'', JStr ''2.0''), (''id'', i), (''result'', r)]"

definition rpc_failure :: "json \<Rightarrow> rpc_error \<Rightarrow> json" where
  "rpc_failure i e =
     JObj [(''jsonrpc'', JStr ''2.0''), (''id'', i),
           (''error'', JObj [(''code'', JNum (error_code e)), (''message'', JStr (error_message e))])]"

definition handle_request :: "relay_deps \<Rightarrow> 48 word \<Rightarrow> rpc_config \<Rightarrow> json \<Rightarrow> rpc_error + json" where
  "handle_request d now cfg j =
     (case parse_envelope j of
        Inl e \<Rightarrow> Inl e
      | Inr (m, ps) \<Rightarrow>
        (case parse_method m of
           Inl e \<Rightarrow> Inl e
         | Inr (k, v) \<Rightarrow>
           (case parse_params v ps of
              Inl e \<Rightarrow> Inl e
            | Inr (op, ep, vg, pg) \<Rightarrow>
              (case build_claim d now cfg v op vg pg of
                 Inl e \<Rightarrow> Inl e
               | Inr c \<Rightarrow>
                 (case authorize d cfg k v c of
                    Inl e \<Rightarrow> Inl e
                  | Inr sig \<Rightarrow> Inr (sponsorship_result v (registry d v (paymasterSigner cfg)) c sig))))))"

definition rpc_reply :: "relay_deps \<Rightarrow> 48 word \<Rightarrow> rpc_config \<Rightarrow> json \<Rightarrow> json" where
  "rpc_reply d now cfg j =
     (case handle_request d now cfg j of
        Inl e \<Rightarrow> rpc_failure (request_id j) e
      | Inr r \<Rightarrow> rpc_success (request_id j) r)"

definition createRpcHandler :: "relay_deps \<Rightarrow> rpc_config \<Rightarrow> 48 word \<Rightarrow> json \<Rightarrow> http_response" where
  "createRpcHandler d cfg now j = \<lparr>status = 200, resp_headers = [], resp_body = rpc_reply d now cfg j\<rparr>"

subsection \<open>Lemmas\<close>

lemma handle_request_Inr:
  "handle_request d now cfg j = Inr res \<longleftrightarrow>
     (\<exists>m ps k v op ep vg pg c sig.
        parse_envelope j = Inr (m, ps) \<and> parse_method m = Inr (k, v) \<and>
        parse_params v ps = Inr (op, ep, vg, pg) \<and> build_claim d now cfg v op vg pg = Inr c \<and>
        authorize d cfg k v c = Inr sig \<and> res = sponsorship_result v (registry d v (paymasterSigner cfg)) c sig)"
  by (auto simp: handle_request_def split: sum.splits prod.splits)

lemma handle_request_Inl:
  "handle_request d now cfg j = Inl e \<longleftrightarrow>
     parse_envelope j = Inl e \<or>
     (\<exists>m ps. parse_envelope j = Inr (m, ps) \<and>
        (parse_method m = Inl e \<or>
         (\<exists>k v. parse_method m = Inr (k, v) \<and>
            (parse_params v ps = Inl e \<or>
             (\<exists>op ep vg pg. parse_params v ps = Inr (op, ep, vg, pg) \<and>
                (build_claim d now cfg v op vg pg = Inl e \<or>
                 (\<exists>c. build_claim d now cfg v op vg pg = Inr c \<and> authorize d cfg k v c = Inl e)))))))"
  by (auto simp: handle_request_def split: sum.splits prod.splits)

lemma rpc_success_neq_failure [simp]: "rpc_success i r \<noteq> rpc_failure i' e"
  by (simp add: rpc_success_def rpc_failure_def)

lemma rpc_reply_success:
  "rpc_reply d now cfg j = rpc_success i res \<Longrightarrow> handle_request d now cfg j = Inr res \<and> i = request_id j"
  by (auto simp: rpc_reply_def rpc_success_def rpc_failure_def split: sum.splits)

lemma rpc_reply_failure:
  "handle_request d now cfg j = Inl e \<Longrightarrow> rpc_reply d now cfg j = rpc_failure (request_id j) e"
  by (simp add: rpc_reply_def)

lemma build_claim_Inr:
  "build_claim d now cfg v op vg pg = Inr c \<longleftrightarrow>
     (\<exists>pmb. read_hex (registry d v (paymasterSigner cfg)) = Some pmb \<and> length pmb = 20 \<and>
        length (op_hash d v op) = 32 \<and>
        c = \<lparr>claim_paymaster = pmb, validAfter = fst (validity_window (policy d) now),
             validUntil = snd (validity_window (policy d) now), operationHash = op_hash d v op,
             claim_mode = SponsorAll, pmVerificationGasLimit = vg, pmPostOpGasLimit = pg\<rparr>)"
  by (auto simp: build_claim_def Let_def split: option.splits if_splits)

lemma parse_params_V1_gas:
  "parse_params V1 ps = Inr (op, ep, vg, pg) \<Longrightarrow> vg = 0 \<and> pg = 0"
  by (auto simp: parse_params_def parse_gas_def split: json.splits list.splits sum.splits if_splits option.splits)

lemma built_claim_wf:
  "parse_params v ps = Inr (op, ep, vg, pg) \<Longrightarrow> build_claim d now cfg v op vg pg = Inr c \<Longrightarrow> wf_claim v c"
  by (cases v) (auto simp: wf_claim_def build_claim_Inr dest: parse_params_V1_gas)

lemma length_encodeClaim:
  "wf_claim v c \<Longrightarrow> length (encodeClaim v c) = sum_list (field_widths v)"
proof -
  assume "wf_claim v c"
  then have "map length (claim_fields v c) = field_widths v" by (rule map_length_claim_fields)
  then show ?thesis by (simp add: encodeClaim_def length_concat)
qed

lemma paymasterData_decodes:
  assumes "wf_claim v c"
  shows "read_hex (show_hex (encodeClaim v c @ sig)) = Some (encodeClaim v c @ sig) \<and>
         decodeClaim v (take (sum_list (field_widths v)) (encodeClaim v c @ sig)) = Some c"
  using decode_encode_claim [OF assms] length_encodeClaim [OF assms] by simp

lemma parse_method_other:
  "take (length ''pm_getPaymasterStubData_'') m \<noteq> ''pm_getPaymasterStubData_'' \<Longrightarrow>
   take (length ''pm_getPaymasterData_'') m \<noteq> ''pm_getPaymasterData_'' \<Longrightarrow> parse_method m = Inl MethodNotFound"
  by (simp add: parse_method_def)

lemma authorize_no_key:
  "sign_with d (paymasterSigner cfg) (digest d (encodeClaim v c)) = None \<Longrightarrow>
   authorize d cfg FinalData v c = Inl (InternalError ''signing key unavailable'')"
  by (simp add: authorize_def)

lemma gas_field_Inr:
  "obj_get kvs f = Some (JStr g) \<Longrightarrow> gas_field kvs f = Inr x \<Longrightarrow>
     is_hex_string g \<and> hex_value g < 2 ^ 128 \<and> x = word_of_nat (hex_value g)"
  by (auto simp: gas_field_def split: if_splits)

lemma gas_field_overflow:
  "obj_get kvs f = Some (JStr g) \<Longrightarrow> 2 ^ 128 \<le> hex_value g \<Longrightarrow>
     gas_field kvs f = Inl (InvalidParams (''userOperation.'' @ f))"
  by (simp add: gas_field_def)

lemma parse_params_Inr_gas:
  assumes "parse_params v (Some (JArr (JObj op # JStr ep # rest))) = Inr (op', ep', vg, pg)"
    and "v \<noteq> V1" and "obj_get op ''paymasterVerificationGasLimit'' = Some (JStr g)"
  shows "op' = op \<and> hex_value g < 2 ^ 128 \<and> vg = word_of_nat (hex_value g)"
proof -
  from assms(1,2) obtain pg' where
    "gas_field op ''paymasterVerificationGasLimit'' = Inr vg" and "op' = op"
    by (cases "gas_field op ''paymasterPostOpGasLimit''")
       (auto simp: parse_params_def parse_gas_def split: sum.splits if_splits)
  with gas_field_Inr [OF assms(3)] show ?thesis by blast
qed

lemma parse_params_gas_overflow:
  assumes "check_fields op (required_fields v) = Inr ()" and "is_address ep" and "v \<noteq> V1"
    and "obj_get op ''paymasterVerificationGasLimit'' = Some (JStr g)" and "2 ^ 128 \<le> hex_value g"
  shows "parse_params v (Some (JArr (JObj op # JStr ep # rest))) =
           Inl (InvalidParams ''userOperation.paymasterVerificationGasLimit'')"
  using assms gas_field_overflow [OF assms(4,5)] by (simp add: parse_params_def parse_gas_def)

text \<open>Error paths: which stage reports which error.\<close>

lemma parse_envelope_Inl:
  "parse_envelope j = Inl e \<longleftrightarrow>
     e = InvalidRequest \<and>
     \<not> (\<exists>kvs m. j = JObj kvs \<and> obj_get kvs ''jsonrpc'' = Some (JStr ''2.0'') \<and> obj_get kvs ''method'' = Some (JStr m))"
  by (auto simp: parse_envelope_def split: json.splits option.splits)

lemma parse_method_not_invalid_request: "parse_method m \<noteq> Inl InvalidRequest"
  by (simp add: parse_method_def version_of_suffix_def)

lemma check_fields_not_invalid_request: "check_fields op fs \<noteq> Inl InvalidRequest"
  by (induction fs) (auto split: option.splits json.splits)

lemma parse_params_not_invalid_request: "parse_params v ps \<noteq> Inl InvalidRequest"
proof -
  have "gas_field op f \<noteq> Inl InvalidRequest" for op f
    by (simp add: gas_field_def split: option.splits json.splits)
  then have "parse_gas v op \<noteq> Inl InvalidRequest" for op
    by (cases "gas_field op ''paymasterPostOpGasLimit''") (auto simp: parse_gas_def split: sum.splits)
  then have pg: "map_sum id (Pair op \<circ> Pair ep) (parse_gas v op) \<noteq> Inl InvalidRequest" for op and ep :: address
    by (cases "parse_gas v op") auto
  show ?thesis
    by (auto simp: parse_params_def pg check_fields_not_invalid_request split: option.splits json.splits list.splits sum.splits)
qed

lemma build_claim_not_invalid_request: "build_claim d now cfg v op vg pg \<noteq> Inl InvalidRequest"
  by (simp add: build_claim_def Let_def split: option.splits)

lemma authorize_not_invalid_request: "authorize d cfg k v c \<noteq> Inl InvalidRequest"
  by (simp add: authorize_def split: request_kind.splits option.splits)

lemma handle_request_invalid_request:
  "handle_request d now cfg j = Inl InvalidRequest \<longleftrightarrow> parse_envelope j = Inl InvalidRequest"
  using parse_method_not_invalid_request parse_params_not_invalid_request
    build_claim_not_invalid_request authorize_not_invalid_request
  by (auto simp: handle_request_Inl)

lemma check_fields_append:
  "\<forall>g\<in>set pre. \<exists>s. obj_get op g = Some (JStr s) \<and> is_hex_string s \<Longrightarrow>
     check_fields op (pre @ fs) = check_fields op fs"
  by (induction pre) auto

lemma check_fields_first_bad:
  assumes "\<forall>g\<in>set pre. \<exists>s. obj_get op g = Some (JStr s) \<and> is_hex_string s"
    and "\<not> (\<exists>s. obj_get op f = Some (JStr s) \<and> is_hex_string s)"
  shows "check_fields op (pre @ f # fs) = Inl (InvalidParams (''userOperation.'' @ f))"
  using assms by (auto simp: check_fields_append split: option.splits json.splits)

lemma parse_params_fields_Inl:
  "check_fields op (required_fields v) = Inl e \<Longrightarrow> parse_params v (Some (JArr (JObj op # JStr ep # rest))) = Inl e"
  by (simp add: parse_params_def)

text \<open>A failure answer determines the error it reports.\<close>

lemma rpc_failure_inj [simp]: "rpc_failure i e = rpc_failure i' e' \<longleftrightarrow> i = i' \<and> e = e'"
  by (cases e; cases e') (auto simp: rpc_failure_def)

lemma rpc_reply_eq_failure:
  "rpc_reply d now cfg j = rpc_failure i e \<longleftrightarrow> handle_request d now cfg j = Inl e \<and> i = request_id j"
  by (auto simp: rpc_reply_def split: sum.splits)

end
