(* ===== verification/Spec2Isabelle.thy ===== *)
theory Spec2Isabelle
  imports Process Bootstrap Relay
begin

text \<open>
  \<^bold>\<open>A verification model of the mock verifying paymaster.\<close>

  \<^bold>\<open>The program.\<close> The repository's only source under src/ is
  src/mock-verifying-paymaster/src/index.ts. Its \<open>main\<close> reads the environment
  (ANVIL_RPC, ALTO_RPC), creates a wallet client, a public client and a bundler client,
  computes the addresses of the three singleton paymasters (entry points 0.6, 0.7, 0.8)
  from the wallet address, checks with \<open>verifyDeployed\<close> that each has code on the
  chain, deploys the paymasters and an ERC-20 token when one has none, registers the
  CORS plugin, the JSON-RPC handler on POST / and a liveness handler on GET /ping, and
  listens on 0.0.0.0:3000. Line 93 calls \<open>main()\<close> without handling its promise. The
  JSON-RPC relay, the address functions and the deployment helpers are imported from
  modules that are not under src/ (./relay, ./constants, ./singletonPaymasters,
  ./helpers); the spec calls them the RPC Relay, the Paymaster Registry, the Signature
  Engine and the Bootstrap collaborator.

  \<^bold>\<open>Theories.\<close>
  \<^item> Prelude: the type names (addresses and hex data as 0x-strings, bytes as 8-bit
    words), JSON values with the last-key-wins lookup of \<open>JSON.parse\<close>, shared list
    lemmas and the collections \<open>world_frame\<close> and \<open>model_unfold\<close>.
  \<^item> Fastify: the application value and the calls that build it (\<open>fastify_new\<close>,
    \<open>register_cors\<close>, \<open>app_post\<close>, \<open>app_get\<close>, \<open>app_listen\<close>), the /ping reply
    (\<open>ping_reply\<close>, index.ts lines 86--88), the chain and client records of lines 35--50,
    and the dispatch of a request (\<open>serve\<close>): route lookup on the path without the query
    string, HEAD answered by GET routes without a body, Fastify's body parser chosen by
    media type with its 400 and 415 error objects, its 404 handler, and the CORS plugin's
    header and strict preflight answer (Vary, reflected request headers, Content-Length
    0); no answer before listening. The relay handler and the JSON text parser are
    parameters of \<open>serve\<close>.
  \<^item> Startup: the \<open>world\<close> record (environment, whether the node answers, the code
    at each address, the console, the calls made), \<open>getCode\<close>, \<open>not_deployed\<close>
    (the falsy test of line 21), \<open>verifyDeployed_loop\<close>/\<open>verifyDeployed\<close> (lines
    15--28), and \<open>main\<close> (lines 30--91) split into \<open>main_setup\<close> (31--56),
    \<open>bootstrap\<close> (58--72, with \<open>run_deploy\<close> for each awaited helper),
    \<open>register_routes\<close> (74--88) and \<open>listen\<close> (90). Errors are the \<open>Inl\<close> values of
    \<open>error + _\<close>: a rejected await ends \<open>main\<close>. The imported helpers are the fields
    of the interface record \<open>collab\<close>; the deployment helpers receive the wallet
    (lines 70--71) and can only replace the code on the chain, so every statement holds
    for any helpers or for those meeting a stated contract. The clients of lines 43--50
    are built by viem's HTTP transport (\<open>http_transport\<close>): the configured URL when it
    is truthy, else the chain's default RPC URL, else the \<open>UrlRequired\<close> error that
    viem throws while \<open>createPublicClient\<close> or \<open>createBundlerClient\<close> runs.
  \<^item> Lifecycle: the process around \<open>main()\<close> as a labelled step relation
    \<open>proc_step\<close> over Booting, Serving and Crashed, its runs \<open>proc_run\<close>, and the
    invariant \<open>proc_inv\<close> proved by rule induction.
  \<^item> Process: the state invariant \<open>proc_wf\<close> of every serving state (the application
    of lines 74--90, listening, with port 3000 taken), proved by rule induction, and the
    CORS preflight answers of a serving process.
  \<^item> Bootstrap (modelled from the spec): the Bootstrap collaborator, deploying the
    paymaster bytecode at the three singleton addresses of the wallet
    (\<open>deploySingletons\<close>) and the token at its address (\<open>deployToken\<close>), plugged into
    \<open>collab\<close> by \<open>with_bootstrap\<close>.
  \<^item> Signature (modelled from the spec): the protocol versions, the sponsorship
    \<open>claim\<close> record with 48-bit window words and 128-bit gas words, the per-version
    field layout \<open>claim_fields\<close>/\<open>field_widths\<close> with a version tag byte,
    \<open>encodeClaim\<close> and the verifier's \<open>decodeClaim\<close>, and the window policy
    \<open>validity_window\<close>. Proved there: decoding inverts encoding for every claim the
    version can carry, the encoding is canonical, no two versions share an encoding, and
    the window's bounds and width on uint48 timestamps.
  \<^item> Relay (modelled from the spec): \<open>createRpcHandler\<close>, the JSON-RPC handler of
    line 79, as the pipeline \<open>parse_envelope\<close>, \<open>parse_method\<close> (method family and
    version suffix), \<open>parse_params\<close>, \<open>build_claim\<close>, \<open>authorize\<close> (zero signature
    for stub data, the signer's key for final data) and \<open>rpc_reply\<close>, every failure an
    \<open>rpc_error\<close> with its JSON-RPC code. The hash, digest and signing primitives, the
    stub placeholder signature of each version (the spec leaves that convention open per
    version) and the window policy are the fields of \<open>relay_deps\<close>. Its error-path lemmas say which
    stage reports which error: only the envelope gives -32600, and the first invalid
    required field is the one named.
  \<^item> This theory: \<open>registry_of\<close> (the Registry of the spec: the singleton address
    function for each version) and \<open>paymaster_of_version\<close> (the matching address that
    main computed at lines 52--56), and the end-to-end properties of a request served by
    the process of Lifecycle running the relay of Relay.

  \<^bold>\<open>What is proved.\<close> verifyDeployed reads every address in order without
  short-circuit, answers whether all have code and logs the missing ones (C1), and
  rejects on the first read when the node is down (C2). The bootstrap phase reads the
  three paymasters then deploys the paymasters before the token, only when one is
  missing (C3); under the helpers' contract it establishes code at the three addresses,
  the spec's deployment policy (C4); when all three are present it deploys nothing
  (C5). A request is answered only after main succeeded and read the three addresses
  (C6), GET /ping then always answers 200 pong (C7). The findings: when the node is
  down no request, ping included, is ever answered (C8); an unparsable JSON body gets
  Fastify's 400, never a JSON-RPC -32700 (C9); main serves without checking the
  deployment again (C10); main validates no configuration, and the setup phase fails
  exactly when getChain or getAnvilWalletClient reject or a client's transport has no
  URL, viem's UrlRequiredError (C11). End to end, for a process serving the relay: a
  successful answer names the address main computed and bootstrap read for the
  requested version (C12), and its paymasterData decodes to the claim with that address,
  the request-time window and the operation's hash (C13); an unknown method gets -32601
  (C14), a bad version suffix -32602 (C15), a key that cannot sign -32603 (C16). Every
  serving state holds the application of lines 74--90 with port 3000 taken (C17, by rule
  induction), and every OPTIONS request is answered by the CORS plugin (C18). With the
  spec's Bootstrap collaborator, startup always reaches listening with the three
  paymasters deployed (C19), and the token is deployed only when a paymaster was missing
  (C20). A final-data answer carries the signature of the wallet main passed as
  paymasterSigner (C21). The relay computes each window at the request's own time, with
  exact bounds when it does not wrap (C22, C23), returns the 128-bit paymaster gas limit
  of a version 0.7/0.8 request unchanged through the encoding (C24), and refuses a limit
  of 2^128 or more with -32602 (C25). A body that is not a JSON-RPC 2.0 envelope, and
  only such a body, gets -32600 (C26); a missing or non-hex field of the user operation
  gets -32602 naming the first such field (C27). Across components: composed with the
  spec's Bootstrap helpers, every served sponsorship names a paymaster that has code in
  the world the process serves from (C28), and the handler of POST / receives the
  clients built from ANVIL_RPC and ALTO_RPC on getChain's chain and the wallet main
  created (C29); when ALTO_RPC is unset the bundler client silently talks to the
  chain's default RPC URL. Every claim with hypotheses has a witness on a concrete
  deployment (\<open>e2e_collab\<close>, \<open>e2e_deps\<close>, \<open>e2e_request\<close>) evaluated by the
  simplifier.

  \<^bold>\<open>Bounds and fuel.\<close> No loop of index.ts needs fuel: the for-of loop of
  verifyDeployed is structural recursion over the address list, and the relay's
  parameter check recurses over the list of required fields. Timestamps are 48-bit words
  as in the on-chain claim; C22 states the bounds under which the window does not wrap.

  \<^bold>\<open>The clock.\<close> Every request carries the clock reading at which its handler
  runs (\<open>req_time\<close>, Unix seconds as a 48-bit word), and \<open>createRpcHandler d cfg now\<close>
  computes the validity window from it, as the relay does with \<open>Date.now()\<close> per
  request. The window is therefore computed at the time of each request (C22), and the
  same request at two different times gets two different results (C23).

  \<^bold>\<open>Plan for the parts not yet modelled.\<close> The Registry's addressFor with its
  ConfigurationError on a malformed deployer address: in index.ts the Registry
  functions are applied only to the address of a viem account, so the error path is not
  reachable from the code and the Registry stays an interface field; the
  SponsorGasOnly mode of the relay (the spec leaves open whether the source has one, so
  every claim is built in the SponsorAll mode). Both stay out for want of source: the
  Registry's and the relay's modules are not in the repository, and the spec fixes
  neither. The Registry component is therefore partly modelled (the per-version choice
  of address function), and so is the Signature Engine (no SponsorGasOnly claims; the
  hash and signature primitives are parameters).

  \<^bold>\<open>Not modelled.\<close> Fastify's internals beyond routing and body parsing: its
  bodyLimit (a body over 1 MiB is answered 413 before the handler runs, so the
  properties of POST / hold for bodies within it), its distinct error for an empty JSON
  body, and the Content-Type and Content-Length headers it derives from a body; the CORS
  plugin beyond its header and preflight answer; viem's clients beyond the URL and chain
  of their transports and the code a \<open>getCode\<close> returns or its rejection; getChain and
  getAnvilWalletClient beyond their value or rejection (the clients component is partly
  modelled: request machinery, the bundler's methods and the wallet's signing are library
  code the sources only call); console formatting beyond the strings logged; and the
  contents of the helper modules, which are interface parameters.
\<close>


section \<open>The relay behind the served application\<close>

text \<open>The relay's registry for each protocol version is the singleton address function
  that main applies to the wallet address (index.ts lines 52--56), and the paymaster of a
  version is the matching field of main's state.\<close>

fun registry_of :: "collab \<Rightarrow> version \<Rightarrow> address \<Rightarrow> address" where
  "registry_of c V1 = getSingletonPaymaster06Address c"
| "registry_of c V2 = getSingletonPaymaster07Address c"
| "registry_of c V3 = getSingletonPaymaster08Address c"

fun paymaster_of_version :: "startup \<Rightarrow> version \<Rightarrow> address" where
  "paymaster_of_version s V1 = paymaster06 s"
| "paymaster_of_version s V2 = paymaster07 s"
| "paymaster_of_version s V3 = paymaster08 s"


text \<open>A concrete deployment used by the witnesses: the collaborators of the Startup example with
  20-byte singleton addresses, a relay whose key signs, and a version-0.6 stub-data request.\<close>

abbreviation pm_v1 :: address where "pm_v1 \<equiv> ''0x00000000000000000000000000000000000000a6''"
abbreviation pm_v2 :: address where "pm_v2 \<equiv> ''0x00000000000000000000000000000000000000a7''"
abbreviation pm_v3 :: address where "pm_v3 \<equiv> ''0x00000000000000000000000000000000000000a8''"
abbreviation entry_point_v1 :: address where "entry_point_v1 \<equiv> ''0x5ff137d4b0fdcd49dca30c7cf57e578a026d2789''"

abbreviation e2e_collab :: collab where
  "e2e_collab \<equiv> example_collab\<lparr>getSingletonPaymaster06Address := (\<lambda>_. pm_v1),
     getSingletonPaymaster07Address := (\<lambda>_. pm_v2), getSingletonPaymaster08Address := (\<lambda>_. pm_v3)\<rparr>"

abbreviation e2e_deps :: relay_deps where
  "e2e_deps \<equiv> \<lparr>registry = registry_of e2e_collab, op_hash = (\<lambda>_ _. replicate 32 0), digest = id,
                sign_with = (\<lambda>_ _. Some (replicate 65 1)),
                stub_signature = (\<lambda>_. replicate 65 0), policy = \<lparr>clock_skew = 60, sponsorship_ttl = 3600\<rparr>\<rparr>"

abbreviation e2e_op :: "(string \<times> json) list" where
  "e2e_op \<equiv> map (\<lambda>f. (f, JStr ''0x00'')) (required_fields V1)"

abbreviation e2e_request :: "string \<Rightarrow> json" where
  "e2e_request m \<equiv> JObj [(''jsonrpc'', JStr ''2.0''), (''id'', JNum 1), (''method'', JStr m),
                         (''params'', JArr [JObj e2e_op, JStr entry_point_v1])]"

text \<open>A version 0.7 stub request whose user operation carries a paymaster verification gas
  limit.\<close>

abbreviation e2e_gas_request :: "string \<Rightarrow> json" where
  "e2e_gas_request g \<equiv> JObj [(''jsonrpc'', JStr ''2.0''), (''id'', JNum 1), (''method'', JStr ''pm_getPaymasterStubData_v2''),
      (''params'', JArr [JObj (e2e_op @ [(''paymasterVerificationGasLimit'', JStr g)]), JStr entry_point_v1])]"

abbreviation post_at :: "48 word \<Rightarrow> http_request" where
  "post_at t \<equiv> \<lparr>req_method = POST, req_url = ''/'', req_headers = [(''content-type'', ''application/json'')],
                 req_body = ''{}'', req_time = t\<rparr>"

abbreviation relay_cors :: cors_options where
  "relay_cors \<equiv> \<lparr>cors_origin = ''*'', cors_methods = [POST, GET, OPTIONS]\<rparr>"

abbreviation post_request :: http_request where
  "post_request \<equiv> post_at 1700000000"

text \<open>What every answer of the serving process looks like: one of the statuses the code and
  its plugins produce, the CORS header first, and a JSON object as body except for the
  preflight answers.\<close>

subsection \<open>End-to-end properties\<close>

lemma registry_of_startup:
  "main_setup c w0 = Inr (s, w1) \<Longrightarrow> registry_of c v (walletAddress s) = paymaster_of_version s v"
  by (cases v) (auto simp: main_setup_def Let_def split: sum.splits)

lemma paymaster_of_version_checked: "paymaster_of_version s v \<in> set (paymasters s)"
  by (cases v) (simp_all add: paymasters_def)

lemma served_result:
  assumes run: "proc_run c (createRpcHandler d) parse (Booting w0) os (Serving w a)"
    and post: "req_method r = POST" "req_url r = ''/''"
      "header (req_headers r) ''content-type'' = Some ''application/json''" "parse (req_body r) = Some j"
    and ans: "serve a (createRpcHandler d) parse r = Some resp" "resp_body resp = rpc_success i res"
  shows "\<exists>s w1. main_setup c w0 = Inr (s, w1) \<and> prefix (calls w0 @ map GetCode (paymasters s)) (calls w) \<and>
           handle_request d (req_time r) \<lparr>bundler = bundler_client s, publicClient = public_client s,
                                 paymasterSigner = walletAddress s\<rparr> j = Inr res"
  using serve_post_json [OF run post] ans
  by (auto simp: createRpcHandler_def dest: rpc_reply_success)

lemma served_success:
  assumes run: "proc_run c (createRpcHandler d) parse (Booting w0) os (Serving w a)"
    and post: "req_method r = POST" "req_url r = ''/''"
      "header (req_headers r) ''content-type'' = Some ''application/json''" "parse (req_body r) = Some j"
    and ans: "serve a (createRpcHandler d) parse r = Some resp" "resp_body resp = rpc_success i res"
  shows "\<exists>(s :: startup) v cl sig. res = sponsorship_result v (registry d v (walletAddress s)) cl sig \<and>
           (validAfter cl, validUntil cl) = validity_window (policy d) (req_time r)"
proof -
  from served_result [OF run post ans] obtain s :: startup where
    h: "handle_request d (req_time r) \<lparr>bundler = bundler_client s, publicClient = public_client s,
                                  paymasterSigner = walletAddress s\<rparr> j = Inr res" by blast
  then obtain v op vg pg cl sig where
    bc: "build_claim d (req_time r) \<lparr>bundler = bundler_client s, publicClient = public_client s,
                             paymasterSigner = walletAddress s\<rparr> v op vg pg = Inr cl"
    and res: "res = sponsorship_result v (registry d v (walletAddress s)) cl sig"
    by (auto simp: handle_request_Inr)
  from bc have "(validAfter cl, validUntil cl) = validity_window (policy d) (req_time r)"
    by (auto simp: build_claim_Inr)
  with res show ?thesis by blast
qed

lemma served_reply:
  assumes run: "proc_run c (createRpcHandler d) parse (Booting w0) os (Serving w a)"
    and post: "req_method r = POST" "req_url r = ''/''"
      "header (req_headers r) ''content-type'' = Some ''application/json''" "parse (req_body r) = Some j"
  shows "\<exists>s w1. main_setup c w0 = Inr (s, w1) \<and>
           serve a (createRpcHandler d) parse r =
             Some (with_cors (Some relay_cors)
               \<lparr>status = 200, resp_headers = [],
                resp_body = rpc_reply d (req_time r) \<lparr>bundler = bundler_client s, publicClient = public_client s,
                                                     paymasterSigner = walletAddress s\<rparr> j\<rparr>)"
  using serve_post_json [OF run post] by (auto simp: createRpcHandler_def)

text \<open>C12: When the served relay answers a sponsorship request with success, the paymaster
  address in the result is the singleton address that main computed for the requested
  protocol version from the wallet (index.ts lines 52--56), one of the three addresses
  whose code bootstrap read before the server started listening.\<close>

theorem response_paymaster_is_checked_address:
  assumes run: "proc_run c (createRpcHandler d) parse (Booting w0) os (Serving w a)"
    and reg: "registry d = registry_of c"
    and post: "req_method r = POST" "req_url r = ''/''"
      "header (req_headers r) ''content-type'' = Some ''application/json''" "parse (req_body r) = Some j"
    and req: "parse_envelope j = Inr (m, ps)" "parse_method m = Inr (k, v)"
    and ans: "serve a (createRpcHandler d) parse r = Some resp" "resp_body resp = rpc_success i res"
  shows "\<exists>s w1 rest. main_setup c w0 = Inr (s, w1) \<and>
           prefix (calls w0 @ map GetCode (paymasters s)) (calls w) \<and>
           paymaster_of_version s v \<in> set (paymasters s) \<and>
           res = JObj ((''paymaster'', JStr (paymaster_of_version s v)) # rest)"
proof -
  from served_result [OF run post ans] obtain s w1 where ms: "main_setup c w0 = Inr (s, w1)"
    and pre: "prefix (calls w0 @ map GetCode (paymasters s)) (calls w)"
    and h: "handle_request d (req_time r) \<lparr>bundler = bundler_client s, publicClient = public_client s,
                                  paymasterSigner = walletAddress s\<rparr> j = Inr res" by blast
  from h req obtain cl sig where "res = sponsorship_result v (registry d v (walletAddress s)) cl sig"
    by (auto simp: handle_request_Inr)
  then have "res = JObj ((''paymaster'', JStr (paymaster_of_version s v)) #
               tl [(''paymaster'', JStr (paymaster_of_version s v)), (''paymasterData'', JStr (show_hex (encodeClaim v cl @ sig))),
                   (''validAfter'', JNum (uint (validAfter cl))), (''validUntil'', JNum (uint (validUntil cl)))])"
    using reg registry_of_startup [OF ms] by (simp add: sponsorship_result_def)
  with ms pre paymaster_of_version_checked show ?thesis by blast
qed

text \<open>C13: The paymasterData of a successful answer is hex that decodes, under the requested
  version's layout, to a claim whose paymaster is that checked address, whose validity
  window is the policy's window at the request time and whose operation hash is the hash
  of the submitted user operation; the validAfter and validUntil fields of the answer
  repeat the claim's window.\<close>

theorem paymasterData_decodes_to_claim:
  assumes run: "proc_run c (createRpcHandler d) parse (Booting w0) os (Serving w a)"
    and reg: "registry d = registry_of c"
    and post: "req_method r = POST" "req_url r = ''/''"
      "header (req_headers r) ''content-type'' = Some ''application/json''" "parse (req_body r) = Some j"
    and req: "parse_envelope j = Inr (m, ps)" "parse_method m = Inr (k, v)" "parse_params v ps = Inr (op, ep, vg, pg)"
    and ans: "serve a (createRpcHandler d) parse r = Some resp" "resp_body resp = rpc_success i res"
  shows "\<exists>s w1 pd bs cl. main_setup c w0 = Inr (s, w1) \<and>
           res = JObj [(''paymaster'', JStr (paymaster_of_version s v)), (''paymasterData'', JStr pd),
                       (''validAfter'', JNum (uint (validAfter cl))), (''validUntil'', JNum (uint (validUntil cl)))] \<and>
           read_hex pd = Some bs \<and> decodeClaim v (take (sum_list (field_widths v)) bs) = Some cl \<and>
           read_hex (paymaster_of_version s v) = Some (claim_paymaster cl) \<and>
           (validAfter cl, validUntil cl) = validity_window (policy d) (req_time r) \<and> operationHash cl = op_hash d v op"
proof -
  from served_result [OF run post ans] obtain s w1 where ms: "main_setup c w0 = Inr (s, w1)"
    and h: "handle_request d (req_time r) \<lparr>bundler = bundler_client s, publicClient = public_client s,
                                  paymasterSigner = walletAddress s\<rparr> j = Inr res" by blast
  let ?cfg = "\<lparr>bundler = bundler_client s, publicClient = public_client s, paymasterSigner = walletAddress s\<rparr>"
  from h req obtain cl sig where bc: "build_claim d (req_time r) ?cfg v op vg pg = Inr cl"
    and res: "res = sponsorship_result v (registry d v (walletAddress s)) cl sig"
    by (auto simp: handle_request_Inr)
  have wf: "wf_claim v cl" using req(3) bc by (rule built_claim_wf)
  from bc have fields: "read_hex (registry d v (walletAddress s)) = Some (claim_paymaster cl)"
    "(validAfter cl, validUntil cl) = validity_window (policy d) (req_time r)" "operationHash cl = op_hash d v op"
    by (auto simp: build_claim_Inr)
  have reg_s: "registry d v (walletAddress s) = paymaster_of_version s v"
    using reg registry_of_startup [OF ms] by simp
  show ?thesis
    using ms res paymasterData_decodes [OF wf, of sig] fields reg_s
    by (auto simp: sponsorship_result_def)
qed

text \<open>C14: A JSON-RPC request to POST / whose method is not a pm_getPaymasterStubData_ or
  pm_getPaymasterData_ method gets HTTP status 200 and the JSON-RPC error -32601 Method
  not found, with the caller's id.\<close>

theorem unknown_method_not_found:
  assumes run: "proc_run c (createRpcHandler d) parse (Booting w0) os (Serving w a)"
    and post: "req_method r = POST" "req_url r = ''/''"
      "header (req_headers r) ''content-type'' = Some ''application/json''" "parse (req_body r) = Some j"
    and env: "parse_envelope j = Inr (m, ps)"
    and other: "take (length ''pm_getPaymasterStubData_'') m \<noteq> ''pm_getPaymasterStubData_''"
      "take (length ''pm_getPaymasterData_'') m \<noteq> ''pm_getPaymasterData_''"
  shows "\<exists>resp. serve a (createRpcHandler d) parse r = Some resp \<and> status resp = 200 \<and>
           resp_body resp = JObj [(''jsonrpc'', JStr ''2.0''), (''id'', request_id j),
             (''error'', JObj [(''code'', JNum (-32601)), (''message'', JStr ''Method not found'')])]"
proof -
  from serve_post_json [OF run post] obtain s :: startup where
    sv: "serve a (createRpcHandler d) parse r =
           Some (with_cors (Some \<lparr>cors_origin = ''*'', cors_methods = [POST, GET, OPTIONS]\<rparr>)
             (createRpcHandler d \<lparr>bundler = bundler_client s, publicClient = public_client s,
                                        paymasterSigner = walletAddress s\<rparr> (req_time r) j))" by blast
  have "handle_request d (req_time r) \<lparr>bundler = bundler_client s, publicClient = public_client s,
                              paymasterSigner = walletAddress s\<rparr> j = Inl MethodNotFound"
    using env parse_method_other [OF other] by (simp add: handle_request_Inl)
  then show ?thesis using sv
    by (simp add: createRpcHandler_def rpc_reply_failure rpc_failure_def)
qed

text \<open>C15: A stub-data request whose version suffix is not v1, v2 or v3 gets HTTP status 200
  and the JSON-RPC error -32602 naming the unsupported version, with the caller's id.\<close>

theorem garbled_version_invalid_params:
  assumes run: "proc_run c (createRpcHandler d) parse (Booting w0) os (Serving w a)"
    and post: "req_method r = POST" "req_url r = ''/''"
      "header (req_headers r) ''content-type'' = Some ''application/json''" "parse (req_body r) = Some j"
    and env: "parse_envelope j = Inr (m, ps)"
    and stub: "take (length ''pm_getPaymasterStubData_'') m = ''pm_getPaymasterStubData_''"
    and bad: "drop (length ''pm_getPaymasterStubData_'') m \<notin> {''v1'', ''v2'', ''v3''}"
  shows "\<exists>resp. serve a (createRpcHandler d) parse r = Some resp \<and> status resp = 200 \<and>
           resp_body resp = JObj [(''jsonrpc'', JStr ''2.0''), (''id'', request_id j),
             (''error'', JObj [(''code'', JNum (-32602)),
                (''message'', JStr (''Invalid params: method: unsupported protocol version '' @
                                    drop (length ''pm_getPaymasterStubData_'') m))])]"
proof -
  from serve_post_json [OF run post] obtain s :: startup where
    sv: "serve a (createRpcHandler d) parse r =
           Some (with_cors (Some \<lparr>cors_origin = ''*'', cors_methods = [POST, GET, OPTIONS]\<rparr>)
             (createRpcHandler d \<lparr>bundler = bundler_client s, publicClient = public_client s,
                                        paymasterSigner = walletAddress s\<rparr> (req_time r) j))" by blast
  have "parse_method m = Inl (InvalidParams (''method: unsupported protocol version '' @ drop (length ''pm_getPaymasterStubData_'') m))"
    using stub bad by (simp add: parse_method_def version_of_suffix_def)
  then have "handle_request d (req_time r) \<lparr>bundler = bundler_client s, publicClient = public_client s,
                              paymasterSigner = walletAddress s\<rparr> j =
               Inl (InvalidParams (''method: unsupported protocol version '' @ drop (length ''pm_getPaymasterStubData_'') m))"
    using env by (simp add: handle_request_Inl)
  then show ?thesis using sv
    by (simp add: createRpcHandler_def rpc_reply_failure rpc_failure_def)
qed

text \<open>C16: A final-data request with valid parameters and a registered paymaster, when the
  signer's key cannot sign, gets HTTP status 200 and the JSON-RPC error -32603 Internal
  error, never a response with a partial or unsigned paymasterData.\<close>

theorem missing_key_internal_error:
  assumes run: "proc_run c (createRpcHandler d) parse (Booting w0) os (Serving w a)"
    and post: "req_method r = POST" "req_url r = ''/''"
      "header (req_headers r) ''content-type'' = Some ''application/json''" "parse (req_body r) = Some j"
    and req: "parse_envelope j = Inr (m, ps)" "parse_method m = Inr (FinalData, v)" "parse_params v ps = Inr (op, ep, vg, pg)"
    and pm: "\<And>addr. \<exists>b. read_hex (registry d v addr) = Some b \<and> length b = 20"
    and h: "length (op_hash d v op) = 32"
    and nokey: "\<And>addr x. sign_with d addr x = None"
  shows "\<exists>resp. serve a (createRpcHandler d) parse r = Some resp \<and> status resp = 200 \<and>
           resp_body resp = JObj [(''jsonrpc'', JStr ''2.0''), (''id'', request_id j),
             (''error'', JObj [(''code'', JNum (-32603)), (''message'', JStr ''Internal error: signing key unavailable'')])]"
proof -
  from serve_post_json [OF run post] obtain s :: startup where
    sv: "serve a (createRpcHandler d) parse r =
           Some (with_cors (Some \<lparr>cors_origin = ''*'', cors_methods = [POST, GET, OPTIONS]\<rparr>)
             (createRpcHandler d \<lparr>bundler = bundler_client s, publicClient = public_client s,
                                        paymasterSigner = walletAddress s\<rparr> (req_time r) j))" by blast
  let ?cfg = "\<lparr>bundler = bundler_client s, publicClient = public_client s, paymasterSigner = walletAddress s\<rparr>"
  from pm [of "walletAddress s"] obtain b where b: "read_hex (registry d v (walletAddress s)) = Some b" "length b = 20"
    by blast
  then obtain cl where bc: "build_claim d (req_time r) ?cfg v op vg pg = Inr cl"
    using h by (auto simp: build_claim_Inr)
  have "authorize d ?cfg FinalData v cl = Inl (InternalError ''signing key unavailable'')"
    using nokey by (simp add: authorize_no_key)
  with req bc have "handle_request d (req_time r) ?cfg j = Inl (InternalError ''signing key unavailable'')"
    by (auto simp: handle_request_Inl)
  then show ?thesis using sv
    by (simp add: createRpcHandler_def rpc_reply_failure rpc_failure_def)
qed

text \<open>C21: a successful final-data answer is signed by the wallet that main created at lines
  37--41 and handed to the relay as paymasterSigner (line 82): its paymasterData is the
  claim's encoding followed by that key's signature over the digest of the encoding.\<close>

theorem final_data_signed_by_wallet:
  assumes run: "proc_run c (createRpcHandler d) parse (Booting w0) os (Serving w a)"
    and post: "req_method r = POST" "req_url r = ''/''"
      "header (req_headers r) ''content-type'' = Some ''application/json''" "parse (req_body r) = Some j"
    and req: "parse_envelope j = Inr (m, ps)" "parse_method m = Inr (FinalData, v)"
    and ans: "serve a (createRpcHandler d) parse r = Some resp" "resp_body resp = rpc_success i res"
  shows "\<exists>s w1 cl sig. main_setup c w0 = Inr (s, w1) \<and>
           sign_with d (walletAddress s) (digest d (encodeClaim v cl)) = Some sig \<and>
           res = sponsorship_result v (registry d v (walletAddress s)) cl sig"
proof -
  from served_result [OF run post ans] obtain s w1 where ms: "main_setup c w0 = Inr (s, w1)"
    and h: "handle_request d (req_time r) \<lparr>bundler = bundler_client s, publicClient = public_client s,
                                  paymasterSigner = walletAddress s\<rparr> j = Inr res" by blast
  from h req obtain cl sig where
    "authorize d \<lparr>bundler = bundler_client s, publicClient = public_client s,
                  paymasterSigner = walletAddress s\<rparr> FinalData v cl = Inr sig"
    and "res = sponsorship_result v (registry d v (walletAddress s)) cl sig"
    by (auto simp: handle_request_Inr)
  with ms show ?thesis by (auto simp: authorize_def split: option.splits)
qed

text \<open>C22: the validity window of a successful answer is computed at the moment the request
  is handled: validAfter is that time minus the clock skew and validUntil that time plus
  the time-to-live, when neither wraps around the uint48 range.\<close>

theorem response_window_at_request_time:
  assumes run: "proc_run c (createRpcHandler d) parse (Booting w0) os (Serving w a)"
    and post: "req_method r = POST" "req_url r = ''/''"
      "header (req_headers r) ''content-type'' = Some ''application/json''" "parse (req_body r) = Some j"
    and ans: "serve a (createRpcHandler d) parse r = Some resp" "resp_body resp = rpc_success i res"
    and skew: "unat (clock_skew (policy d)) \<le> unat (req_time r)"
    and ttl: "unat (req_time r) + unat (sponsorship_ttl (policy d)) < 2 ^ 48"
  shows "\<exists>pm pd. res = JObj [(''paymaster'', JStr pm), (''paymasterData'', JStr pd),
           (''validAfter'', JNum (int (unat (req_time r)) - int (unat (clock_skew (policy d))))),
           (''validUntil'', JNum (int (unat (req_time r)) + int (unat (sponsorship_ttl (policy d)))))]"
proof -
  from served_success [OF run post ans] obtain s :: startup and v cl sig where
    res: "res = sponsorship_result v (registry d v (walletAddress s)) cl sig"
    and win: "(validAfter cl, validUntil cl) = validity_window (policy d) (req_time r)" by blast
  from win have va: "validAfter cl = req_time r - clock_skew (policy d)"
    and vu: "validUntil cl = req_time r + sponsorship_ttl (policy d)" by (simp_all add: validity_window_def)
  have na: "unat (validAfter cl) = unat (req_time r) - unat (clock_skew (policy d))"
    and nu: "unat (validUntil cl) = unat (req_time r) + unat (sponsorship_ttl (policy d))"
    using unat_window [OF skew ttl] by (simp_all only: va vu)
  have ua: "uint (validAfter cl) = int (unat (validAfter cl))" and uu: "uint (validUntil cl) = int (unat (validUntil cl))"
    by (rule uint_nat)+
  have "uint (validAfter cl) = int (unat (req_time r)) - int (unat (clock_skew (policy d)))"
    by (simp only: ua na of_nat_diff [OF skew])
  moreover have "uint (validUntil cl) = int (unat (req_time r)) + int (unat (sponsorship_ttl (policy d)))"
    by (simp only: uu nu of_nat_add)
  ultimately show ?thesis using res by (simp add: sponsorship_result_def)
qed

text \<open>C23: sponsorships are not idempotent across time: the same request handled at two
  different moments gets two different results, since the result carries the window
  computed from the moment of handling.\<close>

theorem sponsorship_depends_on_request_time:
  assumes run: "proc_run c (createRpcHandler d) parse (Booting w0) os (Serving w a)"
    and post: "req_method r = POST" "req_url r = ''/''"
      "header (req_headers r) ''content-type'' = Some ''application/json''" "parse (req_body r) = Some j"
    and ans1: "serve a (createRpcHandler d) parse r = Some resp1" "resp_body resp1 = rpc_success i1 res1"
    and ans2: "serve a (createRpcHandler d) parse (r\<lparr>req_time := t\<rparr>) = Some resp2"
      "resp_body resp2 = rpc_success i2 res2"
    and t: "t \<noteq> req_time r"
  shows "res1 \<noteq> res2"
proof
  assume eq: "res1 = res2"
  from served_success [OF run post ans1] obtain s1 :: startup and v1 cl1 sig1 where
    r1: "res1 = sponsorship_result v1 (registry d v1 (walletAddress s1)) cl1 sig1"
    and w1: "(validAfter cl1, validUntil cl1) = validity_window (policy d) (req_time r)" by blast
  have post2: "req_method (r\<lparr>req_time := t\<rparr>) = POST" "req_url (r\<lparr>req_time := t\<rparr>) = ''/''"
    "header (req_headers (r\<lparr>req_time := t\<rparr>)) ''content-type'' = Some ''application/json''"
    "parse (req_body (r\<lparr>req_time := t\<rparr>)) = Some j"
    using post by simp_all
  from served_success [OF run post2 ans2] obtain s2 :: startup and v2 cl2 sig2 where
    r2: "res2 = sponsorship_result v2 (registry d v2 (walletAddress s2)) cl2 sig2"
    and w2: "(validAfter cl2, validUntil cl2) = validity_window (policy d) t" by auto
  from eq r1 r2 have "uint (validUntil cl1) = uint (validUntil cl2)"
    by (simp add: sponsorship_result_def)
  then have "validUntil cl1 = validUntil cl2" by (rule word_uint_eq_iff [THEN iffD2])
  with w1 w2 have "req_time r + sponsorship_ttl (policy d) = t + sponsorship_ttl (policy d)"
    by (simp add: validity_window_def)
  with t show False by simp
qed

text \<open>C24: the paymaster verification gas limit of a version 0.7 or 0.8 request comes back from
  the answer: the paymasterData of a successful answer decodes to a claim whose 128-bit
  paymasterVerificationGasLimit is exactly the hex quantity the user operation carried.\<close>

theorem gas_limit_roundtrip:
  assumes run: "proc_run c (createRpcHandler d) parse (Booting w0) os (Serving w a)"
    and post: "req_method r = POST" "req_url r = ''/''"
      "header (req_headers r) ''content-type'' = Some ''application/json''" "parse (req_body r) = Some j"
    and req: "parse_envelope j = Inr (m, Some (JArr (JObj op # JStr ep # rest)))"
      "parse_method m = Inr (k, v)" "v \<noteq> V1"
    and g: "obj_get op ''paymasterVerificationGasLimit'' = Some (JStr g)"
    and ans: "serve a (createRpcHandler d) parse r = Some resp" "resp_body resp = rpc_success i res"
  shows "\<exists>pm pd bs cl. res = JObj [(''paymaster'', JStr pm), (''paymasterData'', JStr pd),
             (''validAfter'', JNum (uint (validAfter cl))), (''validUntil'', JNum (uint (validUntil cl)))] \<and>
           read_hex pd = Some bs \<and> decodeClaim v (take (sum_list (field_widths v)) bs) = Some cl \<and>
           unat (pmVerificationGasLimit cl) = hex_value g"
proof -
  from served_result [OF run post ans] obtain s :: startup and w1 where
    h: "handle_request d (req_time r) \<lparr>bundler = bundler_client s, publicClient = public_client s,
                                  paymasterSigner = walletAddress s\<rparr> j = Inr res" by blast
  let ?cfg = "\<lparr>bundler = bundler_client s, publicClient = public_client s, paymasterSigner = walletAddress s\<rparr>"
  from h req obtain op' ep' vg pg cl sig where
    pp: "parse_params v (Some (JArr (JObj op # JStr ep # rest))) = Inr (op', ep', vg, pg)"
    and bc: "build_claim d (req_time r) ?cfg v op' vg pg = Inr cl"
    and res: "res = sponsorship_result v (registry d v (walletAddress s)) cl sig"
    by (auto simp: handle_request_Inr)
  from parse_params_Inr_gas [OF pp req(3) g] have
    lt: "hex_value g < 2 ^ 128" and vg: "vg = word_of_nat (hex_value g)" by auto
  from bc have "pmVerificationGasLimit cl = vg" by (auto simp: build_claim_Inr)
  with vg lt have gl: "unat (pmVerificationGasLimit cl) = hex_value g" by (simp add: unat_of_nat)
  from paymasterData_decodes [OF built_claim_wf [OF pp bc], of sig] res gl show ?thesis
    by (auto simp: sponsorship_result_def)
qed

text \<open>C25: a paymaster gas limit that does not fit in 128 bits is refused: a version 0.7 or
  0.8 request whose user operation is otherwise valid but carries a
  paymasterVerificationGasLimit of 2^128 or more gets HTTP status 200 and the JSON-RPC
  error -32602 naming that field, never a truncated limit.\<close>

theorem gas_limit_overflow_rejected:
  assumes run: "proc_run c (createRpcHandler d) parse (Booting w0) os (Serving w a)"
    and post: "req_method r = POST" "req_url r = ''/''"
      "header (req_headers r) ''content-type'' = Some ''application/json''" "parse (req_body r) = Some j"
    and req: "parse_envelope j = Inr (m, Some (JArr (JObj op # JStr ep # rest)))"
      "parse_method m = Inr (k, v)" "v \<noteq> V1"
    and chk: "check_fields op (required_fields v) = Inr ()" "is_address ep"
    and g: "obj_get op ''paymasterVerificationGasLimit'' = Some (JStr g)" "2 ^ 128 \<le> hex_value g"
  shows "\<exists>resp. serve a (createRpcHandler d) parse r = Some resp \<and> status resp = 200 \<and>
           resp_body resp = rpc_failure (request_id j) (InvalidParams ''userOperation.paymasterVerificationGasLimit'')"
proof -
  from serve_post_json [OF run post] obtain s :: startup where
    sv: "serve a (createRpcHandler d) parse r =
           Some (with_cors (Some \<lparr>cors_origin = ''*'', cors_methods = [POST, GET, OPTIONS]\<rparr>)
             (createRpcHandler d \<lparr>bundler = bundler_client s, publicClient = public_client s,
                                   paymasterSigner = walletAddress s\<rparr> (req_time r) j))" by blast
  from parse_params_gas_overflow [OF chk req(3) g, of rest] req(1,2)
  have "handle_request d (req_time r) \<lparr>bundler = bundler_client s, publicClient = public_client s,
                                  paymasterSigner = walletAddress s\<rparr> j =
          Inl (InvalidParams ''userOperation.paymasterVerificationGasLimit'')"
    by (simp add: handle_request_def)
  with sv show ?thesis by (simp add: createRpcHandler_def rpc_reply_def)
qed

text \<open>C26: a JSON request to POST / on a serving process gets HTTP status 200 and the JSON-RPC
  error -32600 Invalid Request, with the caller's id, exactly when its body is not an object
  whose "jsonrpc" member is the string "2.0" and whose "method" member is a string; no
  later stage of the relay reports -32600.\<close>

theorem invalid_envelope_invalid_request:
  assumes run: "proc_run c (createRpcHandler d) parse (Booting w0) os (Serving w a)"
    and post: "req_method r = POST" "req_url r = ''/''"
      "header (req_headers r) ''content-type'' = Some ''application/json''" "parse (req_body r) = Some j"
  shows "\<exists>resp. serve a (createRpcHandler d) parse r = Some resp \<and> status resp = 200 \<and>
           (resp_body resp = JObj [(''jsonrpc'', JStr ''2.0''), (''id'', request_id j),
              (''error'', JObj [(''code'', JNum (-32600)), (''message'', JStr ''Invalid Request'')])] \<longleftrightarrow>
            \<not> (\<exists>kvs m. j = JObj kvs \<and> obj_get kvs ''jsonrpc'' = Some (JStr ''2.0'') \<and>
                        obj_get kvs ''method'' = Some (JStr m)))"
proof -
  from served_reply [OF run post] obtain s :: startup and w1 where
    sv: "serve a (createRpcHandler d) parse r =
           Some (with_cors (Some relay_cors)
             \<lparr>status = 200, resp_headers = [],
              resp_body = rpc_reply d (req_time r) \<lparr>bundler = bundler_client s, publicClient = public_client s,
                                                   paymasterSigner = walletAddress s\<rparr> j\<rparr>)" by blast
  have "JObj [(''jsonrpc'', JStr ''2.0''), (''id'', request_id j),
           (''error'', JObj [(''code'', JNum (-32600)), (''message'', JStr ''Invalid Request'')])] =
        rpc_failure (request_id j) InvalidRequest"
    by (simp add: rpc_failure_def)
  with sv show ?thesis
    by (auto simp: rpc_reply_eq_failure handle_request_invalid_request parse_envelope_Inl simp del: rpc_failure_inj)
qed

text \<open>C27: when the user operation of a request lacks a required field, or carries one that is
  not a hex string, the answer is HTTP status 200 with the JSON-RPC error -32602 whose
  message names the first such field of the version's list, as userOperation.<field>.\<close>

theorem first_invalid_field_named:
  assumes run: "proc_run c (createRpcHandler d) parse (Booting w0) os (Serving w a)"
    and post: "req_method r = POST" "req_url r = ''/''"
      "header (req_headers r) ''content-type'' = Some ''application/json''" "parse (req_body r) = Some j"
    and env: "parse_envelope j = Inr (m, Some (JArr (JObj op # JStr ep # rest)))"
    and meth: "parse_method m = Inr (k, v)"
    and fields: "required_fields v = pre @ f # later"
    and good: "\<forall>g\<in>set pre. \<exists>s. obj_get op g = Some (JStr s) \<and> is_hex_string s"
    and bad: "\<not> (\<exists>s. obj_get op f = Some (JStr s) \<and> is_hex_string s)"
  shows "\<exists>resp. serve a (createRpcHandler d) parse r = Some resp \<and> status resp = 200 \<and>
           resp_body resp = JObj [(''jsonrpc'', JStr ''2.0''), (''id'', request_id j),
             (''error'', JObj [(''code'', JNum (-32602)), (''message'', JStr (''Invalid params: userOperation.'' @ f))])]"
proof -
  from served_reply [OF run post] obtain s :: startup and w1 where
    sv: "serve a (createRpcHandler d) parse r =
           Some (with_cors (Some relay_cors)
             \<lparr>status = 200, resp_headers = [],
              resp_body = rpc_reply d (req_time r) \<lparr>bundler = bundler_client s, publicClient = public_client s,
                                                   paymasterSigner = walletAddress s\<rparr> j\<rparr>)" by blast
  have "parse_params v (Some (JArr (JObj op # JStr ep # rest))) = Inl (InvalidParams (''userOperation.'' @ f))"
    using check_fields_first_bad [OF good bad, of later] fields by (simp add: parse_params_fields_Inl)
  then have "handle_request d (req_time r) \<lparr>bundler = bundler_client s, publicClient = public_client s,
                 paymasterSigner = walletAddress s\<rparr> j = Inl (InvalidParams (''userOperation.'' @ f))"
    using env meth by (simp add: handle_request_def)
  with sv show ?thesis by (simp add: rpc_reply_failure rpc_failure_def)
qed

text \<open>C28: composed with the spec's Bootstrap helpers (deployPaymasters and deployErc20Token of
  Bootstrap.thy), every successful sponsorship of the serving process names a paymaster
  that has code in the world the process serves from: either it had code when main read
  it, or bootstrap deployed it before app.listen.\<close>

theorem served_paymaster_deployed:
  assumes run: "proc_run (with_bootstrap c art) (createRpcHandler d) parse (Booting w0) os (Serving w a)"
    and reg: "registry d = registry_of c" and dep: "deployable art"
    and post: "req_method r = POST" "req_url r = ''/''"
      "header (req_headers r) ''content-type'' = Some ''application/json''" "parse (req_body r) = Some j"
    and ans: "serve a (createRpcHandler d) parse r = Some resp" "resp_body resp = rpc_success i res"
  shows "\<exists>p rest. res = JObj ((''paymaster'', JStr p) # rest) \<and> deployed_at w p"
proof -
  from served_result [OF run post ans] obtain s w1 where ms: "main_setup c w0 = Inr (s, w1)"
    and h: "handle_request d (req_time r) \<lparr>bundler = bundler_client s, publicClient = public_client s,
                                  paymasterSigner = walletAddress s\<rparr> j = Inr res" by auto
  from h obtain v cl sig where res: "res = sponsorship_result v (registry d v (walletAddress s)) cl sig"
    by (auto simp: handle_request_Inr)
  from proc_run_inv [OF run, of w0] have m: "main (with_bootstrap c art) w0 = Inr (w, a)" by simp
  have "list_all (deployed_at w) (paymasters s)" by (rule main_with_bootstrap_deployed [OF m ms dep])
  then have "deployed_at w (paymaster_of_version s v)"
    using paymaster_of_version_checked [of s v] by (simp add: list_all_iff)
  with res reg registry_of_startup [OF ms] show ?thesis by (simp add: sponsorship_result_def)
qed

text \<open>C29: the handler registered at POST / receives the clients main created at lines
  37--50: a public client whose transport is built from ANVIL_RPC and a bundler client
  whose transport is built from ALTO_RPC, both on the chain that getChain returned, and as
  signer the wallet that getAnvilWalletClient returned for account index 1.\<close>

theorem handler_gets_main_clients:
  assumes run: "proc_run c rpc parse (Booting w0) os (Serving w a)"
    and post: "req_method r = POST" "req_url r = ''/''"
      "header (req_headers r) ''content-type'' = Some ''application/json''" "parse (req_body r) = Some j"
  shows "\<exists>ch wallet pu bu. getChain c (console_log ''Starting mock singleton paymaster...'' w0) = Inr ch \<and>
           getAnvilWalletClient c (env w0 ''ANVIL_RPC'') 1 (console_log ''Starting mock singleton paymaster...'' w0) =
             Inr wallet \<and>
           http_transport (env w0 ''ANVIL_RPC'') ch = Inr pu \<and> http_transport (env w0 ''ALTO_RPC'') ch = Inr bu \<and>
           serve a rpc parse r =
             Some (with_cors (Some relay_cors)
               (rpc \<lparr>bundler = \<lparr>transport_url = bu, client_chain = ch\<rparr>,
                     publicClient = \<lparr>transport_url = pu, client_chain = ch\<rparr>,
                     paymasterSigner = wallet\<rparr> (req_time r) j))"
proof -
  from serve_post_json [OF run post] obtain s :: startup and w1 where ms: "main_setup c w0 = Inr (s, w1)"
    and sv: "serve a rpc parse r =
             Some (with_cors (Some relay_cors)
               (rpc \<lparr>bundler = bundler_client s, publicClient = public_client s, paymasterSigner = walletAddress s\<rparr>
                 (req_time r) j))" by blast
  from main_setup_clients [OF ms] obtain ch where facts:
    "getChain c (console_log ''Starting mock singleton paymaster...'' w0) = Inr ch"
    "getAnvilWalletClient c (env w0 ''ANVIL_RPC'') 1 (console_log ''Starting mock singleton paymaster...'' w0) =
       Inr (walletAddress s)"
    "http_transport (env w0 ''ANVIL_RPC'') ch = Inr (transport_url (public_client s))"
    "http_transport (env w0 ''ALTO_RPC'') ch = Inr (transport_url (bundler_client s))"
    and chains: "client_chain (public_client s) = ch" "client_chain (bundler_client s) = ch" by blast
  have "public_client s = \<lparr>transport_url = transport_url (public_client s), client_chain = ch\<rparr>"
    "bundler_client s = \<lparr>transport_url = transport_url (bundler_client s), client_chain = ch\<rparr>"
    using chains by simp_all
  with sv have "serve a rpc parse r =
      Some (with_cors (Some relay_cors)
        (rpc \<lparr>bundler = \<lparr>transport_url = transport_url (bundler_client s), client_chain = ch\<rparr>,
              publicClient = \<lparr>transport_url = transport_url (public_client s), client_chain = ch\<rparr>,
              paymasterSigner = walletAddress s\<rparr> (req_time r) j))" by simp
  with facts show ?thesis by blast
qed

lemma serving_with_bootstrap:
  "\<exists>w a. proc_run (with_bootstrap e2e_collab example_artifacts) rpc parse (Booting example_world) [Started] (Serving w a)"
proof -
  have "\<exists>w a. main (with_bootstrap e2e_collab example_artifacts) example_world = Inr (w, a)"
    by (simp add: startup_eval with_bootstrap_def deploySingletons_def deployToken_def singleton_addresses_def deploy_at_def)
  then show ?thesis by (auto dest: serving_of_main)
qed

lemma e2e_envelope:
  "parse_envelope (e2e_request m) = Inr (m, Some (JArr [JObj e2e_op, JStr entry_point_v1]))"
  by (simp add: parse_envelope_def)

lemma e2e_params:
  "parse_params V1 (Some (JArr [JObj e2e_op, JStr entry_point_v1])) = Inr (e2e_op, entry_point_v1, 0, 0)"
  by (simp add: parse_params_def parse_gas_def is_address_def is_hex_string_def digit_val_def)

lemma e2e_claim: "\<exists>cl. build_claim (e2e_deps\<lparr>sign_with := f\<rparr>) now cfg V1 e2e_op 0 0 = Inr cl"
  by (simp add: build_claim_def read_hex_def digit_val_def Let_def)

lemma e2e_serving:
  "\<exists>w a. proc_run e2e_collab rpc parse (Booting example_world) [Started] (Serving w a)"
proof -
  have "\<exists>w a. main e2e_collab example_world = Inr (w, a)"
    by (simp add: startup_eval)
  then obtain w a where m: "main e2e_collab example_world = Inr (w, a)" by blast
  show ?thesis by (rule exI, rule exI, rule proc_run.run_step [OF proc_step.boot_ok [OF m] proc_run.run_nil])
qed

lemma e2e_stub_method: "parse_method ''pm_getPaymasterStubData_v1'' = Inr (StubData, V1)"
  by (simp add: parse_method_def version_of_suffix_def)

lemma e2e_final_method: "parse_method ''pm_getPaymasterData_v1'' = Inr (FinalData, V1)"
  by (simp add: parse_method_def version_of_suffix_def)

lemma e2e_result:
  assumes "parse_method m = Inr (k, V1)"
  shows "\<exists>res. handle_request e2e_deps now cfg (e2e_request m) = Inr res"
proof -
  obtain cl where bc: "build_claim (e2e_deps\<lparr>sign_with := sign_with e2e_deps\<rparr>) now cfg V1 e2e_op 0 0 = Inr cl"
    using e2e_claim by blast
  with assms e2e_envelope e2e_params show ?thesis
    by (cases k) (auto simp: handle_request_Inr authorize_def)
qed

lemma e2e_answer_json:
  assumes h: "\<And>now cfg. \<exists>res. handle_request e2e_deps now cfg jr = Inr res"
    and run: "proc_run c (createRpcHandler e2e_deps) (\<lambda>_. Some jr) (Booting w0) os (Serving w a)"
  shows "\<exists>resp res. serve a (createRpcHandler e2e_deps) (\<lambda>_. Some jr) (post_at t) = Some resp \<and>
           resp_body resp = rpc_success (request_id jr) res"
proof -
  from serve_post_json [OF run, of "post_at t" jr] obtain s :: startup where
    sv: "serve a (createRpcHandler e2e_deps) (\<lambda>_. Some jr) (post_at t) =
           Some (with_cors (Some \<lparr>cors_origin = ''*'', cors_methods = [POST, GET, OPTIONS]\<rparr>)
             (createRpcHandler e2e_deps \<lparr>bundler = bundler_client s, publicClient = public_client s,
                                        paymasterSigner = walletAddress s\<rparr> t jr))"
    by (auto simp: header_def)
  from h obtain res where
    "handle_request e2e_deps t \<lparr>bundler = bundler_client s, publicClient = public_client s,
                                    paymasterSigner = walletAddress s\<rparr> jr = Inr res" by blast
  with sv show ?thesis
    by (auto simp: createRpcHandler_def rpc_reply_def)
qed

lemma e2e_answer:
  assumes m: "parse_method m = Inr (k, V1)"
    and run: "proc_run e2e_collab (createRpcHandler e2e_deps) (\<lambda>_. Some (e2e_request m))
             (Booting example_world) os (Serving w a)"
  shows "\<exists>resp res. serve a (createRpcHandler e2e_deps) (\<lambda>_. Some (e2e_request m)) (post_at t) = Some resp \<and>
           resp_body resp = rpc_success (JNum 1) res"
  using e2e_answer_json [OF e2e_result [OF m] run, of t] by (simp add: request_id_def)

lemma e2e_gas_result:
  "\<exists>res. handle_request e2e_deps now cfg (e2e_gas_request ''0x1000'') = Inr res"
proof -
  have m: "parse_method ''pm_getPaymasterStubData_v2'' = Inr (StubData, V2)"
    by (simp add: parse_method_def version_of_suffix_def)
  have p: "parse_params V2 (Some (JArr [JObj (e2e_op @ [(''paymasterVerificationGasLimit'', JStr ''0x1000'')]),
              JStr entry_point_v1])) =
           Inr (e2e_op @ [(''paymasterVerificationGasLimit'', JStr ''0x1000'')], entry_point_v1, 4096, 0)"
    by (simp add: parse_params_def parse_gas_def gas_field_def hex_value_def is_address_def is_hex_string_def
        digit_val_def)
  have "\<exists>cl. build_claim e2e_deps now cfg V2 (e2e_op @ [(''paymasterVerificationGasLimit'', JStr ''0x1000'')]) 4096 0 = Inr cl"
    by (simp add: build_claim_def read_hex_def digit_val_def Let_def)
  with m p show ?thesis
    by (auto simp: handle_request_Inr parse_envelope_def authorize_def)
qed

lemma e2e_gas_envelope:
  "parse_envelope (e2e_gas_request g) =
     Inr (''pm_getPaymasterStubData_v2'', Some (JArr [JObj (e2e_op @ [(''paymasterVerificationGasLimit'', JStr g)]),
            JStr entry_point_v1]))"
  by (simp add: parse_envelope_def)

theorem response_paymaster_is_checked_address_witness:
  "\<exists>w a resp res. proc_run e2e_collab (createRpcHandler e2e_deps) (\<lambda>_. Some (e2e_request ''pm_getPaymasterStubData_v1''))
        (Booting example_world) [Started] (Serving w a) \<and>
     serve a (createRpcHandler e2e_deps) (\<lambda>_. Some (e2e_request ''pm_getPaymasterStubData_v1'')) post_request = Some resp \<and>
     resp_body resp = rpc_success (JNum 1) res \<and>
     (\<exists>s w1 rest. main_setup e2e_collab example_world = Inr (s, w1) \<and>
        prefix (calls example_world @ map GetCode (paymasters s)) (calls w) \<and>
        paymaster_of_version s V1 \<in> set (paymasters s) \<and>
        res = JObj ((''paymaster'', JStr (paymaster_of_version s V1)) # rest))"
proof -
  from e2e_serving obtain w a where
    run: "proc_run e2e_collab (createRpcHandler e2e_deps) (\<lambda>_. Some (e2e_request ''pm_getPaymasterStubData_v1''))
            (Booting example_world) [Started] (Serving w a)" by blast
  from e2e_answer [OF e2e_stub_method run] obtain resp res where
    ans: "serve a (createRpcHandler e2e_deps) (\<lambda>_. Some (e2e_request ''pm_getPaymasterStubData_v1'')) post_request = Some resp"
      "resp_body resp = rpc_success (JNum 1) res" by blast
  have m: "parse_method ''pm_getPaymasterStubData_v1'' = Inr (StubData, V1)"
    by (simp add: parse_method_def version_of_suffix_def)
  have "\<exists>s w1 rest. main_setup e2e_collab example_world = Inr (s, w1) \<and>
        prefix (calls example_world @ map GetCode (paymasters s)) (calls w) \<and>
        paymaster_of_version s V1 \<in> set (paymasters s) \<and>
        res = JObj ((''paymaster'', JStr (paymaster_of_version s V1)) # rest)"
    by (rule response_paymaster_is_checked_address [OF run _ _ _ _ _ e2e_envelope m ans]) (simp_all add: header_def)
  with run ans show ?thesis by blast
qed

theorem paymasterData_decodes_to_claim_witness:
  "\<exists>w a resp res. proc_run e2e_collab (createRpcHandler e2e_deps) (\<lambda>_. Some (e2e_request ''pm_getPaymasterStubData_v1''))
        (Booting example_world) [Started] (Serving w a) \<and>
     serve a (createRpcHandler e2e_deps) (\<lambda>_. Some (e2e_request ''pm_getPaymasterStubData_v1'')) post_request = Some resp \<and>
     resp_body resp = rpc_success (JNum 1) res \<and>
     (\<exists>s w1 pd bs cl. main_setup e2e_collab example_world = Inr (s, w1) \<and>
           res = JObj [(''paymaster'', JStr (paymaster_of_version s V1)), (''paymasterData'', JStr pd),
                       (''validAfter'', JNum (uint (validAfter cl))), (''validUntil'', JNum (uint (validUntil cl)))] \<and>
           read_hex pd = Some bs \<and> decodeClaim V1 (take (sum_list (field_widths V1)) bs) = Some cl \<and>
           read_hex (paymaster_of_version s V1) = Some (claim_paymaster cl) \<and>
           (validAfter cl, validUntil cl) = validity_window (policy e2e_deps) (req_time post_request) \<and>
           operationHash cl = op_hash e2e_deps V1 e2e_op)"
proof -
  from e2e_serving obtain w a where
    run: "proc_run e2e_collab (createRpcHandler e2e_deps) (\<lambda>_. Some (e2e_request ''pm_getPaymasterStubData_v1''))
            (Booting example_world) [Started] (Serving w a)" by blast
  from e2e_answer [OF e2e_stub_method run] obtain resp res where
    ans: "serve a (createRpcHandler e2e_deps) (\<lambda>_. Some (e2e_request ''pm_getPaymasterStubData_v1'')) post_request = Some resp"
      "resp_body resp = rpc_success (JNum 1) res" by blast
  have m: "parse_method ''pm_getPaymasterStubData_v1'' = Inr (StubData, V1)"
    by (simp add: parse_method_def version_of_suffix_def)
  have "\<exists>s w1 pd bs cl. main_setup e2e_collab example_world = Inr (s, w1) \<and>
           res = JObj [(''paymaster'', JStr (paymaster_of_version s V1)), (''paymasterData'', JStr pd),
                       (''validAfter'', JNum (uint (validAfter cl))), (''validUntil'', JNum (uint (validUntil cl)))] \<and>
           read_hex pd = Some bs \<and> decodeClaim V1 (take (sum_list (field_widths V1)) bs) = Some cl \<and>
           read_hex (paymaster_of_version s V1) = Some (claim_paymaster cl) \<and>
           (validAfter cl, validUntil cl) = validity_window (policy e2e_deps) (req_time post_request) \<and>
           operationHash cl = op_hash e2e_deps V1 e2e_op"
    by (rule paymasterData_decodes_to_claim [OF run _ _ _ _ _ e2e_envelope m e2e_params ans]) (simp_all add: header_def)
  with run ans show ?thesis by blast
qed

theorem unknown_method_not_found_witness:
  "\<exists>w a. proc_run e2e_collab (createRpcHandler e2e_deps) (\<lambda>_. Some (e2e_request ''eth_chainId''))
        (Booting example_world) [Started] (Serving w a) \<and>
     (\<exists>resp. serve a (createRpcHandler e2e_deps) (\<lambda>_. Some (e2e_request ''eth_chainId'')) post_request = Some resp \<and>
        status resp = 200 \<and>
        resp_body resp = JObj [(''jsonrpc'', JStr ''2.0''), (''id'', request_id (e2e_request ''eth_chainId'')),
             (''error'', JObj [(''code'', JNum (-32601)), (''message'', JStr ''Method not found'')])])"
proof -
  from e2e_serving obtain w a where
    run: "proc_run e2e_collab (createRpcHandler e2e_deps) (\<lambda>_. Some (e2e_request ''eth_chainId''))
            (Booting example_world) [Started] (Serving w a)" by blast
  have "\<exists>resp. serve a (createRpcHandler e2e_deps) (\<lambda>_. Some (e2e_request ''eth_chainId'')) post_request = Some resp \<and>
        status resp = 200 \<and>
        resp_body resp = JObj [(''jsonrpc'', JStr ''2.0''), (''id'', request_id (e2e_request ''eth_chainId'')),
             (''error'', JObj [(''code'', JNum (-32601)), (''message'', JStr ''Method not found'')])]"
    by (rule unknown_method_not_found [OF run _ _ _ _ e2e_envelope]) (simp_all add: header_def)
  with run show ?thesis by blast
qed

theorem garbled_version_invalid_params_witness:
  "\<exists>w a. proc_run e2e_collab (createRpcHandler e2e_deps) (\<lambda>_. Some (e2e_request ''pm_getPaymasterStubData_v9''))
        (Booting example_world) [Started] (Serving w a) \<and>
     (\<exists>resp. serve a (createRpcHandler e2e_deps) (\<lambda>_. Some (e2e_request ''pm_getPaymasterStubData_v9'')) post_request = Some resp \<and>
        status resp = 200 \<and>
        resp_body resp = JObj [(''jsonrpc'', JStr ''2.0''), (''id'', request_id (e2e_request ''pm_getPaymasterStubData_v9'')),
             (''error'', JObj [(''code'', JNum (-32602)),
                (''message'', JStr (''Invalid params: method: unsupported protocol version '' @
                                    drop (length ''pm_getPaymasterStubData_'') ''pm_getPaymasterStubData_v9''))])])"
proof -
  from e2e_serving obtain w a where
    run: "proc_run e2e_collab (createRpcHandler e2e_deps) (\<lambda>_. Some (e2e_request ''pm_getPaymasterStubData_v9''))
            (Booting example_world) [Started] (Serving w a)" by blast
  have "\<exists>resp. serve a (createRpcHandler e2e_deps) (\<lambda>_. Some (e2e_request ''pm_getPaymasterStubData_v9'')) post_request = Some resp \<and>
        status resp = 200 \<and>
        resp_body resp = JObj [(''jsonrpc'', JStr ''2.0''), (''id'', request_id (e2e_request ''pm_getPaymasterStubData_v9'')),
             (''error'', JObj [(''code'', JNum (-32602)),
                (''message'', JStr (''Invalid params: method: unsupported protocol version '' @
                                    drop (length ''pm_getPaymasterStubData_'') ''pm_getPaymasterStubData_v9''))])]"
    by (rule garbled_version_invalid_params [OF run _ _ _ _ e2e_envelope]) (simp_all add: header_def)
  with run show ?thesis by blast
qed

theorem missing_key_internal_error_witness:
  "\<exists>w a. proc_run e2e_collab (createRpcHandler (e2e_deps\<lparr>sign_with := (\<lambda>_ _. None)\<rparr>))
        (\<lambda>_. Some (e2e_request ''pm_getPaymasterData_v1'')) (Booting example_world) [Started] (Serving w a) \<and>
     (\<exists>resp. serve a (createRpcHandler (e2e_deps\<lparr>sign_with := (\<lambda>_ _. None)\<rparr>))
          (\<lambda>_. Some (e2e_request ''pm_getPaymasterData_v1'')) post_request = Some resp \<and> status resp = 200 \<and>
        resp_body resp = JObj [(''jsonrpc'', JStr ''2.0''), (''id'', request_id (e2e_request ''pm_getPaymasterData_v1'')),
             (''error'', JObj [(''code'', JNum (-32603)), (''message'', JStr ''Internal error: signing key unavailable'')])])"
proof -
  from e2e_serving obtain w a where
    run: "proc_run e2e_collab (createRpcHandler (e2e_deps\<lparr>sign_with := (\<lambda>_ _. None)\<rparr>))
        (\<lambda>_. Some (e2e_request ''pm_getPaymasterData_v1'')) (Booting example_world) [Started] (Serving w a)" by blast
  have m: "parse_method ''pm_getPaymasterData_v1'' = Inr (FinalData, V1)"
    by (simp add: parse_method_def version_of_suffix_def)
  have pm: "\<And>addr. \<exists>b. read_hex (registry (e2e_deps\<lparr>sign_with := (\<lambda>_ _. None)\<rparr>) V1 addr) = Some b \<and> length b = 20"
    by (simp add: read_hex_def digit_val_def)
  have "\<exists>resp. serve a (createRpcHandler (e2e_deps\<lparr>sign_with := (\<lambda>_ _. None)\<rparr>))
          (\<lambda>_. Some (e2e_request ''pm_getPaymasterData_v1'')) post_request = Some resp \<and> status resp = 200 \<and>
        resp_body resp = JObj [(''jsonrpc'', JStr ''2.0''), (''id'', request_id (e2e_request ''pm_getPaymasterData_v1'')),
             (''error'', JObj [(''code'', JNum (-32603)), (''message'', JStr ''Internal error: signing key unavailable'')])]"
    by (rule missing_key_internal_error [OF run _ _ _ _ e2e_envelope m e2e_params pm]) (simp_all add: header_def)
  with run show ?thesis by blast
qed

theorem final_data_signed_by_wallet_witness:
  "\<exists>w a resp res. proc_run e2e_collab (createRpcHandler e2e_deps) (\<lambda>_. Some (e2e_request ''pm_getPaymasterData_v1''))
        (Booting example_world) [Started] (Serving w a) \<and>
     serve a (createRpcHandler e2e_deps) (\<lambda>_. Some (e2e_request ''pm_getPaymasterData_v1'')) post_request = Some resp \<and>
     resp_body resp = rpc_success (JNum 1) res \<and>
     (\<exists>s w1 cl sig. main_setup e2e_collab example_world = Inr (s, w1) \<and>
        sign_with e2e_deps (walletAddress s) (digest e2e_deps (encodeClaim V1 cl)) = Some sig \<and>
        res = sponsorship_result V1 (registry e2e_deps V1 (walletAddress s)) cl sig)"
proof -
  from e2e_serving obtain w a where
    run: "proc_run e2e_collab (createRpcHandler e2e_deps) (\<lambda>_. Some (e2e_request ''pm_getPaymasterData_v1''))
            (Booting example_world) [Started] (Serving w a)" by blast
  from e2e_answer [OF e2e_final_method run] obtain resp res where
    ans: "serve a (createRpcHandler e2e_deps) (\<lambda>_. Some (e2e_request ''pm_getPaymasterData_v1'')) post_request = Some resp"
      "resp_body resp = rpc_success (JNum 1) res" by blast
  have "\<exists>s w1 cl sig. main_setup e2e_collab example_world = Inr (s, w1) \<and>
        sign_with e2e_deps (walletAddress s) (digest e2e_deps (encodeClaim V1 cl)) = Some sig \<and>
        res = sponsorship_result V1 (registry e2e_deps V1 (walletAddress s)) cl sig"
    by (rule final_data_signed_by_wallet [OF run _ _ _ _ e2e_envelope e2e_final_method ans]) (simp_all add: header_def)
  with run ans show ?thesis by blast
qed

theorem response_window_at_request_time_witness:
  "\<exists>w a resp res. proc_run e2e_collab (createRpcHandler e2e_deps) (\<lambda>_. Some (e2e_request ''pm_getPaymasterStubData_v1''))
        (Booting example_world) [Started] (Serving w a) \<and>
     serve a (createRpcHandler e2e_deps) (\<lambda>_. Some (e2e_request ''pm_getPaymasterStubData_v1'')) post_request = Some resp \<and>
     resp_body resp = rpc_success (JNum 1) res \<and>
     (\<exists>pm pd. res = JObj [(''paymaster'', JStr pm), (''paymasterData'', JStr pd),
           (''validAfter'', JNum 1699999940), (''validUntil'', JNum 1700003600)])"
proof -
  from e2e_serving obtain w a where
    run: "proc_run e2e_collab (createRpcHandler e2e_deps) (\<lambda>_. Some (e2e_request ''pm_getPaymasterStubData_v1''))
            (Booting example_world) [Started] (Serving w a)" by blast
  from e2e_answer [OF e2e_stub_method run, of 1700000000] obtain resp res where
    ans: "serve a (createRpcHandler e2e_deps) (\<lambda>_. Some (e2e_request ''pm_getPaymasterStubData_v1'')) post_request = Some resp"
      "resp_body resp = rpc_success (JNum 1) res" by blast
  have "\<exists>pm pd. res = JObj [(''paymaster'', JStr pm), (''paymasterData'', JStr pd),
           (''validAfter'', JNum (int (unat (req_time post_request)) - int (unat (clock_skew (policy e2e_deps))))),
           (''validUntil'', JNum (int (unat (req_time post_request)) + int (unat (sponsorship_ttl (policy e2e_deps)))))]"
    by (rule response_window_at_request_time [OF run _ _ _ _ ans]) (simp_all add: header_def)
  then have "\<exists>pm pd. res = JObj [(''paymaster'', JStr pm), (''paymasterData'', JStr pd),
           (''validAfter'', JNum 1699999940), (''validUntil'', JNum 1700003600)]"
    by simp
  with run ans show ?thesis by blast
qed

theorem sponsorship_depends_on_request_time_witness:
  "\<exists>w a resp1 resp2 res1 res2. proc_run e2e_collab (createRpcHandler e2e_deps)
        (\<lambda>_. Some (e2e_request ''pm_getPaymasterStubData_v1'')) (Booting example_world) [Started] (Serving w a) \<and>
     serve a (createRpcHandler e2e_deps) (\<lambda>_. Some (e2e_request ''pm_getPaymasterStubData_v1'')) post_request = Some resp1 \<and>
     resp_body resp1 = rpc_success (JNum 1) res1 \<and>
     serve a (createRpcHandler e2e_deps) (\<lambda>_. Some (e2e_request ''pm_getPaymasterStubData_v1''))
       (post_request\<lparr>req_time := 1700000060\<rparr>) = Some resp2 \<and>
     resp_body resp2 = rpc_success (JNum 1) res2 \<and> res1 \<noteq> res2"
proof -
  from e2e_serving obtain w a where
    run: "proc_run e2e_collab (createRpcHandler e2e_deps) (\<lambda>_. Some (e2e_request ''pm_getPaymasterStubData_v1''))
            (Booting example_world) [Started] (Serving w a)" by blast
  from e2e_answer [OF e2e_stub_method run, of 1700000000] obtain resp1 res1 where
    ans1: "serve a (createRpcHandler e2e_deps) (\<lambda>_. Some (e2e_request ''pm_getPaymasterStubData_v1'')) post_request = Some resp1"
      "resp_body resp1 = rpc_success (JNum 1) res1" by blast
  from e2e_answer [OF e2e_stub_method run, of 1700000060] obtain resp2 res2 where
    a2: "serve a (createRpcHandler e2e_deps) (\<lambda>_. Some (e2e_request ''pm_getPaymasterStubData_v1'')) (post_at 1700000060) = Some resp2"
      and b2: "resp_body resp2 = rpc_success (JNum 1) res2" by blast
  have "post_request\<lparr>req_time := 1700000060\<rparr> = post_at 1700000060" by simp
  with a2 have ans2: "serve a (createRpcHandler e2e_deps) (\<lambda>_. Some (e2e_request ''pm_getPaymasterStubData_v1''))
       (post_request\<lparr>req_time := 1700000060\<rparr>) = Some resp2" by simp
  have "res1 \<noteq> res2"
    by (rule sponsorship_depends_on_request_time [OF run _ _ _ _ ans1 ans2 b2]) (simp_all add: header_def)
  with run ans1 ans2 b2 show ?thesis by blast
qed

theorem gas_limit_roundtrip_witness:
  "\<exists>w a resp res. proc_run e2e_collab (createRpcHandler e2e_deps) (\<lambda>_. Some (e2e_gas_request ''0x1000''))
        (Booting example_world) [Started] (Serving w a) \<and>
     serve a (createRpcHandler e2e_deps) (\<lambda>_. Some (e2e_gas_request ''0x1000'')) post_request = Some resp \<and>
     resp_body resp = rpc_success (JNum 1) res \<and>
     (\<exists>pm pd bs cl. res = JObj [(''paymaster'', JStr pm), (''paymasterData'', JStr pd),
             (''validAfter'', JNum (uint (validAfter cl))), (''validUntil'', JNum (uint (validUntil cl)))] \<and>
           read_hex pd = Some bs \<and> decodeClaim V2 (take (sum_list (field_widths V2)) bs) = Some cl \<and>
           unat (pmVerificationGasLimit cl) = 4096)"
proof -
  from e2e_serving obtain w a where
    run: "proc_run e2e_collab (createRpcHandler e2e_deps) (\<lambda>_. Some (e2e_gas_request ''0x1000''))
            (Booting example_world) [Started] (Serving w a)" by blast
  from e2e_answer_json [OF e2e_gas_result run, of 1700000000] obtain resp res where
    ans: "serve a (createRpcHandler e2e_deps) (\<lambda>_. Some (e2e_gas_request ''0x1000'')) post_request = Some resp"
      "resp_body resp = rpc_success (JNum 1) res" by (auto simp: request_id_def)
  have m: "parse_method ''pm_getPaymasterStubData_v2'' = Inr (StubData, V2)"
    by (simp add: parse_method_def version_of_suffix_def)
  have "\<exists>pm pd bs cl. res = JObj [(''paymaster'', JStr pm), (''paymasterData'', JStr pd),
             (''validAfter'', JNum (uint (validAfter cl))), (''validUntil'', JNum (uint (validUntil cl)))] \<and>
           read_hex pd = Some bs \<and> decodeClaim V2 (take (sum_list (field_widths V2)) bs) = Some cl \<and>
           unat (pmVerificationGasLimit cl) = hex_value ''0x1000''"
    by (rule gas_limit_roundtrip [OF run _ _ _ _ e2e_gas_envelope m _ _ ans]) (simp_all add: header_def)
  then have "\<exists>pm pd bs cl. res = JObj [(''paymaster'', JStr pm), (''paymasterData'', JStr pd),
             (''validAfter'', JNum (uint (validAfter cl))), (''validUntil'', JNum (uint (validUntil cl)))] \<and>
           read_hex pd = Some bs \<and> decodeClaim V2 (take (sum_list (field_widths V2)) bs) = Some cl \<and>
           unat (pmVerificationGasLimit cl) = 4096"
    by (simp add: hex_value_def digit_val_def)
  with run ans show ?thesis by blast
qed

theorem gas_limit_overflow_rejected_witness:
  "\<exists>w a. proc_run e2e_collab (createRpcHandler e2e_deps)
        (\<lambda>_. Some (e2e_gas_request ''0x100000000000000000000000000000000'')) (Booting example_world) [Started] (Serving w a) \<and>
     (\<exists>resp. serve a (createRpcHandler e2e_deps) (\<lambda>_. Some (e2e_gas_request ''0x100000000000000000000000000000000''))
         post_request = Some resp \<and> status resp = 200 \<and>
       resp_body resp = rpc_failure (request_id (e2e_gas_request ''0x100000000000000000000000000000000''))
         (InvalidParams ''userOperation.paymasterVerificationGasLimit''))"
proof -
  from e2e_serving obtain w a where
    run: "proc_run e2e_collab (createRpcHandler e2e_deps)
        (\<lambda>_. Some (e2e_gas_request ''0x100000000000000000000000000000000'')) (Booting example_world) [Started] (Serving w a)"
    by blast
  have m: "parse_method ''pm_getPaymasterStubData_v2'' = Inr (StubData, V2)"
    by (simp add: parse_method_def version_of_suffix_def)
  have chk: "check_fields (e2e_op @ [(''paymasterVerificationGasLimit'', JStr ''0x100000000000000000000000000000000'')])
      (required_fields V2) = Inr ()"
    by (simp add: is_hex_string_def digit_val_def)
  have ep: "is_address entry_point_v1" by (simp add: is_address_def is_hex_string_def digit_val_def)
  have big: "2 ^ 128 \<le> hex_value ''0x100000000000000000000000000000000''"
    by (simp add: hex_value_def digit_val_def)
  have "\<exists>resp. serve a (createRpcHandler e2e_deps) (\<lambda>_. Some (e2e_gas_request ''0x100000000000000000000000000000000''))
         post_request = Some resp \<and> status resp = 200 \<and>
       resp_body resp = rpc_failure (request_id (e2e_gas_request ''0x100000000000000000000000000000000''))
         (InvalidParams ''userOperation.paymasterVerificationGasLimit'')"
    by (rule gas_limit_overflow_rejected [OF run _ _ _ _ e2e_gas_envelope m _ chk ep _ big]) (simp_all add: header_def)
  with run show ?thesis by blast
qed

theorem invalid_envelope_invalid_request_witness:
  "\<exists>w a. proc_run e2e_collab (createRpcHandler e2e_deps)
        (\<lambda>_. Some (JObj [(''jsonrpc'', JStr ''1.0''), (''id'', JNum 7), (''method'', JStr ''pm_getPaymasterStubData_v1'')]))
        (Booting example_world) [Started] (Serving w a) \<and>
     (\<exists>resp. serve a (createRpcHandler e2e_deps)
        (\<lambda>_. Some (JObj [(''jsonrpc'', JStr ''1.0''), (''id'', JNum 7), (''method'', JStr ''pm_getPaymasterStubData_v1'')]))
        post_request = Some resp \<and> status resp = 200 \<and>
        resp_body resp = JObj [(''jsonrpc'', JStr ''2.0''), (''id'', JNum 7),
          (''error'', JObj [(''code'', JNum (-32600)), (''message'', JStr ''Invalid Request'')])])"
proof -
  let ?j = "JObj [(''jsonrpc'', JStr ''1.0''), (''id'', JNum 7), (''method'', JStr ''pm_getPaymasterStubData_v1'')]"
  from e2e_serving obtain w a where
    run: "proc_run e2e_collab (createRpcHandler e2e_deps) (\<lambda>_. Some ?j) (Booting example_world) [Started] (Serving w a)"
    by blast
  from invalid_envelope_invalid_request [OF run, of post_request ?j] run show ?thesis
    by (auto simp: header_def request_id_def)
qed

theorem first_invalid_field_named_witness:
  "\<exists>w a. proc_run e2e_collab (createRpcHandler e2e_deps)
        (\<lambda>_. Some (JObj [(''jsonrpc'', JStr ''2.0''), (''id'', JNum 2), (''method'', JStr ''pm_getPaymasterStubData_v1''),
                         (''params'', JArr [JObj [(''sender'', JStr ''0x01''), (''nonce'', JStr ''12'')], JStr entry_point_v1])]))
        (Booting example_world) [Started] (Serving w a) \<and>
     (\<exists>resp. serve a (createRpcHandler e2e_deps)
        (\<lambda>_. Some (JObj [(''jsonrpc'', JStr ''2.0''), (''id'', JNum 2), (''method'', JStr ''pm_getPaymasterStubData_v1''),
                         (''params'', JArr [JObj [(''sender'', JStr ''0x01''), (''nonce'', JStr ''12'')], JStr entry_point_v1])]))
        post_request = Some resp \<and> status resp = 200 \<and>
        resp_body resp = JObj [(''jsonrpc'', JStr ''2.0''), (''id'', JNum 2),
          (''error'', JObj [(''code'', JNum (-32602)), (''message'', JStr ''Invalid params: userOperation.nonce'')])])"
proof -
  let ?j = "JObj [(''jsonrpc'', JStr ''2.0''), (''id'', JNum 2), (''method'', JStr ''pm_getPaymasterStubData_v1''),
                  (''params'', JArr [JObj [(''sender'', JStr ''0x01''), (''nonce'', JStr ''12'')], JStr entry_point_v1])]"
  from e2e_serving obtain w a where
    run: "proc_run e2e_collab (createRpcHandler e2e_deps) (\<lambda>_. Some ?j) (Booting example_world) [Started] (Serving w a)"
    by blast
  have good: "\<forall>g\<in>set [''sender'']. \<exists>s. obj_get [(''sender'', JStr ''0x01''), (''nonce'', JStr ''12'')] g = Some (JStr s) \<and>
      is_hex_string s"
    by (simp add: is_hex_string_def digit_val_def)
  have bad: "\<not> (\<exists>s. obj_get [(''sender'', JStr ''0x01''), (''nonce'', JStr ''12'')] ''nonce'' = Some (JStr s) \<and>
      is_hex_string s)"
    by (simp add: is_hex_string_def)
  have "\<exists>resp. serve a (createRpcHandler e2e_deps) (\<lambda>_. Some ?j) post_request = Some resp \<and> status resp = 200 \<and>
          resp_body resp = JObj [(''jsonrpc'', JStr ''2.0''), (''id'', request_id ?j),
            (''error'', JObj [(''code'', JNum (-32602)), (''message'', JStr (''Invalid params: userOperation.'' @ ''nonce''))])]"
    by (rule first_invalid_field_named [where later = "drop 2 (required_fields V1)", OF run _ _ _ _ _ e2e_stub_method _ good bad])
       (simp_all add: header_def parse_envelope_def)
  with run show ?thesis by (auto simp: request_id_def)
qed

theorem served_paymaster_deployed_witness:
  "\<exists>w a resp res. proc_run (with_bootstrap e2e_collab example_artifacts) (createRpcHandler e2e_deps)
        (\<lambda>_. Some (e2e_request ''pm_getPaymasterStubData_v1'')) (Booting example_world) [Started] (Serving w a) \<and>
     serve a (createRpcHandler e2e_deps) (\<lambda>_. Some (e2e_request ''pm_getPaymasterStubData_v1'')) post_request = Some resp \<and>
     resp_body resp = rpc_success (JNum 1) res \<and>
     (\<exists>p rest. res = JObj ((''paymaster'', JStr p) # rest) \<and> deployed_at w p)"
proof -
  from serving_with_bootstrap obtain w a where
    run: "proc_run (with_bootstrap e2e_collab example_artifacts) (createRpcHandler e2e_deps)
            (\<lambda>_. Some (e2e_request ''pm_getPaymasterStubData_v1'')) (Booting example_world) [Started] (Serving w a)"
    by blast
  from e2e_answer_json [OF e2e_result [OF e2e_stub_method] run, of 1700000000] obtain resp res where
    ans: "serve a (createRpcHandler e2e_deps) (\<lambda>_. Some (e2e_request ''pm_getPaymasterStubData_v1'')) post_request = Some resp"
      "resp_body resp = rpc_success (JNum 1) res" by (auto simp: request_id_def)
  have "\<exists>p rest. res = JObj ((''paymaster'', JStr p) # rest) \<and> deployed_at w p"
    by (rule served_paymaster_deployed [OF run _ _ _ _ _ _ ans])
       (simp_all add: header_def deployable_def not_deployed_def)
  with run ans show ?thesis by blast
qed

theorem handler_gets_main_clients_witness:
  "\<exists>w a. proc_run example_collab (createRpcHandler e2e_deps) (\<lambda>_. Some (e2e_request ''pm_getPaymasterStubData_v1''))
        (Booting (example_world\<lparr>env := [''ANVIL_RPC'' \<mapsto> ''http://anvil:8545'']\<rparr>)) [Started] (Serving w a) \<and>
     serve a (createRpcHandler e2e_deps) (\<lambda>_. Some (e2e_request ''pm_getPaymasterStubData_v1'')) post_request =
       Some (with_cors (Some relay_cors)
         (createRpcHandler e2e_deps
            \<lparr>bundler = \<lparr>transport_url = ''http://127.0.0.1:8545'', client_chain = foundry\<rparr>,
             publicClient = \<lparr>transport_url = ''http://anvil:8545'', client_chain = foundry\<rparr>,
             paymasterSigner = ''0x70997970c51812dc3a010c7d01b50e0d17dc79c8''\<rparr> 1700000000
            (e2e_request ''pm_getPaymasterStubData_v1'')))"
proof -
  let ?w0 = "example_world\<lparr>env := [''ANVIL_RPC'' \<mapsto> ''http://anvil:8545'']\<rparr>"
  have "\<exists>w a. main example_collab ?w0 = Inr (w, a)" by (simp add: startup_eval)
  then obtain w a where run: "proc_run example_collab (createRpcHandler e2e_deps)
        (\<lambda>_. Some (e2e_request ''pm_getPaymasterStubData_v1'')) (Booting ?w0) [Started] (Serving w a)"
    by (auto dest: serving_of_main)
  from handler_gets_main_clients [OF run, of post_request "e2e_request ''pm_getPaymasterStubData_v1''"] run
  show ?thesis by (auto simp: header_def console_log_def)
qed

end
